theory Spec2Isabelle
  imports Complex_Main "HOL-Library.Log_Nat" "HOL-Library.Sublist"
begin

section \<open>Python values\<close>

text \<open>
  The report generator of \<^verbatim>\<open>Spartan_PDF V1.py\<close> works on what \<^verbatim>\<open>response.json()\<close>
  returns: Python objects built from \<^verbatim>\<open>None\<close>, booleans, integers, floats, strings,
  lists and dictionaries. A dictionary is an association list in insertion order with
  distinct keys; a lookup reads the first entry of a key. A string is the list of the
  bytes of its UTF-8 encoding: what Python computes on it from the Unicode tables is
  computed here for ASCII text and is a parameter beyond it.
\<close>

subsection \<open>Floats\<close>

text \<open>
  A Python float is an IEEE 754 binary64 value. A finite one is a sign (\<open>True\<close> for
  negative) and a magnitude, so that \<^verbatim>\<open>-0.0\<close> is \<open>Fin True 0\<close>.
\<close>

datatype pyfloat = Fin bool rat | Infinity bool | NaN

datatype pynum = PInt int | PFloat pyfloat

datatype json =
    JNull
  | JBool bool
  | JNum pynum
  | JStr string
  | JList "json list"
  | JDict "(string \<times> json) list"

datatype exn =
    KeyError | TypeError | AttributeError | IndexError | ValueError
  | OverflowError | ZeroDivisionError

type_synonym 'a result = "exn + 'a"

definition pow2 :: "int \<Rightarrow> rat" where
  "pow2 e = (if 0 \<le> e then 2 ^ nat e else 1 / 2 ^ nat (- e))"

definition ilog2 :: "rat \<Rightarrow> int" where
  \<comment> \<open>for \<open>0 < q\<close>, the exponent \<open>e\<close> with \<open>2^e \<le> q < 2^(e+1)\<close>\<close>
  "ilog2 q = (if 1 \<le> q then bitlen \<lfloor>q\<rfloor> - 1 else - bitlen (\<lceil>1 / q\<rceil> - 1))"

definition round_half_even :: "rat \<Rightarrow> int" where
  "round_half_even x =
     (if x - of_int \<lfloor>x\<rfloor> < 1 / 2 then \<lfloor>x\<rfloor>
      else if 1 / 2 < x - of_int \<lfloor>x\<rfloor> then \<lfloor>x\<rfloor> + 1
      else if even \<lfloor>x\<rfloor> then \<lfloor>x\<rfloor> else \<lfloor>x\<rfloor> + 1)"

definition quantize :: "rat \<Rightarrow> rat \<Rightarrow> rat" where
  \<comment> \<open>the multiple of the unit \<open>u\<close> nearest to \<open>q\<close>\<close>
  "quantize q u = of_int (round_half_even (q / u)) * u"

definition round_double :: "rat \<Rightarrow> rat" where
  \<comment> \<open>nearest magnitude with a 53-bit significand (ties to even), subnormals from
      exponent -1022 downwards; a result of \<open>2^1024\<close> or more stands for overflow\<close>
  "round_double q =
     (if q = 0 then 0 else quantize q (pow2 (max (ilog2 q) (- 1022) - 52)))"

definition in_range :: "bool \<Rightarrow> rat \<Rightarrow> pyfloat" where
  "in_range s r = (if pow2 1024 \<le> r then Infinity s else Fin s r)"

definition mk_float :: "bool \<Rightarrow> rat \<Rightarrow> pyfloat" where
  \<comment> \<open>the float nearest to the exact magnitude \<open>q\<close>; overflow gives an infinity\<close>
  "mk_float s q = in_range s (round_double q)"

definition signed :: "bool \<Rightarrow> rat \<Rightarrow> rat" where
  "signed s q = (if s then - q else q)"

fun float_sub :: "pyfloat \<Rightarrow> pyfloat \<Rightarrow> pyfloat" where
  "float_sub NaN y = NaN"
| "float_sub x NaN = NaN"
| "float_sub (Infinity s) (Infinity t) = (if s = t then NaN else Infinity s)"
| "float_sub (Infinity s) (Fin t b) = Infinity s"
| "float_sub (Fin s a) (Infinity t) = Infinity (\<not> t)"
| "float_sub (Fin s a) (Fin t b) =
     (if signed s a = signed t b then Fin (s \<and> \<not> t) 0
      else mk_float (signed s a < signed t b) \<bar>signed s a - signed t b\<bar>)"

fun float_mul :: "pyfloat \<Rightarrow> pyfloat \<Rightarrow> pyfloat" where
  "float_mul NaN y = NaN"
| "float_mul x NaN = NaN"
| "float_mul (Infinity s) (Infinity t) = Infinity (s \<noteq> t)"
| "float_mul (Infinity s) (Fin t b) = (if b = 0 then NaN else Infinity (s \<noteq> t))"
| "float_mul (Fin s a) (Infinity t) = (if a = 0 then NaN else Infinity (s \<noteq> t))"
| "float_mul (Fin s a) (Fin t b) = mk_float (s \<noteq> t) (a * b)"

fun float_is_zero :: "pyfloat \<Rightarrow> bool" where
  "float_is_zero (Fin s a) = (a = 0)"
| "float_is_zero x = False"

fun float_div :: "pyfloat \<Rightarrow> pyfloat \<Rightarrow> pyfloat result" where
  \<comment> \<open>\<^verbatim>\<open>x / y\<close> on floats: a zero divisor raises, whatever the dividend\<close>
  "float_div x (Fin t b) =
     (if b = 0 then Inl ZeroDivisionError
      else case x of
             NaN \<Rightarrow> Inr NaN
           | Infinity s \<Rightarrow> Inr (Infinity (s \<noteq> t))
           | Fin s a \<Rightarrow> Inr (mk_float (s \<noteq> t) (a / b)))"
| "float_div x (Infinity t) =
     (case x of Fin s a \<Rightarrow> Inr (Fin (s \<noteq> t) 0) | _ \<Rightarrow> Inr NaN)"
| "float_div x NaN = Inr NaN"

fun float_pos :: "pyfloat \<Rightarrow> bool" where
  \<comment> \<open>\<^verbatim>\<open>x > 0\<close>\<close>
  "float_pos (Fin s a) = (\<not> s \<and> 0 < a)"
| "float_pos (Infinity s) = (\<not> s)"
| "float_pos NaN = False"

definition int_to_float :: "int \<Rightarrow> pyfloat result" where
  \<comment> \<open>\<^verbatim>\<open>float(i)\<close>: the nearest float, \<^verbatim>\<open>OverflowError\<close> when there is none\<close>
  "int_to_float i =
     (case mk_float (i < 0) (of_int \<bar>i\<bar>) of
        Infinity s \<Rightarrow> Inl OverflowError
      | f \<Rightarrow> Inr f)"

subsection \<open>Decimal text\<close>

fun str_nat :: "nat \<Rightarrow> string" where
  "str_nat n =
     (if n < 10 then [''0123456789'' ! n]
      else str_nat (n div 10) @ [''0123456789'' ! (n mod 10)])"

declare str_nat.simps [simp del]

definition str_int :: "int \<Rightarrow> string" where
  "str_int i = (if i < 0 then CHR ''-'' # str_nat (nat (- i)) else str_nat (nat i))"

definition rbind :: "'a result \<Rightarrow> ('a \<Rightarrow> 'b result) \<Rightarrow> 'b result" where
  \<comment> \<open>sequencing: an exception of the first step is the exception of the whole\<close>
  "rbind m f = (case m of Inl e \<Rightarrow> Inl e | Inr x \<Rightarrow> f x)"

definition lit :: "rat \<Rightarrow> pyfloat" where
  \<comment> \<open>the float a decimal literal of the source denotes, e.g. \<^verbatim>\<open>0.30\<close>\<close>
  "lit q = mk_float False q"

fun float_lt :: "pyfloat \<Rightarrow> pyfloat \<Rightarrow> bool" where
  \<comment> \<open>\<^verbatim>\<open>x < y\<close>\<close>
  "float_lt NaN y = False"
| "float_lt x NaN = False"
| "float_lt (Infinity s) (Infinity t) = (s \<and> \<not> t)"
| "float_lt (Infinity s) (Fin t b) = s"
| "float_lt (Fin s a) (Infinity t) = (\<not> t)"
| "float_lt (Fin s a) (Fin t b) = (signed s a < signed t b)"

subsection \<open>Formatting numbers\<close>

fun group3 :: "string \<Rightarrow> string" where
  \<comment> \<open>the thousands separator of the format option \<^verbatim>\<open>,\<close>: on the reversed digits\<close>
  "group3 (a # b # c # d # ds) = a # b # c # CHR '','' # group3 (d # ds)"
| "group3 ds = ds"

definition pad_zeros :: "nat \<Rightarrow> string \<Rightarrow> string" where
  "pad_zeros w ds = replicate (w - length ds) CHR ''0'' @ ds"

definition fixed_digits :: "bool \<Rightarrow> nat \<Rightarrow> nat \<Rightarrow> string" where
  \<comment> \<open>the digits of \<open>n / 10^prec\<close> with \<open>prec\<close> decimals\<close>
  "fixed_digits comma prec n =
     (if comma then rev (group3 (rev (str_nat (n div 10 ^ prec)))) else str_nat (n div 10 ^ prec))
     @ (if prec = 0 then [] else CHR ''.'' # pad_zeros prec (str_nat (n mod 10 ^ prec)))"

definition format_fixed :: "bool \<Rightarrow> nat \<Rightarrow> pyfloat \<Rightarrow> string" where
  \<comment> \<open>\<^verbatim>\<open>format(x, ',.Pf')\<close> (with the comma) or \<^verbatim>\<open>format(x, '.Pf')\<close> for a float \<open>x\<close>:
      the exact value rounded to \<open>P\<close> decimals, ties to even\<close>
  "format_fixed comma prec x =
     (case x of
        NaN \<Rightarrow> ''nan''
      | Infinity s \<Rightarrow> (if s then ''-inf'' else ''inf'')
      | Fin s a \<Rightarrow>
          (if s then ''-'' else [])
          @ fixed_digits comma prec (nat (round_half_even (a * 10 ^ prec))))"

subsection \<open>Operations on Python objects\<close>

fun truthy :: "json \<Rightarrow> bool" where
  "truthy JNull = False"
| "truthy (JBool b) = b"
| "truthy (JNum (PInt i)) = (i \<noteq> 0)"
| "truthy (JNum (PFloat x)) = (\<not> float_is_zero x)"
| "truthy (JStr s) = (s \<noteq> [])"
| "truthy (JList xs) = (xs \<noteq> [])"
| "truthy (JDict d) = (d \<noteq> [])"

fun py_get :: "json \<Rightarrow> string \<Rightarrow> json \<Rightarrow> json result" where
  \<comment> \<open>\<^verbatim>\<open>obj.get(key, default)\<close>: only a dictionary has the method\<close>
  "py_get (JDict d) k dflt = Inr (case map_of d k of None \<Rightarrow> dflt | Some v \<Rightarrow> v)"
| "py_get obj k dflt = Inl AttributeError"

fun py_getitem :: "json \<Rightarrow> string \<Rightarrow> json result" where
  \<comment> \<open>\<^verbatim>\<open>obj[key]\<close> with a string key\<close>
  "py_getitem (JDict d) k = (case map_of d k of None \<Rightarrow> Inl KeyError | Some v \<Rightarrow> Inr v)"
| "py_getitem obj k = Inl TypeError"

fun py_first :: "json \<Rightarrow> json result" where
  \<comment> \<open>\<^verbatim>\<open>obj[0]\<close>\<close>
  "py_first (JList xs) = (case xs of [] \<Rightarrow> Inl IndexError | x # _ \<Rightarrow> Inr x)"
| "py_first (JStr s) = (case s of [] \<Rightarrow> Inl IndexError | c # _ \<Rightarrow> Inr (JStr [c]))"
| "py_first (JDict d) = Inl KeyError"
| "py_first obj = Inl TypeError"

fun py_contains :: "string \<Rightarrow> json \<Rightarrow> bool result" where
  \<comment> \<open>\<^verbatim>\<open>key in obj\<close> with a string key\<close>
  "py_contains k (JDict d) = Inr (map_of d k \<noteq> None)"
| "py_contains k (JList xs) = Inr (JStr k \<in> set xs)"
| "py_contains k (JStr s) = Inr (sublist k s)"
| "py_contains k obj = Inl TypeError"

fun py_iter :: "json \<Rightarrow> json list result" where
  \<comment> \<open>the items a \<^verbatim>\<open>for\<close> loop over the object visits\<close>
  "py_iter (JList xs) = Inr xs"
| "py_iter (JDict d) = Inr (map (\<lambda>(k, v). JStr k) d)"
| "py_iter (JStr s) = Inr (map (\<lambda>c. JStr [c]) s)"
| "py_iter obj = Inl TypeError"

fun hashable :: "json \<Rightarrow> bool" where
  "hashable (JList xs) = False"
| "hashable (JDict d) = False"
| "hashable obj = True"

fun as_number :: "json \<Rightarrow> pynum option" where
  \<comment> \<open>the numeric types: \<^verbatim>\<open>bool\<close> is a subclass of \<^verbatim>\<open>int\<close>\<close>
  "as_number (JNum n) = Some n"
| "as_number (JBool b) = Some (PInt (if b then 1 else 0))"
| "as_number obj = None"

fun to_float :: "pynum \<Rightarrow> pyfloat result" where
  "to_float (PInt i) = int_to_float i"
| "to_float (PFloat x) = Inr x"

definition py_div_1000 :: "json \<Rightarrow> pyfloat result" where
  \<comment> \<open>\<^verbatim>\<open>v / 1000\<close>: true division; of two integers it is the correctly rounded quotient\<close>
  "py_div_1000 v =
     (case as_number v of
        None \<Rightarrow> Inl TypeError
      | Some (PInt i) \<Rightarrow>
          (case mk_float (i < 0) (\<bar>of_int i\<bar> / 1000) of
             Infinity s \<Rightarrow> Inl OverflowError
           | q \<Rightarrow> Inr q)
      | Some (PFloat x) \<Rightarrow> float_div x (Fin False 1000))"

definition py_div_float :: "json \<Rightarrow> pyfloat \<Rightarrow> pyfloat result" where
  \<comment> \<open>\<^verbatim>\<open>v / y\<close> for a float \<open>y\<close>\<close>
  "py_div_float v y =
     (case as_number v of
        None \<Rightarrow> Inl TypeError
      | Some n \<Rightarrow> rbind (to_float n) (\<lambda>x. float_div x y))"

definition py_mul_float :: "json \<Rightarrow> pyfloat \<Rightarrow> pyfloat result" where
  \<comment> \<open>\<^verbatim>\<open>v * y\<close> for a float \<open>y\<close>; a sequence cannot be multiplied by a float\<close>
  "py_mul_float v y =
     (case as_number v of
        None \<Rightarrow> Inl TypeError
      | Some n \<Rightarrow> rbind (to_float n) (\<lambda>x. Inr (float_mul x y)))"

definition py_format_f :: "bool \<Rightarrow> nat \<Rightarrow> json \<Rightarrow> string result" where
  \<comment> \<open>\<^verbatim>\<open>format(v, ',.Pf')\<close> or \<^verbatim>\<open>format(v, '.Pf')\<close>: an integer is converted to a float,
      a string refuses the format code, other objects refuse any format string\<close>
  "py_format_f comma prec v =
     (case as_number v of
        Some n \<Rightarrow> rbind (to_float n) (\<lambda>x. Inr (format_fixed comma prec x))
      | None \<Rightarrow> (case v of JStr s \<Rightarrow> Inl ValueError | _ \<Rightarrow> Inl TypeError))"

subsection \<open>Strings\<close>

definition is_lower :: "char \<Rightarrow> bool" where
  "is_lower c = (97 \<le> (of_char c :: nat) \<and> (of_char c :: nat) \<le> 122)"

definition is_upper :: "char \<Rightarrow> bool" where
  "is_upper c = (65 \<le> (of_char c :: nat) \<and> (of_char c :: nat) \<le> 90)"

definition to_upper :: "char \<Rightarrow> char" where
  "to_upper c = (if is_lower c then char_of ((of_char c :: nat) - 32) else c)"

definition to_lower :: "char \<Rightarrow> char" where
  "to_lower c = (if is_upper c then char_of ((of_char c :: nat) + 32) else c)"

fun title_from :: "bool \<Rightarrow> string \<Rightarrow> string" where
  \<comment> \<open>\<^verbatim>\<open>str.title\<close> on ASCII text, the flag telling whether the previous character
      is cased\<close>
  "title_from prev [] = []"
| "title_from prev (c # cs) =
     (if is_lower c \<or> is_upper c
      then (if prev then to_lower c else to_upper c) # title_from True cs
      else c # title_from False cs)"

definition is_ascii :: "string \<Rightarrow> bool" where
  "is_ascii s = list_all (\<lambda>c. (of_char c :: nat) < 128) s"

definition title :: "(string \<Rightarrow> string) \<Rightarrow> string \<Rightarrow> string" where
  \<comment> \<open>\<^verbatim>\<open>s.title()\<close>; on text beyond ASCII the casing is that of the interpreter's
      Unicode tables, the parameter \<open>T\<close>\<close>
  "title T s = (if is_ascii s then title_from False s else T s)"

definition is_space :: "char \<Rightarrow> bool" where
  \<comment> \<open>the ASCII characters \<^verbatim>\<open>str.isspace\<close> accepts\<close>
  "is_space c = (let n = (of_char c :: nat) in (9 \<le> n \<and> n \<le> 13) \<or> (28 \<le> n \<and> n \<le> 32))"

definition strip :: "(string \<Rightarrow> string) \<Rightarrow> string \<Rightarrow> string" where
  \<comment> \<open>\<^verbatim>\<open>s.strip()\<close>; on text beyond ASCII the white space is that of the interpreter's
      Unicode tables, the parameter \<open>S\<close>\<close>
  "strip S s =
     (if is_ascii s then rev (dropWhile is_space (rev (dropWhile is_space s))) else S s)"

definition replace_Z :: "string \<Rightarrow> string" where
  \<comment> \<open>\<^verbatim>\<open>s.replace('Z', '+00:00')\<close>\<close>
  "replace_Z s = concat (map (\<lambda>c. if c = CHR ''Z'' then ''+00:00'' else [c]) s)"

fun py_str :: "(json \<Rightarrow> string) \<Rightarrow> json \<Rightarrow> string" where
  \<comment> \<open>\<^verbatim>\<open>str(v)\<close>. The text of a float, a list or a dictionary is the interpreter's
      \<^verbatim>\<open>repr\<close>, the parameter \<open>R\<close>.\<close>
  "py_str R (JStr s) = s"
| "py_str R JNull = ''None''"
| "py_str R (JBool b) = (if b then ''True'' else ''False'')"
| "py_str R (JNum (PInt i)) = str_int i"
| "py_str R v = R v"

fun py_title :: "(string \<Rightarrow> string) \<Rightarrow> json \<Rightarrow> json result" where
  \<comment> \<open>\<^verbatim>\<open>v.title()\<close>: only a string has the method\<close>
  "py_title T (JStr s) = Inr (JStr (title T s))"
| "py_title T v = Inl AttributeError"

section \<open>FooterCanvas\<close>

text \<open>
  \<^verbatim>\<open>FooterCanvas\<close> subclasses reportlab's \<^verbatim>\<open>Canvas\<close>. Of the base class the model keeps
  what the subclass relies on: the page size, the drawing code of the page under
  construction, the current font, the page number, and the pages already emitted
  into the document. \<^verbatim>\<open>stringWidth\<close> (font metrics) belongs to reportlab and the clock
  to the system; both are parameters.
\<close>

datatype draw_op =
    SetFont string nat
  | DrawString pynum pynum string
  | Content string

record canvas_dict =
  pagesize :: "pyfloat \<times> pyfloat"
  code :: "draw_op list"
  font :: "string \<times> nat"
  pageNumber :: nat

record footer_canvas =
  dict :: canvas_dict
  pages :: "canvas_dict list"
  emitted :: "draw_op list list"
  saved :: bool

record footer_env =
  stringWidth :: "string \<Rightarrow> string \<Rightarrow> nat \<Rightarrow> pyfloat"
  footer_time :: "nat \<Rightarrow> string"

definition startPage :: "canvas_dict \<Rightarrow> canvas_dict" where
  \<comment> \<open>\<^verbatim>\<open>Canvas._startPage\<close>: next page number, empty code, initial graphics state\<close>
  "startPage d = d\<lparr>code := [], font := (''Helvetica'', 12), pageNumber := Suc (pageNumber d)\<rparr>"

definition Canvas_showPage :: "footer_canvas \<Rightarrow> footer_canvas" where
  \<comment> \<open>\<^verbatim>\<open>Canvas.showPage\<close>: the page under construction goes into the document\<close>
  "Canvas_showPage c = c\<lparr>emitted := emitted c @ [code (dict c)], dict := startPage (dict c)\<rparr>"

definition setFont :: "string \<Rightarrow> nat \<Rightarrow> footer_canvas \<Rightarrow> footer_canvas" where
  "setFont name sz c =
     c\<lparr>dict := (dict c)\<lparr>font := (name, sz), code := code (dict c) @ [SetFont name sz]\<rparr>\<rparr>"

definition drawString :: "pynum \<Rightarrow> pynum \<Rightarrow> string \<Rightarrow> footer_canvas \<Rightarrow> footer_canvas" where
  "drawString x y s c = c\<lparr>dict := (dict c)\<lparr>code := code (dict c) @ [DrawString x y s]\<rparr>\<rparr>"

definition showPage :: "footer_canvas \<Rightarrow> footer_canvas" where
  \<comment> \<open>\<^verbatim>\<open>FooterCanvas.showPage\<close>: buffer the page instead of emitting it\<close>
  "showPage c = c\<lparr>pages := pages c @ [dict c], dict := startPage (dict c)\<rparr>"

definition draw_footer :: "footer_env \<Rightarrow> nat \<Rightarrow> nat \<Rightarrow> footer_canvas \<Rightarrow> footer_canvas" where
  "draw_footer E page_num page_count c =
     (let width = fst (pagesize (dict c));
          current_time = footer_time E page_num;
          page_info = ''Page '' @ str_nat page_num @ '' of '' @ str_nat page_count;
          c1 = setFont ''Helvetica'' 9 c;
          c2 = drawString (PInt 72) (PInt 30) ('' SPARTAN HOME SERVICES '' @ current_time) c1;
          page_num_width = stringWidth E page_info ''Helvetica'' 9
      in drawString
           (PFloat (float_sub (float_sub width (Fin False 72)) page_num_width))
           (PInt 30) page_info c2)"

fun stamp_pages ::
  "footer_env \<Rightarrow> nat \<Rightarrow> nat \<Rightarrow> canvas_dict list \<Rightarrow> footer_canvas \<Rightarrow> footer_canvas" where
  \<comment> \<open>the loop of \<^verbatim>\<open>save\<close> over \<^verbatim>\<open>enumerate(self.pages, 1)\<close>\<close>
  "stamp_pages E page_count page_num [] c = c"
| "stamp_pages E page_count page_num (page # rest) c =
     stamp_pages E page_count (Suc page_num) rest
       (Canvas_showPage (draw_footer E page_num page_count (c\<lparr>dict := page\<rparr>)))"

definition Canvas_save :: "footer_canvas \<Rightarrow> footer_canvas" where
  \<comment> \<open>\<^verbatim>\<open>Canvas.save\<close>: a page still under construction is ended through the
      (overridden) \<^verbatim>\<open>showPage\<close>, then the file is written\<close>
  "Canvas_save c = (if code (dict c) \<noteq> [] then showPage c else c)\<lparr>saved := True\<rparr>"

definition save :: "footer_env \<Rightarrow> footer_canvas \<Rightarrow> footer_canvas" where
  "save E c =
     (let page_count = length (pages c)
      in Canvas_save (stamp_pages E page_count 1 (pages c) c))"

definition new_canvas :: footer_canvas where
  \<comment> \<open>\<^verbatim>\<open>FooterCanvas(...)\<close> on letter paper, as \<^verbatim>\<open>SimpleDocTemplate\<close> creates it\<close>
  "new_canvas =
     \<lparr>dict = \<lparr>pagesize = (Fin False 612, Fin False 792), code = [],
              font = (''Helvetica'', 12), pageNumber = 1\<rparr>,
      pages = [], emitted = [], saved = False\<rparr>"

definition draw_page :: "draw_op list \<Rightarrow> footer_canvas \<Rightarrow> footer_canvas" where
  \<comment> \<open>the document template draws one laid-out page and ends it\<close>
  "draw_page ops c = showPage (c\<lparr>dict := (dict c)\<lparr>code := code (dict c) @ ops\<rparr>\<rparr>)"

definition render_pages :: "footer_env \<Rightarrow> draw_op list list \<Rightarrow> footer_canvas" where
  \<comment> \<open>what \<^verbatim>\<open>doc.build(..., canvasmaker=FooterCanvas)\<close> does with the canvas once
      the layout has split the flowables into pages\<close>
  "render_pages E pgs = save E (foldl (\<lambda>c ops. draw_page ops c) new_canvas pgs)"

definition footer_texts :: "draw_op list \<Rightarrow> string list" where
  "footer_texts ops = concat (map (\<lambda>d. case d of DrawString x y s \<Rightarrow> [s] | _ \<Rightarrow> []) ops)"

section \<open>The environment\<close>

text \<open>
  What the program reads from outside is a parameter of the model: the remote service
  (\<open>http\<close>: the answer to a request, which may depend on everything requested or slept
  before), the image decoder and the layout engine of reportlab (\<open>image_size\<close>,
  \<open>layout\<close>, \<open>stringWidth\<close>; \<open>None\<close> stands for an exception), the file system
  (\<open>path_exists\<close>), the clock (\<open>file_time\<close>, \<open>footer_time\<close>), and two functions of the
  Python library: \<open>long_date\<close> is \<^verbatim>\<open>datetime.fromisoformat(s).strftime('%B %d, %Y')\<close>,
  \<open>None\<close> where \<^verbatim>\<open>fromisoformat\<close> raises, and \<open>repr\<close> is the text of a float, a list or a
  dictionary; \<open>unicode_title\<close> and \<open>unicode_strip\<close> are \<^verbatim>\<open>str.title\<close> and \<^verbatim>\<open>str.strip\<close> on
  text beyond ASCII. \<^verbatim>\<open>doc.build\<close> is given the list of flowables itself and takes out
  of it what it lays out: \<open>build_leaves\<close> is what it leaves in the list. Calls of the
  logger change nothing the program reads and are left out.
\<close>

datatype event =
    Request string string "(string \<times> string) list"
  | Sleep nat

record response =
  status_code :: nat
  content_type :: string
  content :: string
  json_body :: "json option"

datatype http_result = RequestException | Response response

datatype image_source = FromPath string | FromBytes string

datatype flowable =
    Paragraph string string
  | Spacer int pyfloat
  | Table "json list list" "pyfloat list"
  | Image image_source pyfloat pyfloat

record env = footer_env +
  http :: "event list \<Rightarrow> event \<Rightarrow> http_result"
  image_size :: "image_source \<Rightarrow> (int \<times> int) option"
  layout :: "flowable list \<Rightarrow> draw_op list list option"
  build_leaves :: "flowable list \<Rightarrow> flowable list"
  path_exists :: "string \<Rightarrow> bool"
  file_time :: string
  long_date :: "string \<Rightarrow> string option"
  repr :: "json \<Rightarrow> string"
  unicode_title :: "string \<Rightarrow> string"
  unicode_strip :: "string \<Rightarrow> string"

definition send :: "env \<Rightarrow> event list \<Rightarrow> event \<Rightarrow> http_result \<times> event list" where
  \<comment> \<open>a request is answered and recorded\<close>
  "send E tr req = (http E tr req, tr @ [req])"

definition raise_for_status :: "response \<Rightarrow> bool" where
  \<comment> \<open>whether \<^verbatim>\<open>response.raise_for_status()\<close> raises \<^verbatim>\<open>HTTPError\<close>\<close>
  "raise_for_status r = (400 \<le> status_code r \<and> status_code r < 600)"

section \<open>AuroraAPI\<close>

record AuroraAPI =
  api_key :: string
  tenant_id :: string

definition base_url :: string where
  "base_url = ''https://api.aurorasolar.com''"

definition headers :: "AuroraAPI \<Rightarrow> (string \<times> string) list" where
  "headers api =
     [(''Authorization'', ''Bearer '' @ api_key api), (''Content-Type'', ''application/json'')]"

definition validate_credentials :: "env \<Rightarrow> AuroraAPI \<Rightarrow> event list \<Rightarrow> bool \<times> event list" where
  "validate_credentials E api tr =
     (let (res, tr1) = send E tr (Request ''GET'' (base_url @ ''/tenants/'' @ tenant_id api) (headers api))
      in case res of
           RequestException \<Rightarrow> (False, tr1)
         | Response r \<Rightarrow>
             if status_code r = 401 then (False, tr1)
             else if status_code r = 403 then (False, tr1)
             else if status_code r = 404 then (False, tr1)
             else if raise_for_status r then (False, tr1)
             else (True, tr1))"

definition make_request :: "env \<Rightarrow> AuroraAPI \<Rightarrow> event list \<Rightarrow> string \<Rightarrow> json \<times> event list" where
  \<comment> \<open>\<^verbatim>\<open>_make_request(endpoint)\<close> with the default method and no parameters\<close>
  "make_request E api tr endpoint =
     (let url = base_url @ ''/tenants/'' @ tenant_id api @ endpoint;
          (res, tr1) = send E tr (Request ''GET'' url (headers api))
      in case res of
           RequestException \<Rightarrow> (JDict [], tr1)
         | Response r \<Rightarrow>
             if raise_for_status r then (JDict [], tr1)
             else case json_body r of
                    None \<Rightarrow> (JDict [], tr1)
                  | Some data \<Rightarrow> (data, tr1))"

definition get_project :: "env \<Rightarrow> AuroraAPI \<Rightarrow> event list \<Rightarrow> string \<Rightarrow> json \<times> event list" where
  "get_project E api tr project_id = make_request E api tr (''/projects/'' @ project_id)"

definition get_design_summary :: "env \<Rightarrow> AuroraAPI \<Rightarrow> event list \<Rightarrow> string \<Rightarrow> json \<times> event list" where
  "get_design_summary E api tr design_id =
     make_request E api tr (''/designs/'' @ design_id @ ''/summary'')"

definition get_design_assets :: "env \<Rightarrow> AuroraAPI \<Rightarrow> event list \<Rightarrow> string \<Rightarrow> json \<times> event list" where
  "get_design_assets E api tr design_id =
     make_request E api tr (''/designs/'' @ design_id @ ''/assets'')"

definition get_design_pricing ::
  "env \<Rightarrow> AuroraAPI \<Rightarrow> event list \<Rightarrow> string \<Rightarrow> json result \<times> event list" where
  "get_design_pricing E api tr design_id =
     (let (data, tr1) = make_request E api tr (''/designs/'' @ design_id @ ''/pricing'')
      in (py_get data ''pricing'' (JDict []), tr1))"

definition download_image ::
  "env \<Rightarrow> AuroraAPI \<Rightarrow> event list \<Rightarrow> json \<Rightarrow> string option \<times> event list" where
  \<comment> \<open>the image bytes, or \<open>None\<close>; every exception is caught inside, also the
      \<^verbatim>\<open>AttributeError\<close> of \<^verbatim>\<open>url.startswith\<close> on a URL that is no string\<close>
  "download_image E api tr url =
     (case url of
        JStr u \<Rightarrow>
          (let hs = (if prefix ''https://aurora-user-data.s3.amazonaws.com'' u
                     then [(''Accept'', ''image/*'')] else headers api);
               (res, tr1) = send E tr (Request ''GET'' u hs)
           in case res of
                RequestException \<Rightarrow> (None, tr1)
              | Response r \<Rightarrow>
                  if raise_for_status r then (None, tr1)
                  else if \<not> prefix ''image/'' (content_type r) then (None, tr1)
                  else (Some (content r), tr1))
      | _ \<Rightarrow> (None, tr))"

section \<open>PDFGenerator\<close>

record PDFGenerator =
  filename :: string
  elements :: "flowable list"

definition inch :: pyfloat where
  "inch = Fin False 72"

definition doc_width :: pyfloat where
  \<comment> \<open>\<^verbatim>\<open>self.doc.width\<close>: the letter page less the two margins of 72\<close>
  "doc_width = float_sub (float_sub (Fin False 612) (Fin False 72)) (Fin False 72)"

definition new_pdf :: "string \<Rightarrow> PDFGenerator" where
  "new_pdf name = \<lparr>filename = name, elements = []\<rparr>"

definition append_els :: "flowable list \<Rightarrow> PDFGenerator \<Rightarrow> PDFGenerator" where
  "append_els fs pdf = pdf\<lparr>elements := elements pdf @ fs\<rparr>"

definition aspect_of :: "int \<times> int \<Rightarrow> pyfloat result" where
  \<comment> \<open>\<^verbatim>\<open>imageHeight / float(imageWidth)\<close> for the pixel size \<open>(width, height)\<close>\<close>
  "aspect_of wh =
     rbind (int_to_float (fst wh)) (\<lambda>w. rbind (int_to_float (snd wh)) (\<lambda>h. float_div h w))"

definition add_logo :: "env \<Rightarrow> string \<Rightarrow> PDFGenerator \<Rightarrow> bool \<times> PDFGenerator" where
  "add_logo E logo_path pdf =
     (case image_size E (FromPath logo_path) of
        None \<Rightarrow> (False, pdf)
      | Some wh \<Rightarrow>
          (case aspect_of wh of
             Inl e \<Rightarrow> (False, pdf)
           | Inr aspect \<Rightarrow>
               (let max_width = float_mul doc_width (lit (1 / 4))
                in (True, append_els [Image (FromPath logo_path) max_width (float_mul max_width aspect),
                                  Spacer 1 (float_mul (lit (1 / 4)) inch)] pdf))))"

definition add_title :: "string \<Rightarrow> PDFGenerator \<Rightarrow> PDFGenerator" where
  "add_title text pdf =
     append_els [Paragraph (''<b>'' @ text @ ''</b>'') ''SpartanTitle'',
             Spacer 1 (float_mul (lit (1 / 4)) inch)] pdf"

definition add_header :: "string \<Rightarrow> PDFGenerator \<Rightarrow> PDFGenerator" where
  "add_header text pdf =
     append_els [Paragraph text ''ReportHeader'', Spacer 1 (float_mul (lit (1 / 4)) inch)] pdf"

definition add_paragraph :: "string \<Rightarrow> PDFGenerator \<Rightarrow> PDFGenerator" where
  "add_paragraph text pdf =
     append_els [Paragraph text ''CustomBody'', Spacer 1 (float_mul (lit (12 / 100)) inch)] pdf"

definition add_table :: "json list list \<Rightarrow> PDFGenerator \<Rightarrow> PDFGenerator" where
  \<comment> \<open>with the default column widths and the default style\<close>
  "add_table data pdf =
     append_els [Table data [float_mul (lit (5 / 2)) inch, float_mul (lit (7 / 2)) inch],
             Spacer 1 (float_mul (lit (1 / 4)) inch)] pdf"

definition add_image :: "env \<Rightarrow> string \<Rightarrow> pyfloat \<Rightarrow> PDFGenerator \<Rightarrow> bool \<times> PDFGenerator" where
  \<comment> \<open>\<open>image_data\<close> is the content of the \<^verbatim>\<open>BytesIO\<close> object, which is always true
      as a condition\<close>
  "add_image E image_data width_percentage pdf =
     (case image_size E (FromBytes image_data) of
        None \<Rightarrow> (False, pdf)
      | Some wh \<Rightarrow>
          (case aspect_of wh of
             Inl e \<Rightarrow> (False, pdf)
           | Inr aspect \<Rightarrow>
               (let max_width = float_mul doc_width width_percentage;
                    max_height = float_mul (Fin False 6) inch;
                    drawHeight = float_mul max_width aspect
                in if float_lt max_height drawHeight
                   then (case float_div max_height aspect of
                           Inl e \<Rightarrow> (False, pdf)
                         | Inr drawWidth \<Rightarrow>
                             (True, append_els [Image (FromBytes image_data) drawWidth max_height,
                                            Spacer 1 (float_mul (lit (1 / 4)) inch)] pdf))
                   else (True, append_els [Image (FromBytes image_data) max_width drawHeight,
                                       Spacer 1 (float_mul (lit (1 / 4)) inch)] pdf))))"

definition generate :: "env \<Rightarrow> PDFGenerator \<Rightarrow> footer_canvas option \<times> PDFGenerator" where
  \<comment> \<open>\<^verbatim>\<open>doc.build(self.elements, canvasmaker=FooterCanvas)\<close>: \<open>None\<close> is the result
      \<^verbatim>\<open>False\<close>, the written document otherwise. The builder's own list is what
      \<^verbatim>\<open>build\<close> works on, so the builder comes back with what \<^verbatim>\<open>build\<close> left of it.\<close>
  "generate E pdf =
     (case layout E (elements pdf) of
        None \<Rightarrow> None
      | Some pgs \<Rightarrow> Some (render_pages (footer_env.truncate E) pgs),
      pdf\<lparr>elements := build_leaves E (elements pdf)\<rparr>)"

section \<open>AuroraSolarReport\<close>

record AuroraSolarReport =
  api :: AuroraAPI
  output_dir :: string
  logo_path :: "string option"

definition row :: "string \<Rightarrow> json \<Rightarrow> json list" where
  "row label v = [JStr label, v]"

definition format_project_overview :: "env \<Rightarrow> json \<Rightarrow> json list list option result" where
  \<comment> \<open>\<open>project_data\<close> is \<open>JNull\<close> for \<^verbatim>\<open>None\<close>\<close>
  "format_project_overview E project_data =
     (if \<not> truthy project_data then Inr None
      else rbind (py_contains ''project'' project_data) (\<lambda>has_project.
        if \<not> has_project then Inr None
        else
          rbind (py_getitem project_data ''project'') (\<lambda>project.
          rbind (py_get project ''location'' (JDict [])) (\<lambda>location.
          rbind (py_get location ''property_address_components'' (JDict [])) (\<lambda>address_components.
          rbind (py_get project ''created_at'' (JStr [])) (\<lambda>created_at.
          rbind (py_get project ''created_at'' (JStr ''N/A'')) (\<lambda>created_raw.
          let formatted_date =
                (case created_at of
                   JStr s \<Rightarrow> (case long_date E (replace_Z s) of
                                Some d \<Rightarrow> JStr d
                              | None \<Rightarrow> created_raw)
                 | _ \<Rightarrow> created_raw)
          in
          rbind (py_get project ''customer_first_name'' (JStr [])) (\<lambda>first_name.
          rbind (py_get project ''customer_last_name'' (JStr [])) (\<lambda>last_name.
          let customer_name =
                strip (unicode_strip E) (py_str (repr E) first_name @ '' '' @ py_str (repr E) last_name)
          in
          rbind (py_get project ''name'' (JStr ''N/A'')) (\<lambda>name.
          rbind (py_get address_components ''street_address'' (JStr ''N/A'')) (\<lambda>street.
          rbind (py_get address_components ''city'' (JStr ''N/A'')) (\<lambda>city.
          rbind (py_get address_components ''region'' (JStr ''N/A'')) (\<lambda>region.
          rbind (py_get address_components ''postal_code'' (JStr ''N/A'')) (\<lambda>postal_code.
          rbind (rbind (py_get project ''status'' (JStr ''N/A'')) (py_title (unicode_title E)))
            (\<lambda>status.
          rbind (rbind (py_get project ''project_type'' (JStr ''N/A'')) (py_title (unicode_title E)))
            (\<lambda>project_type.
          Inr (Some
            [row ''Project Details'' (JStr ''Information''),
             row ''Project Name'' name,
             row ''Customer Name'' (JStr (if customer_name \<noteq> [] then customer_name else ''N/A'')),
             row ''Street Address'' street,
             row ''City'' city,
             row ''State'' region,
             row ''ZIP Code'' postal_code,
             row ''Created Date'' formatted_date,
             row ''Status'' status,
             row ''Property Type'' project_type])))))))))))))))))"

subsection \<open>The sections of the report\<close>

text \<open>
  \<^verbatim>\<open>generate_design_report\<close> is one function in the source. Its parts are named here:
  the bill of materials, the rows of the two tables it computes in place, the filter
  of the assets, the two loops of the image section, and the sections themselves.
\<close>

fun materials_of :: "json list \<Rightarrow> (json \<times> json) list result" where
  \<comment> \<open>\<^verbatim>\<open>{item['component_type']: item for item in ...}\<close>; a later item of a key comes
      first in the result, so that a lookup reads the entry the dictionary keeps\<close>
  "materials_of [] = Inr []"
| "materials_of (item # items) =
     rbind (py_getitem item ''component_type'') (\<lambda>k.
       if \<not> hashable k then Inl TypeError
       else rbind (materials_of items) (\<lambda>m. Inr (m @ [(k, item)])))"

definition materials_get :: "(json \<times> json) list \<Rightarrow> string \<Rightarrow> json" where
  \<comment> \<open>\<^verbatim>\<open>materials.get(key, {})\<close>\<close>
  "materials_get m k = (case map_of m (JStr k) of None \<Rightarrow> JDict [] | Some v \<Rightarrow> v)"

definition design_details :: "env \<Rightarrow> json \<Rightarrow> (json list list \<times> pyfloat) result" where
  \<comment> \<open>the rows \<^verbatim>\<open>design_data\<close> and the value \<^verbatim>\<open>system_size\<close> (in kW) computed with them\<close>
  "design_details E design_summary =
     rbind (py_get design_summary ''design'' (JDict [])) (\<lambda>design_info.
     rbind (py_get design_info ''bill_of_materials'' (JList [])) (\<lambda>bom.
     rbind (py_iter bom) (\<lambda>items.
     rbind (materials_of items) (\<lambda>materials.
     let modules = materials_get materials ''modules'';
         inverters = materials_get materials ''microinverters''
     in
     rbind (py_get design_info ''system_size_stc'' (JNum (PInt 0))) (\<lambda>stc.
     rbind (py_div_1000 stc) (\<lambda>system_size.
     rbind (py_get design_info ''energy_production'' (JDict [])) (\<lambda>energy_production.
     rbind (py_get energy_production ''annual'' (JNum (PInt 0))) (\<lambda>annual_production.
     rbind (py_get design_info ''arrays'' (JList [JDict []])) (\<lambda>arrays.
     rbind (py_first arrays) (\<lambda>array0.
     rbind (py_get array0 ''shading'' (JDict [])) (\<lambda>shading.
     rbind (py_get shading ''solar_access'' (JDict [])) (\<lambda>access.
     rbind (py_get access ''annual'' (JNum (PInt 0))) (\<lambda>solar_access.
     rbind (py_format_f True 0 annual_production) (\<lambda>production_text.
     rbind (py_get modules ''quantity'' (JStr ''N/A'')) (\<lambda>quantity.
     rbind (py_get modules ''name'' (JStr ''N/A'')) (\<lambda>panel_model.
     rbind (py_get inverters ''name'' (JStr ''N/A'')) (\<lambda>inverter_model.
     rbind (if truthy solar_access
            then rbind (py_format_f False 1 solar_access) (\<lambda>s. Inr (s @ ''%''))
            else Inr ''N/A'') (\<lambda>access_text.
     Inr ([row ''Metric'' (JStr ''Value''),
           row ''System Size'' (JStr (format_fixed False 2 system_size @ '' kW'')),
           row ''Annual Production'' (JStr (production_text @ '' kWh'')),
           row ''Number of Panels'' (JStr (py_str (repr E) quantity)),
           row ''Panel Model'' panel_model,
           row ''Inverter Model'' inverter_model,
           row ''Solar Access'' (JStr access_text)],
          system_size)))))))))))))))))))"

definition price_per_watt :: "json \<Rightarrow> pyfloat \<Rightarrow> string result" where
  \<comment> \<open>\<^verbatim>\<open>f"${price/(system_size*1000):,.2f}/W" if system_size > 0 else "N/A"\<close>\<close>
  "price_per_watt price system_size =
     (if float_pos system_size
      then rbind (py_div_float price (float_mul system_size (Fin False 1000)))
             (\<lambda>q. Inr (''$'' @ format_fixed True 2 q @ ''/W''))
      else Inr ''N/A'')"

definition financial_data :: "json \<Rightarrow> pyfloat \<Rightarrow> json list list result" where
  "financial_data price system_size =
     rbind (py_format_f True 2 price) (\<lambda>price_text.
     rbind (price_per_watt price system_size) (\<lambda>per_watt.
     rbind (py_mul_float price (lit (30 / 100))) (\<lambda>credit.
     rbind (py_mul_float price (lit (70 / 100))) (\<lambda>net.
     Inr [row ''Item'' (JStr ''Amount''),
          row ''System Price'' (JStr (''$'' @ price_text)),
          row ''Price per Watt'' (JStr per_watt),
          row ''Federal Tax Credit'' (JStr (''$'' @ format_fixed True 2 credit)),
          row ''Net System Cost'' (JStr (''$'' @ format_fixed True 2 net))]))))"

definition is_layout_image :: "json \<Rightarrow> bool result" where
  \<comment> \<open>\<^verbatim>\<open>asset.get('type') in ['layout_image'] or asset.get('asset_type') == 'CAD Screenshot'\<close>\<close>
  "is_layout_image asset =
     rbind (py_get asset ''type'' JNull) (\<lambda>t.
       if t = JStr ''layout_image'' then Inr True
       else rbind (py_get asset ''asset_type'' JNull) (\<lambda>a. Inr (a = JStr ''CAD Screenshot'')))"

fun filter_assets :: "json list \<Rightarrow> json list result" where
  "filter_assets [] = Inr []"
| "filter_assets (asset # rest) =
     rbind (is_layout_image asset) (\<lambda>keep.
     rbind (filter_assets rest) (\<lambda>kept. Inr (if keep then asset # kept else kept)))"

type_synonym state = "event list \<times> PDFGenerator"

definition try_image :: "env \<Rightarrow> AuroraAPI \<Rightarrow> json \<Rightarrow> state \<Rightarrow> bool \<times> state" where
  \<comment> \<open>one attempt: download, then embed; \<open>True\<close> when the image is in the document\<close>
  "try_image E a image_url s =
     (let (image_data, tr1) = download_image E a (fst s) image_url
      in case image_data of
           None \<Rightarrow> (False, (tr1, snd s))
         | Some d \<Rightarrow>
             (case add_image E d (lit (8 / 10)) (snd s) of
                (ok, pdf1) \<Rightarrow> (ok, (tr1, pdf1))))"

fun retry_loop :: "env \<Rightarrow> AuroraAPI \<Rightarrow> json \<Rightarrow> nat \<Rightarrow> nat list \<Rightarrow> state \<Rightarrow> bool \<times> state" where
  \<comment> \<open>\<^verbatim>\<open>for attempt in range(max_retries)\<close>; \<open>True\<close> when the loop ended by \<^verbatim>\<open>break\<close>.
      Neither \<^verbatim>\<open>download_image\<close> nor \<^verbatim>\<open>add_image\<close> lets an exception out, so the
      handler of the loop body is never entered.\<close>
  "retry_loop E a image_url max_retries [] s = (False, s)"
| "retry_loop E a image_url max_retries (attempt # rest) s =
     (case try_image E a image_url s of
        (True, s1) \<Rightarrow> (True, s1)
      | (False, (tr1, pdf1)) \<Rightarrow>
          retry_loop E a image_url max_retries rest
            (if attempt < max_retries - 1 then tr1 @ [Sleep 2] else tr1, pdf1))"

fun process_assets ::
  "env \<Rightarrow> AuroraAPI \<Rightarrow> json list \<Rightarrow> bool \<Rightarrow> state \<Rightarrow> bool result \<times> state" where
  \<comment> \<open>\<^verbatim>\<open>for asset in layout_images\<close>, carrying \<^verbatim>\<open>images_added\<close>\<close>
  "process_assets E a [] images_added s = (Inr images_added, s)"
| "process_assets E a (asset # rest) images_added s =
     (case py_get asset ''url'' JNull of
        Inl e \<Rightarrow> (Inl e, s)
      | Inr image_url \<Rightarrow>
          if \<not> truthy image_url then process_assets E a rest images_added s
          else (case retry_loop E a image_url 3 [0..<3] s of
                  (added, s1) \<Rightarrow> process_assets E a rest (images_added \<or> added) s1))"

definition unavailable :: string where
  "unavailable = ''System design images are currently unavailable.''"

definition image_section :: "env \<Rightarrow> AuroraAPI \<Rightarrow> json \<Rightarrow> state \<Rightarrow> exn option \<times> state" where
  "image_section E a design_assets s =
     (case py_get design_assets ''assets'' JNull of
        Inl e \<Rightarrow> (Some e, s)
      | Inr assets \<Rightarrow>
          if \<not> truthy assets then (None, s)
          else
            (let s1 = (fst s, add_header ''System Design Visualization'' (snd s))
             in case rbind (py_getitem design_assets ''assets'')
                       (\<lambda>v. rbind (py_iter v) filter_assets) of
                  Inl e \<Rightarrow> (Some e, s1)
                | Inr layout_images \<Rightarrow>
                    if layout_images = [] then (None, (fst s1, add_paragraph unavailable (snd s1)))
                    else (case process_assets E a layout_images False s1 of
                            (Inl e, s2) \<Rightarrow> (Some e, s2)
                          | (Inr images_added, s2) \<Rightarrow>
                              if \<not> images_added
                              then (None, (fst s2, add_paragraph unavailable (snd s2)))
                              else (None, s2))))"

record fetched =
  design_summary :: json
  design_pricing :: json
  design_assets :: json
  project_data :: json

definition fetch_data ::
  "env \<Rightarrow> AuroraAPI \<Rightarrow> string \<Rightarrow> string option \<Rightarrow> event list
     \<Rightarrow> fetched option result \<times> event list" where
  \<comment> \<open>the fetches after the credential check; \<open>Inr None\<close> is the \<^verbatim>\<open>return False\<close> on an
      empty design summary, \<open>JNull\<close> the project data when no project is asked for\<close>
  "fetch_data E a design_id project_id tr =
     (let (summary, tr1) = get_design_summary E a tr design_id
      in if \<not> truthy summary then (Inr None, tr1)
         else (case get_design_pricing E a tr1 design_id of
                 (Inl e, tr2) \<Rightarrow> (Inl e, tr2)
               | (Inr pricing, tr2) \<Rightarrow>
                   (let (assets, tr3) = get_design_assets E a tr2 design_id;
                        (project, tr4) =
                          (case project_id of
                             None \<Rightarrow> (JNull, tr3)
                           | Some p \<Rightarrow> if p \<noteq> [] then get_project E a tr3 p else (JNull, tr3))
                    in (Inr (Some \<lparr>design_summary = summary, design_pricing = pricing,
                                    design_assets = assets, project_data = project\<rparr>), tr4))))"

definition overview_section :: "env \<Rightarrow> json \<Rightarrow> PDFGenerator \<Rightarrow> exn option \<times> PDFGenerator" where
  "overview_section E project pdf =
     (if truthy project
      then (let pdf1 = add_header ''Project Overview'' pdf
            in case format_project_overview E project of
                 Inl e \<Rightarrow> (Some e, pdf1)
               | Inr None \<Rightarrow> (None, pdf1)
               | Inr (Some overview_data) \<Rightarrow>
                   (None, if overview_data \<noteq> [] then add_table overview_data pdf1 else pdf1))
      else (None, pdf))"

definition financial_section :: "json \<Rightarrow> pyfloat \<Rightarrow> PDFGenerator \<Rightarrow> exn option \<times> PDFGenerator" where
  "financial_section pricing system_size pdf =
     (if truthy pricing
      then (let pdf1 = add_header ''Financial Overview'' pdf
            in case rbind (py_get pricing ''system_price'' (JNum (PInt 0)))
                      (\<lambda>price. financial_data price system_size) of
                 Inl e \<Rightarrow> (Some e, pdf1)
               | Inr rows \<Rightarrow> (None, add_table rows pdf1))
      else (None, pdf))"

definition build_report :: "env \<Rightarrow> AuroraAPI \<Rightarrow> fetched \<Rightarrow> state \<Rightarrow> exn option \<times> state" where
  \<comment> \<open>from the project overview to the images, on a document that has its title\<close>
  "build_report E a d s =
     (case overview_section E (project_data d) (snd s) of
        (Some e, pdf1) \<Rightarrow> (Some e, (fst s, pdf1))
      | (None, pdf1) \<Rightarrow>
          (let pdf2 = add_header ''System Design Details'' pdf1
           in case design_details E (design_summary d) of
                Inl e \<Rightarrow> (Some e, (fst s, pdf2))
              | Inr (design_data, system_size) \<Rightarrow>
                  (case financial_section (design_pricing d) system_size (add_table design_data pdf2) of
                     (Some e, pdf3) \<Rightarrow> (Some e, (fst s, pdf3))
                   | (None, pdf3) \<Rightarrow> image_section E a (design_assets d) (fst s, pdf3))))"

definition path_join :: "string \<Rightarrow> string \<Rightarrow> string" where
  \<comment> \<open>\<^verbatim>\<open>os.path.join\<close> of a directory and a relative name\<close>
  "path_join dir name =
     (if dir = [] then name
      else if last dir = CHR ''/'' then dir @ name
      else dir @ ''/'' @ name)"

definition start_pdf :: "env \<Rightarrow> AuroraSolarReport \<Rightarrow> string \<Rightarrow> PDFGenerator" where
  \<comment> \<open>the new document with the logo, if there is one, and the title\<close>
  "start_pdf E self design_id =
     (let name = ''aurora_solar_report_design_'' @ design_id @ ''_'' @ file_time E @ ''.pdf'';
          pdf = new_pdf (path_join (output_dir self) name);
          pdf1 = (case logo_path self of
                    None \<Rightarrow> pdf
                  | Some p \<Rightarrow> if p \<noteq> [] \<and> path_exists E p then snd (add_logo E p pdf) else pdf)
      in add_title ''Spartan EagleEye Report'' pdf1)"

record outcome =
  success :: bool
  trace :: "event list"
  pdf :: "PDFGenerator option"
  document :: "footer_canvas option"

definition generate_design_report ::
  "env \<Rightarrow> AuroraSolarReport \<Rightarrow> string \<Rightarrow> string option \<Rightarrow> outcome" where
  \<comment> \<open>the result, with what was requested, the builder as the run hands it to
      \<^verbatim>\<open>generate\<close> (once there is one) and the file written; an exception anywhere
      inside gives the result \<^verbatim>\<open>False\<close>\<close>
  "generate_design_report E self design_id project_id =
     (case validate_credentials E (api self) [] of
        (False, tr0) \<Rightarrow> \<lparr>success = False, trace = tr0, pdf = None, document = None\<rparr>
      | (True, tr0) \<Rightarrow>
          (case fetch_data E (api self) design_id project_id tr0 of
             (Inl e, tr1) \<Rightarrow> \<lparr>success = False, trace = tr1, pdf = None, document = None\<rparr>
           | (Inr None, tr1) \<Rightarrow> \<lparr>success = False, trace = tr1, pdf = None, document = None\<rparr>
           | (Inr (Some d), tr1) \<Rightarrow>
               (case build_report E (api self) d (tr1, start_pdf E self design_id) of
                  (Some e, (tr2, pdf2)) \<Rightarrow>
                    \<lparr>success = False, trace = tr2, pdf = Some pdf2, document = None\<rparr>
                | (None, (tr2, pdf2)) \<Rightarrow>
                    (case fst (generate E pdf2) of
                       None \<Rightarrow> \<lparr>success = False, trace = tr2, pdf = Some pdf2, document = None\<rparr>
                     | Some doc \<Rightarrow>
                         \<lparr>success = True, trace = tr2, pdf = Some pdf2, document = Some doc\<rparr>))))"

section \<open>Well-formed payloads and sample data\<close>

definition overview_labels :: "string list" where
  \<comment> \<open>the first column of \<^verbatim>\<open>overview_data\<close>\<close>
  "overview_labels =
     [''Project Details'', ''Project Name'', ''Customer Name'', ''Street Address'', ''City'',
      ''State'', ''ZIP Code'', ''Created Date'', ''Status'', ''Property Type'']"

fun optional_field :: "(json \<Rightarrow> bool) \<Rightarrow> (string \<times> json) list \<Rightarrow> string \<Rightarrow> bool" where
  "optional_field P d k = (case map_of d k of None \<Rightarrow> True | Some v \<Rightarrow> P v)"

fun is_str :: "json \<Rightarrow> bool" where
  "is_str (JStr s) = True"
| "is_str v = False"

fun is_dict :: "json \<Rightarrow> bool" where
  "is_dict (JDict d) = True"
| "is_dict v = False"

fun is_address :: "json \<Rightarrow> bool" where
  "is_address (JDict l) = optional_field is_dict l ''property_address_components''"
| "is_address v = False"

fun well_formed_project :: "json \<Rightarrow> bool" where
  \<comment> \<open>a project payload as the data model of the service has it: an object with the
      key \<^verbatim>\<open>project\<close>, whose value is an object; the location and its address
      components are objects, the status and the project type strings, each where
      present. Any field may be absent.\<close>
  "well_formed_project (JDict d) =
     (case map_of d ''project'' of
        Some (JDict p) \<Rightarrow>
          optional_field is_address p ''location'' \<and>
          optional_field is_str p ''status'' \<and>
          optional_field is_str p ''project_type''
      | _ \<Rightarrow> False)"
| "well_formed_project v = False"

definition ok_json :: "json \<Rightarrow> http_result" where
  "ok_json body =
     Response \<lparr>status_code = 200, content_type = ''application/json'', content = [],
               json_body = Some body\<rparr>"

definition sample_env :: "(event list \<Rightarrow> event \<Rightarrow> http_result) \<Rightarrow> env" where
  \<comment> \<open>an environment for the examples: every image is 800 by 600 pixels, the layout
      puts all blocks on one page and takes them all out of the list, there is no
      logo file\<close>
  "sample_env server =
     \<lparr>stringWidth = (\<lambda>s f n. Fin False (of_nat (length s) * 5)),
      footer_time = (\<lambda>k. ''January 05, 2025 09:30 AM''),
      http = server,
      image_size = (\<lambda>src. Some (800, 600)),
      layout = (\<lambda>fs. Some (if fs = [] then [] else [map (\<lambda>f. Content ''block'') fs])),
      build_leaves = (\<lambda>fs. []),
      path_exists = (\<lambda>p. False),
      file_time = ''20250105_093000'',
      long_date = (\<lambda>s. if s = ''2024-03-01T10:00:00+00:00'' then Some ''March 01, 2024'' else None),
      repr = (\<lambda>v. ''?''),
      unicode_title = (\<lambda>s. s),
      unicode_strip = (\<lambda>s. s)\<rparr>"

definition sample_project :: json where
  "sample_project =
     JDict [(''project'',
       JDict [(''name'', JStr ''Roof 12''),
              (''customer_first_name'', JStr ''Ada''),
              (''customer_last_name'', JStr ''Byron''),
              (''location'', JDict [(''property_address_components'',
                 JDict [(''street_address'', JStr ''1 Main St''), (''city'', JStr ''Austin'')])]),
              (''created_at'', JStr ''2024-03-01T10:00:00Z''),
              (''status'', JStr ''in_progress'')])]"

definition sample_self :: AuroraSolarReport where
  "sample_self =
     \<lparr>api = \<lparr>api_key = ''K'', tenant_id = ''T1''\<rparr>, output_dir = ''/out'', logo_path = None\<rparr>"

definition sample_server ::
  "json \<Rightarrow> json \<Rightarrow> json \<Rightarrow> json \<Rightarrow> (event list \<Rightarrow> http_result)
     \<Rightarrow> event list \<Rightarrow> event \<Rightarrow> http_result" where
  \<comment> \<open>a service that accepts the credentials of \<open>sample_self\<close>, answers the four fetches
      for the design \<^verbatim>\<open>D1\<close> and the project \<^verbatim>\<open>P1\<close> with the given bodies, and leaves every
      other request to \<open>images\<close>, which sees the history\<close>
  "sample_server summary pricing assets project images tr req =
     (case req of
        Sleep n \<Rightarrow> RequestException
      | Request m url hs \<Rightarrow>
          if url = ''https://api.aurorasolar.com/tenants/T1'' then ok_json (JDict [])
          else if url = ''https://api.aurorasolar.com/tenants/T1/designs/D1/summary''
            then ok_json summary
          else if url = ''https://api.aurorasolar.com/tenants/T1/designs/D1/pricing''
            then ok_json pricing
          else if url = ''https://api.aurorasolar.com/tenants/T1/designs/D1/assets''
            then ok_json assets
          else if url = ''https://api.aurorasolar.com/tenants/T1/projects/P1''
            then ok_json project
          else images tr)"

definition unauthorized :: "event list \<Rightarrow> event \<Rightarrow> http_result" where
  \<comment> \<open>a service that answers every request with the status 401\<close>
  "unauthorized tr req =
     Response \<lparr>status_code = 401, content_type = ''application/json'', content = [],
               json_body = None\<rparr>"

definition sample_summary :: json where
  "sample_summary =
     JDict [(''design'',
       JDict [(''system_size_stc'', JNum (PInt 4000)),
              (''energy_production'', JDict [(''annual'', JNum (PInt 5200))]),
              (''bill_of_materials'',
                 JList [JDict [(''component_type'', JStr ''modules''),
                               (''name'', JStr ''SunPanel 400''),
                               (''quantity'', JNum (PInt 10))],
                        JDict [(''component_type'', JStr ''microinverters''),
                               (''name'', JStr ''MicroInv 7'')]]),
              (''arrays'',
                 JList [JDict [(''shading'',
                   JDict [(''solar_access'', JDict [(''annual'', JNum (PInt 95))])])]])])]"

definition sample_design_rows :: "json list list" where
  "sample_design_rows =
     [[JStr ''Metric'', JStr ''Value''],
      [JStr ''System Size'', JStr ''4.00 kW''],
      [JStr ''Annual Production'', JStr ''5,200 kWh''],
      [JStr ''Number of Panels'', JStr ''10''],
      [JStr ''Panel Model'', JStr ''SunPanel 400''],
      [JStr ''Inverter Model'', JStr ''MicroInv 7''],
      [JStr ''Solar Access'', JStr ''95.0%'']]"

definition sample_financial_rows :: "json list list" where
  "sample_financial_rows =
     [[JStr ''Item'', JStr ''Amount''],
      [JStr ''System Price'', JStr ''$1,000.00''],
      [JStr ''Price per Watt'', JStr ''$0.25/W''],
      [JStr ''Federal Tax Credit'', JStr ''$300.00''],
      [JStr ''Net System Cost'', JStr ''$700.00'']]"

definition sample_pricing :: json where
  "sample_pricing = JDict [(''pricing'', JDict [(''system_price'', JNum (PInt 1000))])]"

definition sample_title_pdf :: PDFGenerator where
  \<comment> \<open>the document of \<open>sample_self\<close> for the design \<^verbatim>\<open>D1\<close> when it has its title\<close>
  "sample_title_pdf =
     add_title ''Spartan EagleEye Report''
       (new_pdf ''/out/aurora_solar_report_design_D1_20250105_093000.pdf'')"

section \<open>Reading a document and a trace\<close>

fun is_image :: "flowable \<Rightarrow> bool" where
  "is_image (Image src w h) = True"
| "is_image f = False"

definition visualization_header :: flowable where
  "visualization_header = Paragraph ''System Design Visualization'' ''ReportHeader''"

definition unavailable_paragraph :: flowable where
  "unavailable_paragraph = Paragraph unavailable ''CustomBody''"

definition image_request :: "AuroraAPI \<Rightarrow> string \<Rightarrow> event" where
  \<comment> \<open>the request \<^verbatim>\<open>download_image\<close> sends for the URL \<open>u\<close>\<close>
  "image_request a u =
     Request ''GET'' u
       (if prefix ''https://aurora-user-data.s3.amazonaws.com'' u
        then [(''Accept'', ''image/*'')] else headers a)"

definition attempts :: "event \<Rightarrow> nat \<Rightarrow> event list" where
  \<comment> \<open>\<open>n\<close> requests with a pause of two seconds between one and the next\<close>
  "attempts rq n = (if n = 0 then [] else rq # concat (replicate (n - 1) [Sleep 2, rq]))"

definition sample_requests :: "event list" where
  \<comment> \<open>what \<open>sample_self\<close> sends for the design \<^verbatim>\<open>D1\<close> and the project \<^verbatim>\<open>P1\<close> before it
      builds the document\<close>
  "sample_requests =
     map (\<lambda>url. Request ''GET'' url
            [(''Authorization'', ''Bearer K''), (''Content-Type'', ''application/json'')])
       [''https://api.aurorasolar.com/tenants/T1'',
        ''https://api.aurorasolar.com/tenants/T1/designs/D1/summary'',
        ''https://api.aurorasolar.com/tenants/T1/designs/D1/pricing'',
        ''https://api.aurorasolar.com/tenants/T1/designs/D1/assets'',
        ''https://api.aurorasolar.com/tenants/T1/projects/P1'']"

definition sample_design_pdf :: "PDFGenerator \<Rightarrow> PDFGenerator" where
  \<comment> \<open>the design details and the financial overview of the sample data\<close>
  "sample_design_pdf p =
     add_table sample_financial_rows (add_header ''Financial Overview''
       (add_table sample_design_rows (add_header ''System Design Details'' p)))"

definition untyped_bom_summary :: json where
  \<comment> \<open>a design summary whose only bill-of-materials entry has no \<^verbatim>\<open>component_type\<close>\<close>
  "untyped_bom_summary =
     JDict [(''design'',
       JDict [(''system_size_stc'', JNum (PInt 4000)),
              (''bill_of_materials'',
                 JList [JDict [(''name'', JStr ''SunPanel 400''), (''quantity'', JNum (PInt 10))]])])]"

definition before_attempt :: "event \<Rightarrow> nat \<Rightarrow> event list \<Rightarrow> event list" where
  \<comment> \<open>the history when the attempt after \<open>k\<close> failed ones begins\<close>
  "before_attempt rq k tr = tr @ concat (replicate k [rq, Sleep 2])"

fun single_asset :: "json \<Rightarrow> string \<Rightarrow> bool" where
  \<comment> \<open>an assets answer whose only asset is eligible and has the URL \<open>u\<close>\<close>
  "single_asset (JDict ad) u =
     (case map_of ad ''assets'' of
        Some (JList [JDict d]) \<Rightarrow>
          is_layout_image (JDict d) = Inr True \<and> map_of d ''url'' = Some (JStr u) \<and> u \<noteq> []
      | _ \<Rightarrow> False)"
| "single_asset v u = False"

fun is_sleep :: "event \<Rightarrow> bool" where
  "is_sleep (Sleep n) = True"
| "is_sleep ev = False"

definition image_after :: "nat \<Rightarrow> event list \<Rightarrow> http_result" where
  \<comment> \<open>an image host that fails until the client has paused \<open>n\<close> times\<close>
  "image_after n tr =
     (if length (filter is_sleep tr) < n then RequestException
      else Response \<lparr>status_code = 200, content_type = ''image/png'', content = ''PNG'',
                     json_body = None\<rparr>)"

definition sample_assets :: json where
  "sample_assets =
     JDict [(''assets'',
       JList [JDict [(''type'', JStr ''layout_image''),
                     (''url'', JStr ''https://img.example/1.png'')]])]"

fun url_of :: "json \<Rightarrow> string option" where
  \<comment> \<open>the URL of an asset that has one: a text that is not empty\<close>
  "url_of (JDict d) =
     (case map_of d ''url'' of Some (JStr u) \<Rightarrow> (if u = [] then None else Some u) | _ \<Rightarrow> None)"
| "url_of v = None"

fun plain_asset :: "json \<Rightarrow> bool" where
  \<comment> \<open>an asset object whose URL, if it has the field, is a text or \<^verbatim>\<open>null\<close>\<close>
  "plain_asset (JDict d) = (case map_of d ''url'' of None \<Rightarrow> True | Some v \<Rightarrow> is_str v \<or> v = JNull)"
| "plain_asset v = False"

definition eligible :: "json \<Rightarrow> bool" where
  \<comment> \<open>the assets the filter of the image section keeps\<close>
  "eligible asset = (is_layout_image asset = Inr True)"

fun loop_trace :: "AuroraAPI \<Rightarrow> (string \<times> nat \<times> bool) list \<Rightarrow> event list" where
  \<comment> \<open>what a sequence of retry loops sends, each given by its URL, the number of its
      attempts and whether it embedded the image\<close>
  "loop_trace a [] = []"
| "loop_trace a ((u, n, ok) # rs) = attempts (image_request a u) n @ loop_trace a rs"

definition mixed_assets :: "json list" where
  \<comment> \<open>an asset the filter drops and one it keeps\<close>
  "mixed_assets =
     [JDict [(''type'', JStr ''thumbnail''), (''url'', JStr ''https://img.example/0.png'')],
      JDict [(''type'', JStr ''layout_image''), (''url'', JStr ''https://img.example/1.png'')]]"

definition three_assets :: "json list" where
  \<comment> \<open>an asset the filter drops and two it keeps, one of either kind\<close>
  "three_assets =
     [JDict [(''type'', JStr ''thumbnail''), (''url'', JStr ''https://img.example/0.png'')],
      JDict [(''type'', JStr ''layout_image''), (''url'', JStr ''https://img.example/1.png'')],
      JDict [(''asset_type'', JStr ''CAD Screenshot''), (''url'', JStr ''https://img.example/2.png'')]]"

definition footer_code :: "footer_env \<Rightarrow> pyfloat \<Rightarrow> nat \<Rightarrow> nat \<Rightarrow> draw_op list" where
  \<comment> \<open>the drawing code \<^verbatim>\<open>draw_footer\<close> adds to a page of the given width\<close>
  "footer_code E width k n =
     [SetFont ''Helvetica'' 9,
      DrawString (PInt 72) (PInt 30) ('' SPARTAN HOME SERVICES '' @ footer_time E k),
      DrawString
        (PFloat (float_sub (float_sub width (Fin False 72))
           (stringWidth E (''Page '' @ str_nat k @ '' of '' @ str_nat n) ''Helvetica'' 9)))
        (PInt 30) (''Page '' @ str_nat k @ '' of '' @ str_nat n)]"


section \<open>Evaluation\<close>

text \<open>Facts with which the simplifier computes the functions above on numerals.\<close>

lemma floor_rat_numeral_div:
  "\<lfloor>(numeral a :: rat) / numeral b\<rfloor> = numeral a div numeral b"
  by (metis floor_divide_of_int_eq of_int_numeral)

lemma ceiling_rat_numeral_div:
  "\<lceil>(numeral a :: rat) / numeral b\<rceil> = - ((- numeral a) div numeral b)"
  by (metis ceiling_def floor_divide_of_int_eq of_int_minus of_int_numeral minus_divide_left)

lemmas float_eval =
  mk_float_def in_range_def round_double_def quantize_def ilog2_def compute_bitlen pow2_def
  round_half_even_def floor_rat_numeral_div ceiling_rat_numeral_div lit_def signed_def

lemmas text_eval =
  format_fixed_def fixed_digits_def pad_zeros_def str_nat.simps str_int_def

section \<open>Properties of the footer canvas\<close>

lemma draw_footer_code:
  "code (dict (draw_footer E k n c)) = code (dict c) @ footer_code E (fst (pagesize (dict c))) k n"
  by (simp add: draw_footer_def Let_def drawString_def setFont_def footer_code_def)

lemma draw_footer_frame:
  "emitted (draw_footer E k n c) = emitted c" "pages (draw_footer E k n c) = pages c"
  by (simp_all add: draw_footer_def Let_def drawString_def setFont_def)

lemma stamp_pages_emitted:
  "emitted (stamp_pages E n k ps c) =
     emitted c @ map (\<lambda>(i, p). code p @ footer_code E (fst (pagesize p)) i n) (enumerate k ps)"
  by (induction ps arbitrary: k c)
     (simp_all add: Canvas_showPage_def draw_footer_code draw_footer_frame)

lemma save_emitted:
  "emitted (save E c) =
     emitted c @ map (\<lambda>(i, p). code p @ footer_code E (fst (pagesize p)) i (length (pages c)))
       (enumerate 1 (pages c))"
  by (simp add: save_def Let_def Canvas_save_def showPage_def stamp_pages_emitted)

lemma foldl_draw_page:
  "dict c = \<lparr>pagesize = sz, code = [], font = (''Helvetica'', 12), pageNumber = k\<rparr> \<Longrightarrow>
   pages (foldl (\<lambda>c ops. draw_page ops c) c pgs) =
     pages c @ map (\<lambda>(i, ops). \<lparr>pagesize = sz, code = ops, font = (''Helvetica'', 12), pageNumber = i\<rparr>)
       (enumerate k pgs)
   \<and> emitted (foldl (\<lambda>c ops. draw_page ops c) c pgs) = emitted c"
proof (induction pgs arbitrary: c k)
  case Nil
  then show ?case by simp
next
  case (Cons p ps)
  let ?c = "draw_page p c"
  have d: "dict ?c = \<lparr>pagesize = sz, code = [], font = (''Helvetica'', 12), pageNumber = Suc k\<rparr>"
    using Cons.prems by (simp add: draw_page_def showPage_def startPage_def)
  have pg: "pages ?c = pages c @ [\<lparr>pagesize = sz, code = p, font = (''Helvetica'', 12), pageNumber = k\<rparr>]"
    using Cons.prems by (simp add: draw_page_def showPage_def)
  have em: "emitted ?c = emitted c"
    by (simp add: draw_page_def showPage_def)
  from Cons.IH [OF d] show ?case
    by (simp add: pg em)
qed

lemma enumerate_map_enumerate:
  "enumerate k (map (\<lambda>(i, x). g i x) (enumerate k xs)) = map (\<lambda>(i, x). (i, g i x)) (enumerate k xs)"
  by (induction xs arbitrary: k) simp_all

lemma render_pages_emitted:
  "emitted (render_pages E pgs) =
     map (\<lambda>(i, ops). ops @ footer_code E (Fin False 612) i (length pgs)) (enumerate 1 pgs)"
proof -
  let ?c = "foldl (\<lambda>c ops. draw_page ops c) new_canvas pgs"
  have d: "dict new_canvas = \<lparr>pagesize = (Fin False 612, Fin False 792), code = [],
      font = (''Helvetica'', 12), pageNumber = 1\<rparr>"
    by (simp add: new_canvas_def)
  have pg: "pages ?c = map (\<lambda>(i, ops). \<lparr>pagesize = (Fin False 612, Fin False 792), code = ops,
      font = (''Helvetica'', 12), pageNumber = i\<rparr>) (enumerate 1 pgs)"
    and em: "emitted ?c = []"
    using foldl_draw_page [OF d, of pgs] by (simp_all add: new_canvas_def)
  have len: "length (pages ?c) = length pgs"
    by (simp add: pg)
  show ?thesis
    unfolding render_pages_def save_emitted em len pg enumerate_map_enumerate
    by (simp add: split_def comp_def)
qed

text \<open>
  Claim C7. \<^verbatim>\<open>save\<close> counts the buffered pages first. A canvas with \<open>n\<close> buffered pages
  emits exactly these \<open>n\<close> pages, and the page with the 1-indexed number \<open>k\<close> carries what
  was drawn on it followed by the footer: the brand string with the time stamp and the
  right-aligned text \<^verbatim>\<open>Page k of n\<close>. So a document laid out to \<open>n\<close> pages (the list \<open>pgs\<close>
  of page contents that the layout pass produced, each buffered by \<^verbatim>\<open>showPage\<close>) is
  written with exactly \<open>n\<close> pages, each with the footer of its own number and of the
  final page count.
\<close>

theorem footer_page_k_of_n:
  assumes "1 \<le> k" and "k \<le> n"
  shows "(length (pages c) = n \<longrightarrow>
            length (emitted (save E c)) = length (emitted c) + n \<and>
            emitted (save E c) ! (length (emitted c) + (k - 1)) =
              code (pages c ! (k - 1)) @
              [SetFont ''Helvetica'' 9,
               DrawString (PInt 72) (PInt 30) ('' SPARTAN HOME SERVICES '' @ footer_time E k),
               DrawString
                 (PFloat (float_sub (float_sub (fst (pagesize (pages c ! (k - 1)))) (Fin False 72))
                    (stringWidth E (''Page '' @ str_nat k @ '' of '' @ str_nat n) ''Helvetica'' 9)))
                 (PInt 30) (''Page '' @ str_nat k @ '' of '' @ str_nat n)])
       \<and> (length pgs = n \<longrightarrow>
            length (emitted (render_pages E pgs)) = n \<and>
            emitted (render_pages E pgs) ! (k - 1) =
              pgs ! (k - 1) @
              [SetFont ''Helvetica'' 9,
               DrawString (PInt 72) (PInt 30) ('' SPARTAN HOME SERVICES '' @ footer_time E k),
               DrawString
                 (PFloat (float_sub (float_sub (Fin False 612) (Fin False 72))
                    (stringWidth E (''Page '' @ str_nat k @ '' of '' @ str_nat n) ''Helvetica'' 9)))
                 (PInt 30) (''Page '' @ str_nat k @ '' of '' @ str_nat n)])"
proof (intro conjI impI)
  assume n: "length (pages c) = n"
  with assms have j: "k - 1 < length (pages c)" by simp
  show "length (emitted (save E c)) = length (emitted c) + n"
    by (simp add: save_emitted n)
  have a: "emitted (save E c) ! (length (emitted c) + (k - 1)) =
      map (\<lambda>(i, p). code p @ footer_code E (fst (pagesize p)) i (length (pages c)))
        (enumerate 1 (pages c)) ! (k - 1)"
    unfolding save_emitted by (rule nth_append_length_plus)
  from j assms n show "emitted (save E c) ! (length (emitted c) + (k - 1)) =
              code (pages c ! (k - 1)) @
              [SetFont ''Helvetica'' 9,
               DrawString (PInt 72) (PInt 30) ('' SPARTAN HOME SERVICES '' @ footer_time E k),
               DrawString
                 (PFloat (float_sub (float_sub (fst (pagesize (pages c ! (k - 1)))) (Fin False 72))
                    (stringWidth E (''Page '' @ str_nat k @ '' of '' @ str_nat n) ''Helvetica'' 9)))
                 (PInt 30) (''Page '' @ str_nat k @ '' of '' @ str_nat n)]"
    unfolding a by (simp add: footer_code_def nth_enumerate_eq)
next
  assume n: "length pgs = n"
  then show "length (emitted (render_pages E pgs)) = n"
    by (simp add: render_pages_emitted)
  from assms n have j: "k - 1 < length pgs" by simp
  from j assms n show "emitted (render_pages E pgs) ! (k - 1) =
              pgs ! (k - 1) @
              [SetFont ''Helvetica'' 9,
               DrawString (PInt 72) (PInt 30) ('' SPARTAN HOME SERVICES '' @ footer_time E k),
               DrawString
                 (PFloat (float_sub (float_sub (Fin False 612) (Fin False 72))
                    (stringWidth E (''Page '' @ str_nat k @ '' of '' @ str_nat n) ''Helvetica'' 9)))
                 (PInt 30) (''Page '' @ str_nat k @ '' of '' @ str_nat n)]"
    by (simp add: render_pages_emitted footer_code_def nth_enumerate_eq)
qed

theorem footer_page_k_of_n_witness:
  "footer_texts
     (emitted (render_pages
        \<lparr>stringWidth = (\<lambda>s f n. Fin False (of_nat (length s) * 5)),
         footer_time = (\<lambda>k. ''January 05, 2025 09:30 AM'')\<rparr>
        [[Content ''a''], [Content ''b''], [Content ''c'']]) ! 1)
     = ['' SPARTAN HOME SERVICES January 05, 2025 09:30 AM'', ''Page 2 of 3'']
   \<and> length (emitted (render_pages
        \<lparr>stringWidth = (\<lambda>s f n. Fin False (of_nat (length s) * 5)),
         footer_time = (\<lambda>k. ''January 05, 2025 09:30 AM'')\<rparr>
        [[Content ''a''], [Content ''b''], [Content ''c'']])) = 3"
  using footer_page_k_of_n [of 2 3 new_canvas
      "\<lparr>stringWidth = (\<lambda>s f n. Fin False (of_nat (length s) * 5)),
        footer_time = (\<lambda>k. ''January 05, 2025 09:30 AM'')\<rparr>"
      "[[Content ''a''], [Content ''b''], [Content ''c'']]"]
  by (simp add: footer_texts_def str_nat.simps)

section \<open>Sequencing\<close>

lemma rbind_Inr_iff: "rbind m f = Inr y \<longleftrightarrow> (\<exists>x. m = Inr x \<and> f x = Inr y)"
  by (cases m) (simp_all add: rbind_def)

lemma rbind_Inr [simp]: "rbind (Inr x) f = f x"
  by (simp add: rbind_def)

lemma rbind_Inl [simp]: "rbind (Inl e) f = Inl e"
  by (simp add: rbind_def)

section \<open>The project overview\<close>

lemma overview_rows:
  assumes "format_project_overview E payload = Inr (Some rows)"
  shows "map hd rows = map JStr overview_labels \<and> (\<forall>r \<in> set rows. length r = 2)"
  using assms
  unfolding format_project_overview_def
  by (auto simp: rbind_Inr_iff row_def overview_labels_def Let_def split: if_splits)

lemma overview_returns:
  assumes "well_formed_project payload"
  shows "\<exists>rows. format_project_overview E payload = Inr (Some rows)"
proof -
  from assms obtain d p where pd: "payload = JDict d" and p: "map_of d ''project'' = Some (JDict p)"
    and loc: "optional_field is_address p ''location''"
    and st: "optional_field is_str p ''status''"
    and ty: "optional_field is_str p ''project_type''"
    by (cases payload) (auto split: option.splits json.splits)
  have ne: "d \<noteq> []" using p by auto
  obtain l where l: "py_get (JDict p) ''location'' (JDict []) = Inr (JDict l)"
    and ac: "optional_field is_dict l ''property_address_components''"
    using loc by (cases "map_of p ''location''") (auto elim: is_address.elims)
  obtain c where c: "py_get (JDict l) ''property_address_components'' (JDict []) = Inr (JDict c)"
    using ac by (cases "map_of l ''property_address_components''") (auto elim: is_dict.elims)
  define T where "T = unicode_title E"
  obtain s where s: "rbind (py_get (JDict p) ''status'' (JStr ''N/A'')) (py_title T) = Inr (JStr s)"
    using st by (cases "map_of p ''status''") (auto elim: is_str.elims)
  obtain t where t: "rbind (py_get (JDict p) ''project_type'' (JStr ''N/A'')) (py_title T) = Inr (JStr t)"
    using ty by (cases "map_of p ''project_type''") (auto elim: is_str.elims)
  show ?thesis
    unfolding format_project_overview_def pd
    using ne p l c s t by (simp add: Let_def T_def)
qed

lemma py_get_Inr:
  "py_get v k d = Inr x \<Longrightarrow> \<exists>l. v = JDict l \<and> x = (case map_of l k of None \<Rightarrow> d | Some y \<Rightarrow> y)"
  by (cases v) auto

lemma py_title_Inr: "py_title T v = Inr x \<Longrightarrow> \<exists>s. v = JStr s"
  by (cases v) auto

lemma overview_only_well_formed:
  assumes "format_project_overview E payload = Inr (Some rows)"
  shows "well_formed_project payload"
proof -
  from assms have tr: "truthy payload"
    by (auto simp: format_project_overview_def split: if_splits)
  from assms tr obtain has where has: "py_contains ''project'' payload = Inr has"
    by (auto simp: format_project_overview_def rbind_Inr_iff)
  from assms tr has have h: "has"
    by (auto simp: format_project_overview_def split: if_splits)
  from assms tr has h obtain project location ac st ty
    where p: "py_getitem payload ''project'' = Inr project"
      and l: "py_get project ''location'' (JDict []) = Inr location"
      and a: "py_get location ''property_address_components'' (JDict []) = Inr ac"
      and a': "py_get ac ''street_address'' (JStr ''N/A'') \<noteq> Inl AttributeError"
      and s: "rbind (py_get project ''status'' (JStr ''N/A'')) (py_title (unicode_title E)) = Inr st"
      and t: "rbind (py_get project ''project_type'' (JStr ''N/A'')) (py_title (unicode_title E)) = Inr ty"
    by (auto simp: format_project_overview_def rbind_Inr_iff Let_def)
  from p obtain d where d: "payload = JDict d" and dp: "map_of d ''project'' = Some project"
    by (cases payload) (auto split: option.splits)
  from l obtain pl where pl: "project = JDict pl"
    and loc: "location = (case map_of pl ''location'' of None \<Rightarrow> JDict [] | Some y \<Rightarrow> y)"
    by (auto dest: py_get_Inr)
  from a obtain ll where ll: "location = JDict ll"
    and acd: "ac = (case map_of ll ''property_address_components'' of None \<Rightarrow> JDict [] | Some y \<Rightarrow> y)"
    by (auto dest: py_get_Inr)
  from a' obtain al where al: "ac = JDict al"
    by (cases ac) auto
  from s pl have st: "optional_field is_str pl ''status''"
    by (auto simp: rbind_Inr_iff dest!: py_title_Inr split: option.splits)
  from t pl have ty: "optional_field is_str pl ''project_type''"
    by (auto simp: rbind_Inr_iff dest!: py_title_Inr split: option.splits)
  from loc ll acd al have "optional_field is_address pl ''location''"
    by (auto split: option.splits)
  with d dp pl st ty show ?thesis by simp
qed

lemma title_in_progress: "title T ''in_progress'' = ''In_Progress''"
  by code_simp

lemma title_na: "title T ''N/A'' = ''N/A''"
  by code_simp

lemma strip_ada: "strip S ''Ada Byron'' = ''Ada Byron''"
  by code_simp

lemma replace_Z_sample: "replace_Z ''2024-03-01T10:00:00Z'' = ''2024-03-01T10:00:00+00:00''"
  by (simp add: replace_Z_def)

lemma overview_sample:
  "format_project_overview (sample_env server) sample_project = Inr (Some
     [[JStr ''Project Details'', JStr ''Information''],
      [JStr ''Project Name'', JStr ''Roof 12''],
      [JStr ''Customer Name'', JStr ''Ada Byron''],
      [JStr ''Street Address'', JStr ''1 Main St''],
      [JStr ''City'', JStr ''Austin''],
      [JStr ''State'', JStr ''N/A''],
      [JStr ''ZIP Code'', JStr ''N/A''],
      [JStr ''Created Date'', JStr ''March 01, 2024''],
      [JStr ''Status'', JStr ''In_Progress''],
      [JStr ''Property Type'', JStr ''N/A'']])"
  by (simp add: format_project_overview_def sample_project_def sample_env_def row_def
      title_in_progress title_na strip_ada replace_Z_sample)

text \<open>
  Claim C9, amended. \<^verbatim>\<open>format_project_overview\<close> returns rows exactly for the payloads
  that are an object with the key \<^verbatim>\<open>project\<close> whose value is an object, in which the
  location and its address components are objects and the status and the project type
  are strings, each where it is present; any field may be absent. Whenever it returns
  rows, they are exactly ten rows of two cells whose labels are, in this order: Project
  Details (the header row), Project Name, Customer Name, Street Address, City, State,
  ZIP Code, Created Date, Status, Property Type.
\<close>

theorem project_overview_ten_rows:
  "(well_formed_project payload \<longleftrightarrow> (\<exists>rows. format_project_overview E payload = Inr (Some rows)))
   \<and> (\<forall>rows. format_project_overview E payload = Inr (Some rows) \<longrightarrow>
          length rows = 10 \<and> map hd rows = map JStr overview_labels
          \<and> (\<forall>r \<in> set rows. length r = 2))"
proof (intro conjI impI allI iffI)
  assume "well_formed_project payload"
  then show "\<exists>rows. format_project_overview E payload = Inr (Some rows)"
    by (rule overview_returns)
next
  assume "\<exists>rows. format_project_overview E payload = Inr (Some rows)"
  then show "well_formed_project payload"
    by (auto intro: overview_only_well_formed)
next
  fix rows
  assume r: "format_project_overview E payload = Inr (Some rows)"
  from overview_rows [OF r] have m: "map hd rows = map JStr overview_labels"
    and two: "\<forall>r \<in> set rows. length r = 2"
    by simp_all
  from m have "length (map hd rows) = length (map JStr overview_labels)"
    by simp
  then show "length rows = 10"
    by (simp add: overview_labels_def)
  from m show "map hd rows = map JStr overview_labels" .
  from two show "\<forall>r \<in> set rows. length r = 2" .
qed

theorem project_overview_ten_rows_witness:
  "well_formed_project sample_project \<and>
   (\<exists>rows. format_project_overview (sample_env (\<lambda>tr req. RequestException)) sample_project
              = Inr (Some rows)
      \<and> length rows = 10 \<and> map hd rows = map JStr overview_labels
      \<and> rows ! 8 = [JStr ''Status'', JStr ''In_Progress''])"
proof -
  have wf: "well_formed_project sample_project"
    by (simp add: sample_project_def)
  from project_overview_ten_rows [of sample_project "sample_env (\<lambda>tr req. RequestException)"] wf
  show ?thesis
    by (auto simp: overview_sample)
qed

text \<open>
  Claim C9 as stated fails: a payload may hold the key \<^verbatim>\<open>project\<close> and yet get no rows.
  With a status that is \<^verbatim>\<open>null\<close> the call of \<^verbatim>\<open>title\<close> raises \<^verbatim>\<open>AttributeError\<close>, and so
  does the first lookup when the project itself is \<^verbatim>\<open>null\<close>.
\<close>

theorem null_status_counterexample:
  "py_contains ''project'' (JDict [(''project'', JDict [(''status'', JNull)])]) = Inr True
   \<and> format_project_overview (sample_env unauthorized)
       (JDict [(''project'', JDict [(''status'', JNull)])]) = Inl AttributeError
   \<and> py_contains ''project'' (JDict [(''project'', JNull)]) = Inr True
   \<and> format_project_overview (sample_env unauthorized) (JDict [(''project'', JNull)])
       = Inl AttributeError"
  by (simp add: format_project_overview_def Let_def)

section \<open>The financial rows\<close>

lemma lit_30: "lit (3 / 10) = Fin False (5404319552844595 / 18014398509481984)"
  by (simp add: float_eval)

lemma lit_70: "lit (7 / 10) = Fin False (3152519739159347 / 4503599627370496)"
  by (simp add: float_eval)

lemma int_to_float_1000: "int_to_float 1000 = Inr (Fin False 1000)"
  by (simp add: int_to_float_def float_eval)

lemma credit_1000: "py_mul_float (JNum (PInt 1000)) (lit (3 / 10)) = Inr (Fin False 300)"
  by (simp add: py_mul_float_def int_to_float_1000 lit_30) (simp add: float_eval)

lemma net_1000: "py_mul_float (JNum (PInt 1000)) (lit (7 / 10)) = Inr (Fin False 700)"
  by (simp add: py_mul_float_def int_to_float_1000 lit_70) (simp add: float_eval)

lemma mk_float_4000: "mk_float False 4000 = Fin False 4000"
  by (simp add: float_eval)

lemma quot_1000: "py_div_float (JNum (PInt 1000)) (Fin False 4000) = Inr (Fin False (1 / 4))"
  by (simp add: py_div_float_def int_to_float_1000) (simp add: float_eval)

lemma fmt_1000: "format_fixed True 2 (Fin False 1000) = ''1,000.00''"
  by (simp add: format_fixed_def float_eval) (simp add: fixed_digits_def pad_zeros_def str_nat.simps)

lemma fmt_300: "format_fixed True 2 (Fin False 300) = ''300.00''"
  by (simp add: format_fixed_def float_eval) (simp add: fixed_digits_def pad_zeros_def str_nat.simps)

lemma fmt_700: "format_fixed True 2 (Fin False 700) = ''700.00''"
  by (simp add: format_fixed_def float_eval) (simp add: fixed_digits_def pad_zeros_def str_nat.simps)

lemma fmt_quarter: "format_fixed True 2 (Fin False (1 / 4)) = ''0.25''"
  by (simp add: format_fixed_def float_eval) (simp add: fixed_digits_def pad_zeros_def str_nat.simps)

lemma size_4000: "py_div_1000 (JNum (PInt 4000)) = Inr (Fin False 4)"
  by (simp add: py_div_1000_def float_eval)

lemma size_0: "py_div_1000 (JNum (PInt 0)) = Inr (Fin False 0)"
  by (simp add: py_div_1000_def float_eval)

lemma sample_financial:
  "financial_data (JNum (PInt 1000)) (Fin False 4) = Inr sample_financial_rows"
  by (simp add: financial_data_def price_per_watt_def py_format_f_def row_def
      sample_financial_rows_def int_to_float_1000 credit_1000 net_1000 mk_float_4000 quot_1000
      fmt_1000 fmt_300 fmt_700 fmt_quarter)

text \<open>
  Claim C8. With the price 1000 and a system of 4 kW (4000 W in the design summary) the
  financial rows are: system price \<^verbatim>\<open>$1,000.00\<close>, price per watt \<^verbatim>\<open>$0.25/W\<close>, federal tax
  credit \<^verbatim>\<open>$300.00\<close>, net system cost \<^verbatim>\<open>$700.00\<close>; with a system of 0 kW the price per
  watt is \<^verbatim>\<open>N/A\<close>. The values are those of binary64 arithmetic.
\<close>

theorem financial_rows_1000_4:
  "rbind (py_div_1000 (JNum (PInt 4000))) (financial_data (JNum (PInt 1000))) = Inr
     [[JStr ''Item'', JStr ''Amount''],
      [JStr ''System Price'', JStr ''$1,000.00''],
      [JStr ''Price per Watt'', JStr ''$0.25/W''],
      [JStr ''Federal Tax Credit'', JStr ''$300.00''],
      [JStr ''Net System Cost'', JStr ''$700.00'']]
   \<and> rbind (py_div_1000 (JNum (PInt 0))) (price_per_watt (JNum (PInt 1000))) = Inr ''N/A''"
  by (simp add: size_4000 size_0 sample_financial sample_financial_rows_def price_per_watt_def)

section \<open>The run\<close>

text \<open>
  Claim C5. When the credential check returns false (a refused status, a failed
  request), the run returns false, and the only request ever sent is the credential
  check itself: no request goes to an endpoint below the tenant, which is where
  \<^verbatim>\<open>get_project\<close>, \<^verbatim>\<open>get_design_summary\<close>, \<^verbatim>\<open>get_design_pricing\<close> and
  \<^verbatim>\<open>get_design_assets\<close> send theirs. No document is started.
\<close>

theorem credential_failure_short_circuits:
  assumes "fst (validate_credentials E (api self) []) = False"
  shows "generate_design_report E self design_id project_id =
           \<lparr>success = False,
            trace = [Request ''GET'' (base_url @ ''/tenants/'' @ tenant_id (api self)) (headers (api self))],
            pdf = None, document = None\<rparr>
         \<and> (\<forall>endpoint. endpoint \<noteq> [] \<longrightarrow>
               Request ''GET'' (base_url @ ''/tenants/'' @ tenant_id (api self) @ endpoint) (headers (api self))
                 \<notin> set (trace (generate_design_report E self design_id project_id)))"
proof -
  have tr: "snd (validate_credentials E (api self) []) =
      [Request ''GET'' (base_url @ ''/tenants/'' @ tenant_id (api self)) (headers (api self))]"
    by (simp add: validate_credentials_def send_def split: http_result.splits)
  obtain ok tr0 where v: "validate_credentials E (api self) [] = (ok, tr0)"
    by (cases "validate_credentials E (api self) []")
  with assms tr have ok: "ok = False"
    and tr0: "tr0 = [Request ''GET'' (base_url @ ''/tenants/'' @ tenant_id (api self)) (headers (api self))]"
    by simp_all
  show ?thesis
    by (simp add: generate_design_report_def v ok tr0)
qed

theorem credential_failure_short_circuits_witness:
  "fst (validate_credentials (sample_env unauthorized) (api sample_self) []) = False \<and>
   generate_design_report (sample_env unauthorized) sample_self ''D1'' (Some ''P1'') =
     \<lparr>success = False,
      trace = [Request ''GET'' ''https://api.aurorasolar.com/tenants/T1''
                 [(''Authorization'', ''Bearer K''), (''Content-Type'', ''application/json'')]],
      pdf = None, document = None\<rparr>"
proof -
  have v: "fst (validate_credentials (sample_env unauthorized) (api sample_self) []) = False"
    by (simp add: validate_credentials_def send_def sample_env_def unauthorized_def)
  from credential_failure_short_circuits [OF v, of "''D1''" "Some ''P1''"] v
  show ?thesis
    by (simp add: sample_self_def base_url_def headers_def)
qed

section \<open>What the sections add to the document\<close>

lemma elements_append_els [simp]: "elements (append_els fs p) = elements p @ fs"
  by (simp add: append_els_def)

lemma overview_section_blocks:
  "\<exists>bs. elements (snd (overview_section E v p)) = elements p @ bs
        \<and> visualization_header \<notin> set bs \<and> unavailable_paragraph \<notin> set bs \<and> \<not> list_ex is_image bs"
  by (auto simp: overview_section_def add_header_def add_table_def Let_def
        visualization_header_def unavailable_paragraph_def unavailable_def
      split: sum.splits option.splits)

lemma financial_section_blocks:
  "\<exists>bs. elements (snd (financial_section v x p)) = elements p @ bs
        \<and> visualization_header \<notin> set bs \<and> unavailable_paragraph \<notin> set bs \<and> \<not> list_ex is_image bs"
  by (auto simp: financial_section_def add_header_def add_table_def Let_def
        visualization_header_def unavailable_paragraph_def unavailable_def
      split: sum.splits)

lemma image_section_no_assets:
  assumes "v = JDict ad" and "map_of ad ''assets'' = None \<or> map_of ad ''assets'' = Some (JList [])"
  shows "image_section E a v s = (None, s)"
  using assms by (auto simp: image_section_def)

lemma build_report_no_assets:
  assumes "design_assets d = JDict ad"
    and "map_of ad ''assets'' = None \<or> map_of ad ''assets'' = Some (JList [])"
  shows "fst (snd (build_report E a d s)) = fst s \<and>
         (\<exists>bs. elements (snd (snd (build_report E a d s))) = elements (snd s) @ bs
            \<and> visualization_header \<notin> set bs \<and> unavailable_paragraph \<notin> set bs \<and> \<not> list_ex is_image bs)"
proof -
  obtain x1 p1 where o: "overview_section E (project_data d) (snd s) = (x1, p1)"
    by (cases "overview_section E (project_data d) (snd s)")
  from overview_section_blocks [of E "project_data d" "snd s"] o
  obtain b1 where b1: "elements p1 = elements (snd s) @ b1"
    "visualization_header \<notin> set b1" "unavailable_paragraph \<notin> set b1" "\<not> list_ex is_image b1"
    by auto
  show ?thesis
  proof (cases x1)
    case (Some e)
    with o b1 show ?thesis by (simp add: build_report_def)
  next
    case None
    let ?p2 = "add_header ''System Design Details'' p1"
    show ?thesis
    proof (cases "design_details E (design_summary d)")
      case (Inl e)
      with o None b1 show ?thesis
        by (simp add: build_report_def Let_def add_header_def visualization_header_def unavailable_paragraph_def)
    next
      case (Inr r)
      obtain rows sz where r: "r = (rows, sz)" by (cases r)
      let ?p3 = "add_table rows ?p2"
      obtain x3 p4 where f: "financial_section (design_pricing d) sz ?p3 = (x3, p4)"
        by (cases "financial_section (design_pricing d) sz ?p3")
      from financial_section_blocks [of "design_pricing d" sz ?p3] f
      obtain b3 where b3: "elements p4 = elements ?p3 @ b3"
        "visualization_header \<notin> set b3" "unavailable_paragraph \<notin> set b3" "\<not> list_ex is_image b3"
        by auto
      have img: "image_section E a (design_assets d) (fst s, p4) = (None, (fst s, p4))"
        using assms by (rule image_section_no_assets)
      from o None Inr r f b1 b3 img show ?thesis
        by (cases x3)
           (simp_all add: build_report_def Let_def add_header_def add_table_def
              visualization_header_def unavailable_paragraph_def)
    qed
  qed
qed

section \<open>A sample run\<close>

lemma fmt_size_4: "format_fixed False 2 (Fin False 4) = ''4.00''"
  by (simp add: format_fixed_def float_eval) (simp add: fixed_digits_def pad_zeros_def str_nat.simps)

lemma fmt_5200: "py_format_f True 0 (JNum (PInt 5200)) = Inr ''5,200''"
  apply (simp add: py_format_f_def int_to_float_def float_eval)
  apply (simp add: format_fixed_def float_eval)
  apply (simp add: fixed_digits_def pad_zeros_def str_nat.simps)
  done

lemma fmt_95: "py_format_f False (Suc 0) (JNum (PInt 95)) = Inr ''95.0''"
  apply (simp add: py_format_f_def int_to_float_def float_eval)
  apply (simp add: format_fixed_def float_eval)
  apply (simp add: fixed_digits_def pad_zeros_def str_nat.simps)
  done

lemma str_10: "str_int 10 = ''10''"
  by (simp add: str_int_def str_nat.simps)

lemma sample_design_details:
  "design_details E sample_summary = Inr (sample_design_rows, Fin False 4)"
  by (simp add: design_details_def sample_summary_def sample_design_rows_def materials_get_def
      row_def size_4000 fmt_size_4 fmt_5200 fmt_95 str_10)

lemma sample_start_pdf: "start_pdf (sample_env server) sample_self ''D1'' = sample_title_pdf"
  by (simp add: start_pdf_def sample_env_def sample_self_def path_join_def sample_title_pdf_def)

lemma sample_validate:
  "validate_credentials (sample_env (sample_server s p a j i)) (api sample_self) [] =
     (True, [hd sample_requests])"
  by (simp add: validate_credentials_def send_def sample_env_def sample_server_def sample_self_def
      base_url_def headers_def ok_json_def raise_for_status_def sample_requests_def)

lemma sample_fetch:
  "fetch_data (sample_env (sample_server sample_summary sample_pricing a j i)) (api sample_self)
      ''D1'' (Some ''P1'') [hd sample_requests] =
     (Inr (Some \<lparr>design_summary = sample_summary,
                  design_pricing = JDict [(''system_price'', JNum (PInt 1000))],
                  design_assets = a, project_data = j\<rparr>), sample_requests)"
  by (simp add: fetch_data_def get_design_summary_def get_design_pricing_def get_design_assets_def
      get_project_def make_request_def send_def sample_env_def sample_server_def sample_self_def
      base_url_def headers_def ok_json_def raise_for_status_def sample_requests_def
      sample_summary_def sample_pricing_def)

lemma sample_financial_section:
  "financial_section (JDict [(''system_price'', JNum (PInt 1000))]) (Fin False 4) p =
     (None, add_table sample_financial_rows (add_header ''Financial Overview'' p))"
  by (simp add: financial_section_def sample_financial)

lemma sample_generate:
  "fst (generate (sample_env server) p) \<noteq> None"
  by (simp add: generate_def sample_env_def)

lemma sample_build_no_assets:
  "build_report E a
     \<lparr>design_summary = sample_summary,
      design_pricing = JDict [(''system_price'', JNum (PInt 1000))],
      design_assets = JDict [], project_data = JDict [(''message'', JStr ''Not found'')]\<rparr>
     (tr, p) =
   (None, (tr, sample_design_pdf (add_header ''Project Overview'' p)))"
  by (simp add: build_report_def overview_section_def format_project_overview_def
      sample_design_details sample_financial_section image_section_def sample_design_pdf_def)

lemma sample_run_no_assets:
  "generate_design_report
     (sample_env (sample_server sample_summary sample_pricing (JDict [])
        (JDict [(''message'', JStr ''Not found'')]) i))
     sample_self ''D1'' (Some ''P1'') =
   \<lparr>success = True, trace = sample_requests,
    pdf = Some (sample_design_pdf (add_header ''Project Overview'' sample_title_pdf)),
    document = fst (generate (sample_env (sample_server sample_summary sample_pricing (JDict [])
        (JDict [(''message'', JStr ''Not found'')]) i))
        (sample_design_pdf (add_header ''Project Overview'' sample_title_pdf)))\<rparr>"
  using sample_generate [of "sample_server sample_summary sample_pricing (JDict [])
        (JDict [(''message'', JStr ''Not found'')]) i" "sample_design_pdf (add_header ''Project Overview'' sample_title_pdf)"]
  by (auto simp add: generate_design_report_def sample_validate sample_fetch sample_start_pdf
      sample_build_no_assets)

section \<open>The visualization section\<close>

lemma start_pdf_blocks:
  "visualization_header \<notin> set (elements (start_pdf E self did))
   \<and> unavailable_paragraph \<notin> set (elements (start_pdf E self did))"
  by (auto simp: start_pdf_def Let_def add_title_def add_logo_def new_pdf_def
      visualization_header_def unavailable_paragraph_def unavailable_def
      split: option.splits sum.splits)

text \<open>
  Claim C10. When the design-assets response is an object without the key \<^verbatim>\<open>assets\<close>, or
  with an empty list under it, the image section changes nothing: the run sends no
  request after the fetches, and the document it builds holds neither the header
  \<^verbatim>\<open>System Design Visualization\<close> nor the paragraph that the images are unavailable.
  The run succeeds exactly when the other sections raise nothing and the layout
  succeeds.
\<close>

theorem no_assets_skips_visualization:
  assumes v: "validate_credentials E (api self) [] = (True, tr0)"
    and f: "fetch_data E (api self) design_id project_id tr0 = (Inr (Some d), tr1)"
    and a: "design_assets d = JDict ad"
    and e: "map_of ad ''assets'' = None \<or> map_of ad ''assets'' = Some (JList [])"
  shows "image_section E (api self) (design_assets d) s = (None, s)
    \<and> trace (generate_design_report E self design_id project_id) = tr1
    \<and> (\<exists>p. pdf (generate_design_report E self design_id project_id) = Some p
          \<and> visualization_header \<notin> set (elements p)
          \<and> unavailable_paragraph \<notin> set (elements p)
          \<and> (success (generate_design_report E self design_id project_id) \<longleftrightarrow>
               fst (build_report E (api self) d (tr1, start_pdf E self design_id)) = None
               \<and> fst (generate E p) \<noteq> None))"
proof -
  let ?s = "(tr1, start_pdf E self design_id)"
  obtain x tr2 p where b: "build_report E (api self) d ?s = (x, (tr2, p))"
    by (cases "build_report E (api self) d ?s") auto
  from build_report_no_assets [OF a e, of E "api self" ?s] b
  obtain bs where tr2: "tr2 = tr1" and el: "elements p = elements (start_pdf E self design_id) @ bs"
    and bs: "visualization_header \<notin> set bs" "unavailable_paragraph \<notin> set bs"
    by auto
  from el bs start_pdf_blocks [of E self design_id]
  have p: "visualization_header \<notin> set (elements p)" "unavailable_paragraph \<notin> set (elements p)"
    by simp_all
  have i: "image_section E (api self) (design_assets d) s = (None, s)"
    using a e by (rule image_section_no_assets)
  show ?thesis
    using v f b tr2 p i
    by (cases x; cases "fst (generate E p)") (simp_all add: generate_design_report_def)
qed

theorem no_assets_skips_visualization_witness:
  "success (generate_design_report
      (sample_env (sample_server sample_summary sample_pricing (JDict [])
         (JDict [(''message'', JStr ''Not found'')]) (\<lambda>tr. RequestException)))
      sample_self ''D1'' (Some ''P1''))
   \<and> trace (generate_design_report
      (sample_env (sample_server sample_summary sample_pricing (JDict [])
         (JDict [(''message'', JStr ''Not found'')]) (\<lambda>tr. RequestException)))
      sample_self ''D1'' (Some ''P1'')) = sample_requests
   \<and> (\<exists>p. pdf (generate_design_report
      (sample_env (sample_server sample_summary sample_pricing (JDict [])
         (JDict [(''message'', JStr ''Not found'')]) (\<lambda>tr. RequestException)))
      sample_self ''D1'' (Some ''P1'')) = Some p
        \<and> visualization_header \<notin> set (elements p)
        \<and> unavailable_paragraph \<notin> set (elements p))"
proof -
  let ?E = "sample_env (sample_server sample_summary sample_pricing (JDict [])
         (JDict [(''message'', JStr ''Not found'')]) (\<lambda>tr. RequestException))"
  have e: "map_of ([] :: (string \<times> json) list) ''assets'' = None
            \<or> map_of ([] :: (string \<times> json) list) ''assets'' = Some (JList [])"
    by simp
  have a: "design_assets \<lparr>design_summary = sample_summary,
                  design_pricing = JDict [(''system_price'', JNum (PInt 1000))],
                  design_assets = JDict [], project_data = JDict [(''message'', JStr ''Not found'')]\<rparr>
            = JDict []"
    by simp
  from no_assets_skips_visualization [OF sample_validate sample_fetch a e,
      where s = "([], sample_title_pdf)"]
  show ?thesis
    by (auto simp: sample_run_no_assets)
qed

section \<open>Missing fields\<close>

lemma untyped_fetch:
  "fetch_data (sample_env (sample_server untyped_bom_summary sample_pricing a j i)) (api sample_self)
      ''D1'' (Some ''P1'') [hd sample_requests] =
     (Inr (Some \<lparr>design_summary = untyped_bom_summary,
                  design_pricing = JDict [(''system_price'', JNum (PInt 1000))],
                  design_assets = a, project_data = j\<rparr>), sample_requests)"
  by (simp add: fetch_data_def get_design_summary_def get_design_pricing_def get_design_assets_def
      get_project_def make_request_def send_def sample_env_def sample_server_def sample_self_def
      base_url_def headers_def ok_json_def raise_for_status_def sample_requests_def
      untyped_bom_summary_def sample_pricing_def)

lemma fmt_size_0: "format_fixed False 2 (Fin False 0) = ''0.00''"
  by (simp add: format_fixed_def float_eval) (simp add: fixed_digits_def pad_zeros_def str_nat.simps)

lemma fmt_production_0: "py_format_f True 0 (JNum (PInt 0)) = Inr ''0''"
  apply (simp add: py_format_f_def int_to_float_def float_eval)
  apply (simp add: format_fixed_def float_eval)
  apply (simp add: fixed_digits_def pad_zeros_def str_nat.simps)
  done

text \<open>
  Claim C4 (the code departs from it). A design summary with no field at all gets the
  default of every lookup, but a bill-of-materials entry without \<^verbatim>\<open>component_type\<close>
  makes \<^verbatim>\<open>item['component_type']\<close> raise \<^verbatim>\<open>KeyError\<close>: the design details are not
  computed and the run, which has the header of the section already, returns false.
\<close>

theorem bill_of_materials_entry_without_type:
  "design_details E (JDict []) = Inr
     ([[JStr ''Metric'', JStr ''Value''],
       [JStr ''System Size'', JStr ''0.00 kW''],
       [JStr ''Annual Production'', JStr ''0 kWh''],
       [JStr ''Number of Panels'', JStr ''N/A''],
       [JStr ''Panel Model'', JStr ''N/A''],
       [JStr ''Inverter Model'', JStr ''N/A''],
       [JStr ''Solar Access'', JStr ''N/A'']], Fin False 0)
   \<and> design_details E untyped_bom_summary = Inl KeyError
   \<and> generate_design_report
       (sample_env (sample_server untyped_bom_summary sample_pricing (JDict []) JNull i))
       sample_self ''D1'' (Some ''P1'') =
     \<lparr>success = False, trace = sample_requests,
      pdf = Some (add_header ''System Design Details'' sample_title_pdf),
      document = None\<rparr>"
proof -
  have d0: "design_details E (JDict []) = Inr
     ([[JStr ''Metric'', JStr ''Value''],
       [JStr ''System Size'', JStr ''0.00 kW''],
       [JStr ''Annual Production'', JStr ''0 kWh''],
       [JStr ''Number of Panels'', JStr ''N/A''],
       [JStr ''Panel Model'', JStr ''N/A''],
       [JStr ''Inverter Model'', JStr ''N/A''],
       [JStr ''Solar Access'', JStr ''N/A'']], Fin False 0)"
    by (simp add: design_details_def materials_get_def row_def size_0 fmt_size_0 fmt_production_0)
  have d: "design_details E untyped_bom_summary = Inl KeyError" for E
    by (simp add: design_details_def untyped_bom_summary_def)
  have b: "build_report E a
     \<lparr>design_summary = untyped_bom_summary,
      design_pricing = JDict [(''system_price'', JNum (PInt 1000))],
      design_assets = JDict [], project_data = JNull\<rparr> (tr, p) =
     (Some KeyError, (tr, add_header ''System Design Details'' p))" for E a tr p
    by (simp add: build_report_def overview_section_def d)
  show ?thesis
    by (simp add: d0 d generate_design_report_def sample_validate untyped_fetch sample_start_pdf b)
qed

text \<open>
  Claim C2 (the code departs from it). For a project payload without the key
  \<^verbatim>\<open>project\<close>, such as the body of an error answer, \<^verbatim>\<open>format_project_overview\<close> returns
  \<^verbatim>\<open>None\<close> and no table is added, but the header \<^verbatim>\<open>Project Overview\<close> is: the run adds it
  before it asks for the rows, and the document of the successful sample run holds it.
\<close>

theorem project_header_without_project_key:
  "format_project_overview E (JDict [(''message'', JStr ''Not found'')]) = Inr None
   \<and> overview_section E (JDict [(''message'', JStr ''Not found'')]) p
       = (None, add_header ''Project Overview'' p)
   \<and> pdf (generate_design_report
       (sample_env (sample_server sample_summary sample_pricing (JDict [])
          (JDict [(''message'', JStr ''Not found'')]) i))
       sample_self ''D1'' (Some ''P1''))
     = Some (sample_design_pdf (add_header ''Project Overview'' sample_title_pdf))
   \<and> Paragraph ''Project Overview'' ''ReportHeader''
       \<in> set (elements (sample_design_pdf (add_header ''Project Overview'' sample_title_pdf)))"
  by (simp add: format_project_overview_def overview_section_def sample_run_no_assets
      sample_design_pdf_def add_header_def add_table_def)

section \<open>No division by zero\<close>

lemma pow2_powi: "pow2 e = 2 powi e"
  by (simp add: pow2_def power_int_def field_simps)

lemma pow2_pos: "0 < pow2 e"
  by (simp add: pow2_powi)

lemma pow2_mono: "e \<le> e' \<Longrightarrow> pow2 e \<le> pow2 e'"
  by (simp add: pow2_powi power_int_increasing)

lemma ilog2_lower:
  assumes "0 < q"
  shows "pow2 (ilog2 q) \<le> q"
proof (cases "1 \<le> q")
  case True
  then have f: "0 < \<lfloor>q\<rfloor>" by linarith
  from bitlen_bounds [OF f] have b: "2 ^ nat (bitlen \<lfloor>q\<rfloor> - 1) \<le> \<lfloor>q\<rfloor>" by simp
  have ge: "1 \<le> bitlen \<lfloor>q\<rfloor>"
    using f by (simp add: bitlen_alt_def)
  have "pow2 (bitlen \<lfloor>q\<rfloor> - 1) = of_int (2 ^ nat (bitlen \<lfloor>q\<rfloor> - 1))"
    using ge by (simp add: pow2_def)
  also have "\<dots> \<le> of_int \<lfloor>q\<rfloor>"
    using b by (simp only: of_int_le_iff)
  also have "\<dots> \<le> q" by simp
  finally show ?thesis using True by (simp add: ilog2_def)
next
  case False
  then have q1: "q < 1" by simp
  let ?c = "\<lceil>1 / q\<rceil>"
  have r: "1 < 1 / q" using assms q1 by (simp add: field_simps)
  then have c2: "2 \<le> ?c" by linarith
  then have pos: "0 < ?c - 1" by simp
  from bitlen_bounds [OF pos] have b: "?c - 1 < 2 ^ nat (bitlen (?c - 1))" by simp
  then have cle: "?c \<le> 2 ^ nat (bitlen (?c - 1))" by simp
  have "(of_int ?c :: rat) \<le> of_int (2 ^ nat (bitlen (?c - 1)))"
    using cle by (rule of_int_le_iff [THEN iffD2])
  then have up: "(of_int ?c :: rat) \<le> 2 ^ nat (bitlen (?c - 1))"
    by (simp only: of_int_power of_int_numeral)
  have lo: "1 / q \<le> of_int ?c" by (rule le_of_int_ceiling)
  from lo up have le: "1 / q \<le> 2 ^ nat (bitlen (?c - 1))"
    by (rule order_trans)
  have "1 / 2 ^ nat (bitlen (?c - 1)) \<le> q"
    using le assms by (simp add: field_simps)
  moreover have "0 \<le> bitlen (?c - 1)" by (rule bitlen_nonneg)
  ultimately show ?thesis
    using False by (auto simp: ilog2_def pow2_def)
qed

lemma round_half_even_ge_1: "1 \<le> x \<Longrightarrow> 1 \<le> round_half_even x"
proof -
  assume "1 \<le> x"
  then have "1 \<le> \<lfloor>x\<rfloor>" by linarith
  then show ?thesis by (simp add: round_half_even_def)
qed

lemma round_half_even_nonneg: "0 \<le> x \<Longrightarrow> 0 \<le> round_half_even x"
proof -
  assume "0 \<le> x"
  then have "0 \<le> \<lfloor>x\<rfloor>" by linarith
  then show ?thesis by (simp add: round_half_even_def)
qed

lemma round_double_smallest:
  assumes "0 < round_double q"
  shows "pow2 (- 1074) \<le> round_double q"
proof -
  from assms have q: "q \<noteq> 0" by (auto simp: round_double_def)
  let ?e = "max (ilog2 q) (- 1022)"
  let ?u = "pow2 (?e - 52)"
  let ?n = "round_half_even (q / ?u)"
  have rd: "round_double q = of_int ?n * ?u"
    using q by (simp add: round_double_def quantize_def)
  have u: "0 < ?u" by (rule pow2_pos)
  from assms rd u have "0 < (of_int ?n :: rat)"
    by (simp add: zero_less_mult_iff)
  then have "1 \<le> ?n" by simp
  then have "(1 :: rat) \<le> of_int ?n" by simp
  then have "?u \<le> of_int ?n * ?u"
    using u by (simp add: mult_le_cancel_right1)
  moreover have "pow2 (- 1074) \<le> ?u"
    by (rule pow2_mono) simp
  ultimately show ?thesis using rd by simp
qed

lemma round_double_pos:
  assumes "1000 * pow2 (- 1074) \<le> q"
  shows "0 < round_double q"
proof -
  have p: "0 < pow2 (- 1074)" by (rule pow2_pos)
  with assms have q: "0 < q" by linarith
  let ?e = "max (ilog2 q) (- 1022)"
  let ?u = "pow2 (?e - 52)"
  have u: "0 < ?u" by (rule pow2_pos)
  have "?u \<le> q"
  proof (cases "ilog2 q \<le> - 1022")
    case True
    then have "?u = pow2 (- 1074)" by (simp add: max_def)
    with assms p show ?thesis by linarith
  next
    case False
    then have "?e = ilog2 q" by (simp add: max_def)
    then have "?u \<le> pow2 (ilog2 q)" by (simp add: pow2_mono)
    with ilog2_lower [OF q] show ?thesis by linarith
  qed
  then have "1 \<le> q / ?u" using u by (simp add: field_simps)
  then have "1 \<le> round_half_even (q / ?u)" by (rule round_half_even_ge_1)
  then have "0 < (of_int (round_half_even (q / ?u)) :: rat)" by simp
  then have "0 < of_int (round_half_even (q / ?u)) * ?u" using u by simp
  then show ?thesis using q by (simp add: round_double_def quantize_def)
qed


lemma mk_float_Fin: "mk_float s q = Fin t r \<Longrightarrow> t = s \<and> r = round_double q"
  by (auto simp: mk_float_def in_range_def split: if_splits)

lemma py_div_1000_Fin:
  assumes "py_div_1000 v = Inr (Fin s r)"
  shows "\<exists>q. r = round_double q"
proof -
  from assms obtain n where n: "as_number v = Some n"
    by (cases "as_number v") (auto simp: py_div_1000_def)
  show ?thesis
  proof (cases n)
    case (PInt i)
    with assms n have "mk_float (i < 0) (\<bar>of_int i\<bar> / 1000) = Fin s r"
      by (auto simp: py_div_1000_def split: pyfloat.splits)
    then show ?thesis by (auto dest: mk_float_Fin)
  next
    case (PFloat x)
    with assms n have "float_div x (Fin False 1000) = Inr (Fin s r)"
      by (simp add: py_div_1000_def)
    then show ?thesis
      by (cases x) (auto dest: mk_float_Fin)
  qed
qed

lemma watts_not_zero:
  assumes "py_div_1000 v = Inr x" and "float_pos x"
  shows "\<not> float_is_zero (float_mul x (Fin False 1000))"
proof (cases x)
  case (Fin s r)
  with assms(2) have s: "s = False" and r: "0 < r" by simp_all
  from assms(1) Fin obtain q where q: "r = round_double q"
    by (auto dest: py_div_1000_Fin)
  from r q have "pow2 (- 1074) \<le> r"
    by (simp add: round_double_smallest)
  then have "1000 * pow2 (- 1074) \<le> r * 1000" by simp
  then have "0 < round_double (r * 1000)" by (rule round_double_pos)
  then show ?thesis
    using Fin s by (auto simp: mk_float_def in_range_def)
next
  case (Infinity s)
  then show ?thesis by simp
next
  case NaN
  with assms(2) show ?thesis by simp
qed

lemma float_div_error:
  "float_div y z = Inl e \<Longrightarrow> float_is_zero z"
  by (cases z) (auto split: if_splits pyfloat.splits)

lemma to_float_error: "to_float n = Inl e \<Longrightarrow> e = OverflowError"
  by (cases n) (auto simp: int_to_float_def split: pyfloat.splits)

lemma py_div_float_error:
  assumes "\<not> float_is_zero z"
  shows "py_div_float v z \<noteq> Inl ZeroDivisionError"
proof
  assume a: "py_div_float v z = Inl ZeroDivisionError"
  then obtain n where n: "as_number v = Some n"
    by (cases "as_number v") (auto simp: py_div_float_def)
  show False
  proof (cases "to_float n")
    case (Inl e)
    with a n to_float_error [OF Inl] show False by (simp add: py_div_float_def)
  next
    case (Inr y)
    with a n have "float_div y z = Inl ZeroDivisionError" by (simp add: py_div_float_def)
    with assms show False by (auto dest: float_div_error)
  qed
qed

lemma py_mul_float_error: "py_mul_float v y \<noteq> Inl ZeroDivisionError"
proof
  assume a: "py_mul_float v y = Inl ZeroDivisionError"
  then obtain n where n: "as_number v = Some n"
    by (cases "as_number v") (auto simp: py_mul_float_def)
  with a show False
    by (cases "to_float n") (auto simp: py_mul_float_def dest: to_float_error)
qed

lemma py_format_f_error: "py_format_f c k v \<noteq> Inl ZeroDivisionError"
proof
  assume a: "py_format_f c k v = Inl ZeroDivisionError"
  show False
  proof (cases "as_number v")
    case None
    with a show False by (cases v) (simp_all add: py_format_f_def)
  next
    case (Some n)
    with a show False
      by (cases "to_float n") (auto simp: py_format_f_def dest: to_float_error)
  qed
qed

lemma price_per_watt_error:
  assumes "py_div_1000 stc = Inr x"
  shows "price_per_watt price x \<noteq> Inl ZeroDivisionError"
proof (cases "float_pos x")
  case True
  from watts_not_zero [OF assms True] have "py_div_float price (float_mul x (Fin False 1000)) \<noteq> Inl ZeroDivisionError"
    by (rule py_div_float_error)
  with True show ?thesis
    by (cases "py_div_float price (float_mul x (Fin False 1000))") (simp_all add: price_per_watt_def)
next
  case False
  then show ?thesis by (simp add: price_per_watt_def)
qed

lemma financial_data_error:
  assumes "py_div_1000 stc = Inr x"
  shows "financial_data price x \<noteq> Inl ZeroDivisionError"
  using price_per_watt_error [OF assms, of price] py_mul_float_error [of price] py_format_f_error [of True 2 price]
  by (auto simp: financial_data_def rbind_def split: sum.splits)

lemma design_details_size:
  assumes "design_details E summary = Inr (design_data, system_size)"
  shows "\<exists>stc. py_div_1000 stc = Inr system_size"
  using assms
  by (auto simp: design_details_def rbind_Inr_iff Let_def)

lemma add_image_appends:
  "\<exists>bs. elements (snd (add_image E c w p)) = elements p @ bs"
  by (auto simp: add_image_def Let_def split: option.splits sum.splits)

lemma try_image_appends:
  "\<exists>bs. elements (snd (snd (try_image E a url s))) = elements (snd s) @ bs"
proof (cases "download_image E a (fst s) url")
  case (Pair d tr1)
  show ?thesis
  proof (cases d)
    case None
    with Pair show ?thesis by (simp add: try_image_def)
  next
    case (Some c)
    with Pair add_image_appends [of E c "lit (8 / 10)" "snd s"] show ?thesis
      by (auto simp: try_image_def split: prod.splits)
  qed
qed

lemma retry_loop_appends:
  "\<exists>bs. elements (snd (snd (retry_loop E a url m ks s))) = elements (snd s) @ bs"
proof (induction ks arbitrary: s)
  case Nil
  then show ?case by simp
next
  case (Cons k ks)
  obtain ok tr1 p1 where t: "try_image E a url s = (ok, (tr1, p1))"
    by (cases "try_image E a url s") auto
  from try_image_appends [of E a url s] t obtain b1 where b1: "elements p1 = elements (snd s) @ b1"
    by auto
  show ?case
  proof (cases ok)
    case True
    with t b1 show ?thesis by simp
  next
    case False
    from Cons [of "(if k < m - 1 then tr1 @ [Sleep 2] else tr1, p1)"] b1
    obtain b2 where "elements (snd (snd (retry_loop E a url m ks
        (if k < m - 1 then tr1 @ [Sleep 2] else tr1, p1)))) = elements (snd s) @ b1 @ b2"
      by auto
    with False t show ?thesis by simp
  qed
qed

lemma process_assets_appends:
  "\<exists>bs. elements (snd (snd (process_assets E a assets b s))) = elements (snd s) @ bs"
proof (induction assets arbitrary: b s)
  case Nil
  then show ?case by simp
next
  case (Cons x xs)
  show ?case
  proof (cases "py_get x ''url'' JNull")
    case (Inl e)
    then show ?thesis by simp
  next
    case (Inr v)
    show ?thesis
    proof (cases "truthy v")
      case False
      with Inr Cons [of b s] show ?thesis by simp
    next
      case True
      obtain ok s1 where r: "retry_loop E a v 3 [0..<3] s = (ok, s1)"
        by (cases "retry_loop E a v 3 [0..<3] s")
      from retry_loop_appends [of E a v 3 "[0..<3]" s] r
      obtain b1 where b1: "elements (snd s1) = elements (snd s) @ b1" by auto
      from Cons [of "b \<or> ok" s1] b1
      obtain b2 where "elements (snd (snd (process_assets E a xs (b \<or> ok) s1)))
          = elements (snd s) @ b1 @ b2"
        by auto
      with Inr True r show ?thesis by simp
    qed
  qed
qed

lemma image_section_appends:
  "\<exists>bs. elements (snd (snd (image_section E a v s))) = elements (snd s) @ bs"
proof (cases "py_get v ''assets'' JNull")
  case (Inl e)
  then show ?thesis by (simp add: image_section_def)
next
  case (Inr assets)
  show ?thesis
  proof (cases "truthy assets")
    case False
    with Inr show ?thesis by (simp add: image_section_def)
  next
    case True
    let ?s1 = "(fst s, add_header ''System Design Visualization'' (snd s))"
    show ?thesis
    proof (cases "rbind (py_getitem v ''assets'') (\<lambda>v. rbind (py_iter v) filter_assets)")
      case (Inl e)
      with Inr True show ?thesis by (simp add: image_section_def Let_def add_header_def)
    next
      case kept: (Inr layout_images)
      show ?thesis
      proof (cases "layout_images = []")
        case True
        with Inr \<open>truthy assets\<close> kept show ?thesis
          by (simp add: image_section_def Let_def add_header_def add_paragraph_def)
      next
        case False
        obtain r s2 where p: "process_assets E a layout_images False ?s1 = (r, s2)"
          by (cases "process_assets E a layout_images False ?s1")
        from process_assets_appends [of E a layout_images False ?s1] p
        obtain bs where "elements (snd s2) = elements (snd s)
            @ [Paragraph ''System Design Visualization'' ''ReportHeader'',
               Spacer 1 (float_mul (lit (1 / 4)) inch)] @ bs"
          by (auto simp: add_header_def)
        with Inr \<open>truthy assets\<close> kept False p show ?thesis
          by (cases r) (auto simp: image_section_def Let_def add_paragraph_def)
      qed
    qed
  qed
qed


lemma successful_run:
  assumes "success (generate_design_report E self design_id project_id)"
  obtains tr0 tr1 d tr2 p where
    "validate_credentials E (api self) [] = (True, tr0)"
    "fetch_data E (api self) design_id project_id tr0 = (Inr (Some d), tr1)"
    "build_report E (api self) d (tr1, start_pdf E self design_id) = (None, (tr2, p))"
    "pdf (generate_design_report E self design_id project_id) = Some p"
  using assms
  by (auto simp: generate_design_report_def
      split: prod.splits bool.splits sum.splits option.splits)

lemma financial_section_table:
  assumes "financial_section pricing system_size p = (None, p')" and "truthy pricing"
  shows "\<exists>price rows.
      py_get pricing ''system_price'' (JNum (PInt 0)) = Inr price
    \<and> financial_data price system_size = Inr rows
    \<and> Table rows [float_mul (lit (5 / 2)) inch, float_mul (lit (7 / 2)) inch] \<in> set (elements p')"
  using assms
  by (auto simp: financial_section_def Let_def rbind_Inr_iff add_table_def split: sum.splits)

lemma build_report_financial:
  assumes "build_report E a d s = (None, s')"
  shows "\<exists>design_data system_size.
      design_details E (design_summary d) = Inr (design_data, system_size)
    \<and> (truthy (design_pricing d) \<longrightarrow>
         (\<exists>price rows.
            py_get (design_pricing d) ''system_price'' (JNum (PInt 0)) = Inr price
          \<and> financial_data price system_size = Inr rows
          \<and> Table rows [float_mul (lit (5 / 2)) inch, float_mul (lit (7 / 2)) inch]
              \<in> set (elements (snd s'))))"
proof -
  obtain x1 p1 where o: "overview_section E (project_data d) (snd s) = (x1, p1)"
    by (cases "overview_section E (project_data d) (snd s)")
  with assms have x1: "x1 = None"
    by (cases x1) (simp_all add: build_report_def)
  let ?p2 = "add_header ''System Design Details'' p1"
  from assms o x1 obtain design_data system_size
    where dd: "design_details E (design_summary d) = Inr (design_data, system_size)"
    by (cases "design_details E (design_summary d)") (auto simp: build_report_def Let_def)
  let ?p3 = "add_table design_data ?p2"
  obtain x3 p4 where f: "financial_section (design_pricing d) system_size ?p3 = (x3, p4)"
    by (cases "financial_section (design_pricing d) system_size ?p3")
  with assms o x1 dd have x3: "x3 = None"
    by (cases x3) (simp_all add: build_report_def Let_def)
  from assms o x1 dd f x3 have i: "image_section E a (design_assets d) (fst s, p4) = (None, s')"
    by (simp add: build_report_def Let_def)
  from image_section_appends [of E a "design_assets d" "(fst s, p4)"] i
  obtain bs where bs: "elements (snd s') = elements p4 @ bs"
    by auto
  have "truthy (design_pricing d) \<longrightarrow>
         (\<exists>price rows.
            py_get (design_pricing d) ''system_price'' (JNum (PInt 0)) = Inr price
          \<and> financial_data price system_size = Inr rows
          \<and> Table rows [float_mul (lit (5 / 2)) inch, float_mul (lit (7 / 2)) inch]
              \<in> set (elements (snd s')))"
  proof
    assume "truthy (design_pricing d)"
    from financial_section_table [OF f [unfolded x3] this] bs
    show "\<exists>price rows.
            py_get (design_pricing d) ''system_price'' (JNum (PInt 0)) = Inr price
          \<and> financial_data price system_size = Inr rows
          \<and> Table rows [float_mul (lit (5 / 2)) inch, float_mul (lit (7 / 2)) inch]
              \<in> set (elements (snd s'))"
      by auto
  qed
  with dd show ?thesis by blast
qed

lemma financial_data_row:
  assumes "financial_data price system_size = Inr rows"
  shows "\<exists>per_watt. price_per_watt price system_size = Inr per_watt
    \<and> rows ! 2 = [JStr ''Price per Watt'', JStr per_watt]
    \<and> (per_watt = ''N/A'' \<longleftrightarrow> \<not> float_pos system_size)"
  using assms
  by (auto simp: financial_data_def rbind_Inr_iff row_def price_per_watt_def split: if_splits)


lemma empty_design_details:
  "design_details E (JDict []) = Inr
     ([[JStr ''Metric'', JStr ''Value''],
       [JStr ''System Size'', JStr ''0.00 kW''],
       [JStr ''Annual Production'', JStr ''0 kWh''],
       [JStr ''Number of Panels'', JStr ''N/A''],
       [JStr ''Panel Model'', JStr ''N/A''],
       [JStr ''Inverter Model'', JStr ''N/A''],
       [JStr ''Solar Access'', JStr ''N/A'']], Fin False 0)"
  by (simp add: design_details_def materials_get_def row_def size_0 fmt_size_0 fmt_production_0)

text \<open>
  Claim C3, amended. In every run the price per watt is computed by a division only
  when the system size, \<^verbatim>\<open>system_size_stc / 1000\<close> as the design details compute it, is
  strictly positive: the row is then the quotient of the price by the size in watts,
  which is not zero, whatever the price. The price is not tested, and a price of zero
  gives \<^verbatim>\<open>$0.00/W\<close>. When the system size is not strictly positive the row is \<^verbatim>\<open>N/A\<close> and
  nothing is divided, so neither the row nor the section raises \<^verbatim>\<open>ZeroDivisionError\<close>.
  In a run that succeeds with a pricing answer that is not empty, the document holds
  the table of the financial rows, in which the row of the price per watt is \<^verbatim>\<open>N/A\<close>
  exactly when the system size is not strictly positive.
\<close>

theorem price_per_watt_guard:
  assumes "design_details E summary = Inr (design_data, system_size)"
  shows "(\<not> float_pos system_size \<longrightarrow> price_per_watt price system_size = Inr ''N/A'')
    \<and> (float_pos system_size \<longrightarrow>
         \<not> float_is_zero (float_mul system_size (Fin False 1000))
         \<and> price_per_watt price system_size =
             rbind (py_div_float price (float_mul system_size (Fin False 1000)))
               (\<lambda>q. Inr (''$'' @ format_fixed True 2 q @ ''/W'')))
    \<and> price_per_watt price system_size \<noteq> Inl ZeroDivisionError
    \<and> financial_data price system_size \<noteq> Inl ZeroDivisionError
    \<and> (\<forall>rows. financial_data price system_size = Inr rows \<longrightarrow>
         (\<exists>per_watt. price_per_watt price system_size = Inr per_watt
            \<and> rows ! 2 = [JStr ''Price per Watt'', JStr per_watt]
            \<and> (per_watt = ''N/A'' \<longleftrightarrow> \<not> float_pos system_size)))
    \<and> fst (financial_section pricing system_size p) \<noteq> Some ZeroDivisionError
    \<and> (truthy pricing \<longrightarrow>
         (\<exists>bs. elements (snd (financial_section pricing system_size p)) =
                 elements p @ Paragraph ''Financial Overview'' ''ReportHeader'' # bs))
    \<and> (\<not> truthy pricing \<longrightarrow> financial_section pricing system_size p = (None, p))
    \<and> (success (generate_design_report E self design_id project_id) \<longrightarrow>
         (\<exists>tr0 tr1 d rows0 size doc.
            validate_credentials E (api self) [] = (True, tr0)
          \<and> fetch_data E (api self) design_id project_id tr0 = (Inr (Some d), tr1)
          \<and> design_details E (design_summary d) = Inr (rows0, size)
          \<and> pdf (generate_design_report E self design_id project_id) = Some doc
          \<and> (truthy (design_pricing d) \<longrightarrow>
               (\<exists>price per_watt rows.
                  py_get (design_pricing d) ''system_price'' (JNum (PInt 0)) = Inr price
                \<and> price_per_watt price size = Inr per_watt
                \<and> (per_watt = ''N/A'' \<longleftrightarrow> \<not> float_pos size)
                \<and> (float_pos size \<longrightarrow> \<not> float_is_zero (float_mul size (Fin False 1000)))
                \<and> financial_data price size = Inr rows
                \<and> rows ! 2 = [JStr ''Price per Watt'', JStr per_watt]
                \<and> Table rows [float_mul (lit (5 / 2)) inch, float_mul (lit (7 / 2)) inch]
                    \<in> set (elements doc)))))"
proof -
  from design_details_size [OF assms] obtain stc where stc: "py_div_1000 stc = Inr system_size"
    by blast
  have run: "\<exists>tr0 tr1 d rows0 size doc.
            validate_credentials E (api self) [] = (True, tr0)
          \<and> fetch_data E (api self) design_id project_id tr0 = (Inr (Some d), tr1)
          \<and> design_details E (design_summary d) = Inr (rows0, size)
          \<and> pdf (generate_design_report E self design_id project_id) = Some doc
          \<and> (truthy (design_pricing d) \<longrightarrow>
               (\<exists>price per_watt rows.
                  py_get (design_pricing d) ''system_price'' (JNum (PInt 0)) = Inr price
                \<and> price_per_watt price size = Inr per_watt
                \<and> (per_watt = ''N/A'' \<longleftrightarrow> \<not> float_pos size)
                \<and> (float_pos size \<longrightarrow> \<not> float_is_zero (float_mul size (Fin False 1000)))
                \<and> financial_data price size = Inr rows
                \<and> rows ! 2 = [JStr ''Price per Watt'', JStr per_watt]
                \<and> Table rows [float_mul (lit (5 / 2)) inch, float_mul (lit (7 / 2)) inch]
                    \<in> set (elements doc)))"
    if s: "success (generate_design_report E self design_id project_id)"
  proof -
    from s obtain tr0 tr1 d tr2 doc where
      v: "validate_credentials E (api self) [] = (True, tr0)"
      and f: "fetch_data E (api self) design_id project_id tr0 = (Inr (Some d), tr1)"
      and b: "build_report E (api self) d (tr1, start_pdf E self design_id) = (None, (tr2, doc))"
      and d: "pdf (generate_design_report E self design_id project_id) = Some doc"
      by (rule successful_run)
    from build_report_financial [OF b] obtain rows0 size where
      dd: "design_details E (design_summary d) = Inr (rows0, size)"
      and t: "truthy (design_pricing d) \<longrightarrow>
         (\<exists>price rows.
            py_get (design_pricing d) ''system_price'' (JNum (PInt 0)) = Inr price
          \<and> financial_data price size = Inr rows
          \<and> Table rows [float_mul (lit (5 / 2)) inch, float_mul (lit (7 / 2)) inch]
              \<in> set (elements doc))"
      by auto
    from design_details_size [OF dd] obtain stc' where stc': "py_div_1000 stc' = Inr size"
      by blast
    have "truthy (design_pricing d) \<longrightarrow>
               (\<exists>price per_watt rows.
                  py_get (design_pricing d) ''system_price'' (JNum (PInt 0)) = Inr price
                \<and> price_per_watt price size = Inr per_watt
                \<and> (per_watt = ''N/A'' \<longleftrightarrow> \<not> float_pos size)
                \<and> (float_pos size \<longrightarrow> \<not> float_is_zero (float_mul size (Fin False 1000)))
                \<and> financial_data price size = Inr rows
                \<and> rows ! 2 = [JStr ''Price per Watt'', JStr per_watt]
                \<and> Table rows [float_mul (lit (5 / 2)) inch, float_mul (lit (7 / 2)) inch]
                    \<in> set (elements doc))"
    proof
      assume "truthy (design_pricing d)"
      with t obtain price rows where
        pr: "py_get (design_pricing d) ''system_price'' (JNum (PInt 0)) = Inr price"
        and fd: "financial_data price size = Inr rows"
        and tb: "Table rows [float_mul (lit (5 / 2)) inch, float_mul (lit (7 / 2)) inch]
              \<in> set (elements doc)"
        by blast
      from financial_data_row [OF fd] obtain per_watt where
        "price_per_watt price size = Inr per_watt"
        "rows ! 2 = [JStr ''Price per Watt'', JStr per_watt]"
        "per_watt = ''N/A'' \<longleftrightarrow> \<not> float_pos size"
        by blast
      with pr fd tb watts_not_zero [OF stc']
      show "\<exists>price per_watt rows.
                  py_get (design_pricing d) ''system_price'' (JNum (PInt 0)) = Inr price
                \<and> price_per_watt price size = Inr per_watt
                \<and> (per_watt = ''N/A'' \<longleftrightarrow> \<not> float_pos size)
                \<and> (float_pos size \<longrightarrow> \<not> float_is_zero (float_mul size (Fin False 1000)))
                \<and> financial_data price size = Inr rows
                \<and> rows ! 2 = [JStr ''Price per Watt'', JStr per_watt]
                \<and> Table rows [float_mul (lit (5 / 2)) inch, float_mul (lit (7 / 2)) inch]
                    \<in> set (elements doc)"
        by blast
    qed
    with v f dd d show ?thesis by blast
  qed
  have sec: "fst (financial_section pricing system_size p) \<noteq> Some ZeroDivisionError"
    using financial_data_error [OF stc]
    by (cases pricing) (auto simp: financial_section_def Let_def rbind_def split: sum.splits)
  have rows: "\<forall>rows. financial_data price system_size = Inr rows \<longrightarrow>
         (\<exists>per_watt. price_per_watt price system_size = Inr per_watt
            \<and> rows ! 2 = [JStr ''Price per Watt'', JStr per_watt]
            \<and> (per_watt = ''N/A'' \<longleftrightarrow> \<not> float_pos system_size))"
    by (auto dest: financial_data_row)
  have hd: "truthy pricing \<longrightarrow>
         (\<exists>bs. elements (snd (financial_section pricing system_size p)) =
                 elements p @ Paragraph ''Financial Overview'' ''ReportHeader'' # bs)"
    by (auto simp: financial_section_def add_header_def add_table_def Let_def split: sum.splits)
  have no: "\<not> truthy pricing \<longrightarrow> financial_section pricing system_size p = (None, p)"
    by (simp add: financial_section_def)
  have na: "\<not> float_pos system_size \<longrightarrow> price_per_watt price system_size = Inr ''N/A''"
    by (simp add: price_per_watt_def)
  have dv: "float_pos system_size \<longrightarrow>
         \<not> float_is_zero (float_mul system_size (Fin False 1000))
         \<and> price_per_watt price system_size =
             rbind (py_div_float price (float_mul system_size (Fin False 1000)))
               (\<lambda>q. Inr (''$'' @ format_fixed True 2 q @ ''/W''))"
    using watts_not_zero [OF stc] by (simp add: price_per_watt_def)
  from na dv price_per_watt_error [OF stc, of price] financial_data_error [OF stc, of price]
    rows sec hd no run
  show ?thesis
    by (intro conjI impI) blast+
qed

lemma int_to_float_0: "int_to_float 0 = Inr (Fin False 0)"
  by (simp add: int_to_float_def float_eval)

lemma credit_0: "py_mul_float (JNum (PInt 0)) (lit (3 / 10)) = Inr (Fin False 0)"
  by (simp add: py_mul_float_def int_to_float_0 lit_30) (simp add: float_eval)

lemma net_0: "py_mul_float (JNum (PInt 0)) (lit (7 / 10)) = Inr (Fin False 0)"
  by (simp add: py_mul_float_def int_to_float_0 lit_70) (simp add: float_eval)

lemma quot_0: "py_div_float (JNum (PInt 0)) (Fin False 4000) = Inr (Fin False 0)"
  by (simp add: py_div_float_def int_to_float_0) (simp add: float_eval)

lemma fmt_0: "format_fixed True 2 (Fin False 0) = ''0.00''"
  by (simp add: format_fixed_def float_eval) (simp add: fixed_digits_def pad_zeros_def str_nat.simps)

text \<open>
  Claim C3 as stated fails: with the price 0, which is not strictly positive, and a
  system of 4 kW the financial rows are computed and the price per watt is the
  quotient \<^verbatim>\<open>$0.00/W\<close>, not \<^verbatim>\<open>N/A\<close>.
\<close>

theorem zero_price_counterexample:
  "rbind (py_div_1000 (JNum (PInt 4000))) (price_per_watt (JNum (PInt 0))) = Inr ''$0.00/W''
   \<and> rbind (py_div_1000 (JNum (PInt 4000))) (price_per_watt (JNum (PInt 0))) \<noteq> Inr ''N/A''
   \<and> financial_section (JDict [(''system_price'', JNum (PInt 0))]) (Fin False 4)
        (new_pdf ''report.pdf'') =
      (None, add_table
         [[JStr ''Item'', JStr ''Amount''],
          [JStr ''System Price'', JStr ''$0.00''],
          [JStr ''Price per Watt'', JStr ''$0.00/W''],
          [JStr ''Federal Tax Credit'', JStr ''$0.00''],
          [JStr ''Net System Cost'', JStr ''$0.00'']]
         (add_header ''Financial Overview'' (new_pdf ''report.pdf'')))"
  by (simp add: size_4000 financial_section_def financial_data_def price_per_watt_def
      py_format_f_def row_def int_to_float_0 credit_0 net_0 mk_float_4000 quot_0 fmt_0)

theorem price_per_watt_guard_witness:
  "design_details
      (sample_env (sample_server sample_summary sample_pricing (JDict [])
         (JDict [(''message'', JStr ''Not found'')]) (\<lambda>tr. RequestException)))
      sample_summary = Inr (sample_design_rows, Fin False 4)
   \<and> float_pos (Fin False 4)
   \<and> price_per_watt (JNum (PInt 1000)) (Fin False 4) = Inr ''$0.25/W''
   \<and> financial_data (JNum (PInt 1000)) (Fin False 4) \<noteq> Inl ZeroDivisionError
   \<and> map_sum id snd (design_details
      (sample_env (sample_server sample_summary sample_pricing (JDict [])
         (JDict [(''message'', JStr ''Not found'')]) (\<lambda>tr. RequestException)))
      (JDict [])) = Inr (Fin False 0)
   \<and> price_per_watt (JNum (PInt 1000)) (Fin False 0) = Inr ''N/A''
   \<and> success (generate_design_report
      (sample_env (sample_server sample_summary sample_pricing (JDict [])
         (JDict [(''message'', JStr ''Not found'')]) (\<lambda>tr. RequestException)))
      sample_self ''D1'' (Some ''P1''))
   \<and> (\<exists>doc. pdf (generate_design_report
      (sample_env (sample_server sample_summary sample_pricing (JDict [])
         (JDict [(''message'', JStr ''Not found'')]) (\<lambda>tr. RequestException)))
      sample_self ''D1'' (Some ''P1'')) = Some doc
        \<and> Table sample_financial_rows [float_mul (lit (5 / 2)) inch, float_mul (lit (7 / 2)) inch]
            \<in> set (elements doc))"
proof -
  let ?E = "sample_env (sample_server sample_summary sample_pricing (JDict [])
         (JDict [(''message'', JStr ''Not found'')]) (\<lambda>tr. RequestException))"
  note a = price_per_watt_guard [OF sample_design_details [of ?E], of "JNum (PInt 1000)" "JDict []"
      "new_pdf []" sample_self "''D1''" "Some ''P1''"]
  note b = price_per_watt_guard [OF empty_design_details [of ?E], of "JNum (PInt 1000)" "JDict []"
      "new_pdf []" sample_self "''D1''" "Some ''P1''"]
  from a b show ?thesis
    by (simp add: sample_design_details empty_design_details mk_float_4000 quot_1000 fmt_quarter
        sample_run_no_assets sample_design_pdf_def add_table_def add_header_def)
qed

section \<open>The image retry loop\<close>

lemma attempts_simps:
  "attempts rq (Suc 0) = [rq]"
  "attempts rq 2 = [rq, Sleep 2, rq]"
  "attempts rq 3 = [rq, Sleep 2, rq, Sleep 2, rq]"
  by (simp_all add: attempts_def numeral_2_eq_2 numeral_3_eq_3)

lemma before_attempt_simps:
  "before_attempt rq 0 tr = tr"
  "before_attempt rq (Suc 0) tr = tr @ [rq, Sleep 2]"
  "before_attempt rq 2 tr = tr @ [rq, Sleep 2, rq, Sleep 2]"
  by (simp_all add: before_attempt_def numeral_2_eq_2)

lemma download_image_trace:
  "snd (download_image E a tr (JStr u)) = tr @ [image_request a u]"
  by (simp add: download_image_def send_def image_request_def Let_def split: http_result.splits)

lemma add_image_result:
  "(fst (add_image E c w p) \<longrightarrow>
      (\<exists>dw dh. snd (add_image E c w p) =
         append_els [Image (FromBytes c) dw dh, Spacer 1 (float_mul (lit (1 / 4)) inch)] p))
   \<and> (\<not> fst (add_image E c w p) \<longrightarrow> snd (add_image E c w p) = p)"
  by (auto simp: add_image_def Let_def split: option.splits sum.splits)

lemma try_image_result:
  obtains ok p' where "try_image E a (JStr u) (tr, p) = (ok, (tr @ [image_request a u], p'))"
    and "ok \<Longrightarrow> \<exists>c dw dh. fst (download_image E a tr (JStr u)) = Some c
            \<and> fst (add_image E c (lit (8 / 10)) p)
            \<and> p' = append_els [Image (FromBytes c) dw dh, Spacer 1 (float_mul (lit (1 / 4)) inch)] p"
    and "\<not> ok \<Longrightarrow> p' = p"
proof -
  obtain d tr1 where d: "download_image E a tr (JStr u) = (d, tr1)"
    by (cases "download_image E a tr (JStr u)")
  with download_image_trace [of E a tr u] have tr1: "tr1 = tr @ [image_request a u]" by simp
  show thesis
  proof (cases d)
    case None
    with d tr1 have "try_image E a (JStr u) (tr, p) = (False, (tr @ [image_request a u], p))"
      by (simp add: try_image_def)
    then show thesis by (rule that) simp_all
  next
    case (Some c)
    obtain ok p' where ai: "add_image E c (lit (8 / 10)) p = (ok, p')"
      by (cases "add_image E c (lit (8 / 10)) p")
    with d tr1 Some have t: "try_image E a (JStr u) (tr, p) = (ok, (tr @ [image_request a u], p'))"
      by (simp add: try_image_def)
    from add_image_result [of E c "lit (8 / 10)" p] ai
    have r: "ok \<longrightarrow> (\<exists>dw dh. p' = append_els [Image (FromBytes c) dw dh, Spacer 1 (float_mul (lit (1 / 4)) inch)] p)"
      and r': "\<not> ok \<longrightarrow> p' = p"
      by simp_all
    show thesis
    proof (rule that [OF t])
      assume ok
      with r d Some ai show "\<exists>c dw dh. fst (download_image E a tr (JStr u)) = Some c
            \<and> fst (add_image E c (lit (8 / 10)) p)
            \<and> p' = append_els [Image (FromBytes c) dw dh, Spacer 1 (float_mul (lit (1 / 4)) inch)] p"
        by auto
    next
      assume "\<not> ok"
      with r' show "p' = p" by simp
    qed
  qed
qed

lemma upt_3: "[0..<3] = [0, 1, 2]"
  by (simp add: upt_rec)


lemma retry_loop_policy:
  fixes E a u tr p
  defines "rq \<equiv> image_request a u"
  shows "\<exists>ok n p'.
     retry_loop E a (JStr u) 3 [0..<3] (tr, p) = (ok, (tr @ attempts rq n, p'))
     \<and> 1 \<le> n \<and> n \<le> 3
     \<and> (\<forall>k. k < n - 1 \<longrightarrow> \<not> fst (try_image E a (JStr u) (before_attempt rq k tr, p)))
     \<and> (ok \<longleftrightarrow> fst (try_image E a (JStr u) (before_attempt rq (n - 1) tr, p)))
     \<and> (if ok
         then \<exists>c dw dh. p' = append_els [Image (FromBytes c) dw dh, Spacer 1 (float_mul (lit (1 / 4)) inch)] p
         else n = 3 \<and> p' = p)"
proof -
  obtain ok1 p1 where t1: "try_image E a (JStr u) (tr, p) = (ok1, (tr @ [rq], p1))"
    and s1: "ok1 \<Longrightarrow> \<exists>c dw dh. p1 = append_els [Image (FromBytes c) dw dh, Spacer 1 (float_mul (lit (1 / 4)) inch)] p"
    and f1: "\<not> ok1 \<Longrightarrow> p1 = p"
    unfolding rq_def by (rule try_image_result [of E a u tr p]) blast
  show ?thesis
  proof (cases ok1)
    case True
    with t1 s1 show ?thesis
      by (intro exI [of _ True] exI [of _ 1] exI [of _ p1])
         (simp add: upt_3 attempts_simps before_attempt_simps)
  next
    case n1: False
    obtain ok2 p2 where t2: "try_image E a (JStr u) (tr @ [rq, Sleep 2], p) = (ok2, (tr @ [rq, Sleep 2, rq], p2))"
      and s2: "ok2 \<Longrightarrow> \<exists>c dw dh. p2 = append_els [Image (FromBytes c) dw dh, Spacer 1 (float_mul (lit (1 / 4)) inch)] p"
      and f2: "\<not> ok2 \<Longrightarrow> p2 = p"
      unfolding rq_def using try_image_result [of E a u "tr @ [image_request a u, Sleep 2]" p]
      by (metis append.assoc append_Cons append_Nil)
    show ?thesis
    proof (cases ok2)
      case True
      with t1 n1 f1 t2 s2 show ?thesis
        by (intro exI [of _ True] exI [of _ 2] exI [of _ p2])
           (simp add: upt_3 attempts_simps before_attempt_simps)
    next
      case n2: False
      obtain ok3 p3 where t3: "try_image E a (JStr u) (tr @ [rq, Sleep 2, rq, Sleep 2], p)
            = (ok3, (tr @ [rq, Sleep 2, rq, Sleep 2, rq], p3))"
        and s3: "ok3 \<Longrightarrow> \<exists>c dw dh. p3 = append_els [Image (FromBytes c) dw dh, Spacer 1 (float_mul (lit (1 / 4)) inch)] p"
        and f3: "\<not> ok3 \<Longrightarrow> p3 = p"
        unfolding rq_def using try_image_result [of E a u "tr @ [image_request a u, Sleep 2, image_request a u, Sleep 2]" p]
        by (metis append.assoc append_Cons append_Nil)
      have all: "\<forall>k. k < 3 - 1 \<longrightarrow> \<not> fst (try_image E a (JStr u) (before_attempt rq k tr, p))"
      proof (intro allI impI)
        fix k :: nat
        assume "k < 3 - 1"
        then have "k = 0 \<or> k = 1" by auto
        with t1 n1 t2 n2 show "\<not> fst (try_image E a (JStr u) (before_attempt rq k tr, p))"
          by (auto simp: before_attempt_simps)
      qed
      from t1 n1 f1 t2 n2 f2 t3 s3 f3 all show ?thesis
        by (intro exI [of _ ok3] exI [of _ 3] exI [of _ p3])
           (simp add: upt_3 attempts_simps before_attempt_simps)
    qed
  qed
qed


lemma try_image_fetch_fails:
  assumes "fst (download_image E a tr (JStr u)) = None"
  shows "try_image E a (JStr u) (tr, p) = (False, (tr @ [image_request a u], p))"
proof -
  from assms download_image_trace [of E a tr u]
  have "download_image E a tr (JStr u) = (None, tr @ [image_request a u])"
    by (cases "download_image E a tr (JStr u)") simp
  then show ?thesis by (simp add: try_image_def)
qed

lemma try_image_fetch_succeeds:
  assumes "fst (download_image E a tr (JStr u)) = Some c"
  shows "try_image E a (JStr u) (tr, p) =
           (fst (add_image E c (lit (8 / 10)) p), (tr @ [image_request a u], snd (add_image E c (lit (8 / 10)) p)))"
proof -
  from assms download_image_trace [of E a tr u]
  have "download_image E a tr (JStr u) = (Some c, tr @ [image_request a u])"
    by (cases "download_image E a tr (JStr u)") simp
  then show ?thesis by (simp add: try_image_def split: prod.splits)
qed

lemma image_section_single:
  assumes "single_asset v u"
  shows "image_section E a v (tr, p) =
     (case retry_loop E a (JStr u) 3 [0..<3] (tr, add_header ''System Design Visualization'' p) of
        (added, s2) \<Rightarrow>
          if added then (None, s2)
          else (None, (fst s2, add_paragraph unavailable (snd s2))))"
proof -
  from assms obtain ad where v: "v = JDict ad"
    by (cases v) auto
  from assms v obtain x where x: "map_of ad ''assets'' = Some x"
    by (cases "map_of ad ''assets''") auto
  from assms v x obtain xs where xs: "x = JList xs"
    by (cases x) auto
  from assms v x xs obtain y ys where ys: "xs = y # ys"
    by (cases xs) auto
  from assms v x xs ys obtain d where d: "y = JDict d"
    by (cases y) auto
  from assms v x xs ys d have e: "ys = []"
    by (cases ys) auto
  from x xs ys d e have ad: "map_of ad ''assets'' = Some (JList [JDict d])"
    by simp
  from assms v ad have el: "is_layout_image (JDict d) = Inr True"
    and url: "map_of d ''url'' = Some (JStr u)" and u: "u \<noteq> []"
    by simp_all
  show ?thesis
    using ad el url u
    by (simp add: v image_section_def Let_def split: prod.splits)
qed

lemma retry_third_succeeds:
  assumes "fst (download_image E a (before_attempt (image_request a u) 0 tr) (JStr u)) = None"
    and "fst (download_image E a (before_attempt (image_request a u) 1 tr) (JStr u)) = None"
    and "fst (download_image E a (before_attempt (image_request a u) 2 tr) (JStr u)) = Some c"
    and "fst (add_image E c (lit (8 / 10)) p)"
  shows "retry_loop E a (JStr u) 3 [0..<3] (tr, p) =
           (True, (tr @ attempts (image_request a u) 3, snd (add_image E c (lit (8 / 10)) p)))"
  using assms
  by (simp add: upt_3 before_attempt_simps attempts_simps try_image_fetch_fails
      try_image_fetch_succeeds)

lemma retry_all_fail:
  assumes "fst (download_image E a (before_attempt (image_request a u) 0 tr) (JStr u)) = None"
    and "fst (download_image E a (before_attempt (image_request a u) 1 tr) (JStr u)) = None"
    and "fst (download_image E a (before_attempt (image_request a u) 2 tr) (JStr u)) = None"
  shows "retry_loop E a (JStr u) 3 [0..<3] (tr, p) =
           (False, (tr @ attempts (image_request a u) 3, p))"
  using assms
  by (simp add: upt_3 before_attempt_simps attempts_simps try_image_fetch_fails)

lemma is_layout_image_dict:
  "is_layout_image (JDict d) =
     Inr (map_of d ''type'' = Some (JStr ''layout_image'')
          \<or> map_of d ''asset_type'' = Some (JStr ''CAD Screenshot''))"
  by (auto simp: is_layout_image_def split: option.splits)

lemma filter_assets_dicts:
  assumes "list_all is_dict assets"
  shows "filter_assets assets = Inr (filter eligible assets)"
  using assms
proof (induction assets)
  case Nil
  then show ?case by simp
next
  case (Cons x xs)
  then obtain d where d: "x = JDict d" by (cases x) auto
  from Cons have "filter_assets xs = Inr (filter eligible xs)" by simp
  moreover have "eligible x \<longleftrightarrow> (map_of d ''type'' = Some (JStr ''layout_image'')
          \<or> map_of d ''asset_type'' = Some (JStr ''CAD Screenshot''))"
    by (simp add: d eligible_def is_layout_image_dict)
  ultimately show ?case
    by (simp add: d is_layout_image_dict)
qed

lemma plain_asset_dict: "plain_asset x \<Longrightarrow> is_dict x"
  by (cases x) auto

lemma process_assets_skip:
  assumes "plain_asset x" and "url_of x = None"
  shows "process_assets E a (x # xs) b s = process_assets E a xs b s"
proof -
  from assms obtain d where d: "x = JDict d" by (cases x) auto
  from assms d have "\<not> truthy (case map_of d ''url'' of None \<Rightarrow> JNull | Some v \<Rightarrow> v)"
    by (auto split: option.splits json.splits if_splits elim: is_str.elims)
  then show ?thesis by (simp add: d)
qed

lemma process_assets_url:
  assumes "url_of x = Some u"
  shows "process_assets E a (x # xs) b s =
     (case retry_loop E a (JStr u) 3 [0..<3] s of
        (ok, s1) \<Rightarrow> process_assets E a xs (b \<or> ok) s1)"
proof -
  from assms obtain d where d: "x = JDict d" by (cases x) auto
  from assms d have "map_of d ''url'' = Some (JStr u)" and "u \<noteq> []"
    by (auto split: option.splits json.splits if_splits)
  then show ?thesis by (simp add: d)
qed

lemma retry_loop_no_text:
  assumes "\<not> is_str v"
  shows "retry_loop E a v 3 [0..<3] (tr, p) = (False, (tr @ [Sleep 2, Sleep 2], p))"
proof -
  from assms have "download_image E a t v = (None, t)" for t
    by (cases v) (simp_all add: download_image_def)
  then have "try_image E a v (t, p) = (False, (t, p))" for t
    by (simp add: try_image_def)
  then show ?thesis
    by (simp add: upt_3)
qed

lemma process_assets_one:
  assumes "py_get x ''url'' JNull = Inr v"
  shows "process_assets E a [x] b s =
     (if truthy v
      then (case retry_loop E a v 3 [0..<3] s of (ok, s1) \<Rightarrow> (Inr (b \<or> ok), s1))
      else (Inr b, s))"
  using assms by (simp split: prod.splits)

lemma process_assets_append:
  "process_assets E a (xs @ ys) b s =
     (case process_assets E a xs b s of
        (Inr b1, s1) \<Rightarrow> process_assets E a ys b1 s1
      | (Inl e, s1) \<Rightarrow> (Inl e, s1))"
proof (induction xs arbitrary: b s)
  case Nil
  then show ?case by simp
next
  case (Cons x xs)
  show ?case
  proof (cases "py_get x ''url'' JNull")
    case (Inl e)
    then show ?thesis by simp
  next
    case (Inr v)
    then show ?thesis
      using Cons by (simp split: prod.splits)
  qed
qed


lemma process_assets_summary:
  assumes "list_all plain_asset assets"
  shows "\<exists>rs p' bs.
      map fst rs = List.map_filter url_of assets
    \<and> list_all (\<lambda>(u, n, ok). 1 \<le> n \<and> n \<le> 3 \<and> (ok \<or> n = 3)) rs
    \<and> process_assets E a assets b (tr, p) =
        (Inr (b \<or> list_ex (\<lambda>(u, n, ok). ok) rs), (tr @ loop_trace a rs, p'))
    \<and> elements p' = elements p @ bs
    \<and> length (filter is_image bs) = length (filter (\<lambda>(u, n, ok). ok) rs)
    \<and> unavailable_paragraph \<notin> set bs"
  using assms
proof (induction assets arbitrary: b tr p)
  case Nil
  show ?case
    by (intro exI [of _ "[]"] exI [of _ p]) (simp add: List.map_filter_simps)
next
  case (Cons x xs)
  then have px: "plain_asset x" and pxs: "list_all plain_asset xs" by simp_all
  show ?case
  proof (cases "url_of x")
    case None
    from Cons.IH [OF pxs, of b tr p] obtain rs p' bs where
      "map fst rs = List.map_filter url_of xs"
      "list_all (\<lambda>(u, n, ok). 1 \<le> n \<and> n \<le> 3 \<and> (ok \<or> n = 3)) rs"
      "process_assets E a xs b (tr, p) =
        (Inr (b \<or> list_ex (\<lambda>(u, n, ok). ok) rs), (tr @ loop_trace a rs, p'))"
      "elements p' = elements p @ bs"
      "length (filter is_image bs) = length (filter (\<lambda>(u, n, ok). ok) rs)"
      "unavailable_paragraph \<notin> set bs"
      by blast
    then show ?thesis
      by (intro exI [of _ rs] exI [of _ p'] exI [of _ bs])
         (simp add: process_assets_skip [OF px None] None List.map_filter_simps
            del: process_assets.simps)
  next
    case (Some u)
    from retry_loop_policy [of E a u tr p] obtain ok n p1 where
      r: "retry_loop E a (JStr u) 3 [0..<3] (tr, p) = (ok, (tr @ attempts (image_request a u) n, p1))"
      and n: "1 \<le> n" "n \<le> 3"
      and p1: "if ok then \<exists>c dw dh. p1 = append_els [Image (FromBytes c) dw dh,
                   Spacer 1 (float_mul (lit (1 / 4)) inch)] p
               else n = 3 \<and> p1 = p"
      by blast
    from p1 obtain b1 where b1: "elements p1 = elements p @ b1"
      and i1: "length (filter is_image b1) = (if ok then 1 else 0)"
      and u1: "unavailable_paragraph \<notin> set b1"
      by (cases ok) (auto simp: unavailable_paragraph_def)
    from p1 have n3: "ok \<or> n = 3" by (cases ok) auto
    from Cons.IH [OF pxs, of "b \<or> ok" "tr @ attempts (image_request a u) n" p1]
    obtain rs p' bs where
      m: "map fst rs = List.map_filter url_of xs"
      and l: "list_all (\<lambda>(u, n, ok). 1 \<le> n \<and> n \<le> 3 \<and> (ok \<or> n = 3)) rs"
      and pr: "process_assets E a xs (b \<or> ok) (tr @ attempts (image_request a u) n, p1) =
        (Inr ((b \<or> ok) \<or> list_ex (\<lambda>(u, n, ok). ok) rs),
         ((tr @ attempts (image_request a u) n) @ loop_trace a rs, p'))"
      and e: "elements p' = elements p1 @ bs"
      and i: "length (filter is_image bs) = length (filter (\<lambda>(u, n, ok). ok) rs)"
      and un: "unavailable_paragraph \<notin> set bs"
      by blast
    show ?thesis
      using m l pr e i un r n n3 b1 i1 u1
      by (intro exI [of _ "(u, n, ok) # rs"] exI [of _ p'] exI [of _ "b1 @ bs"])
         (simp add: process_assets_url [OF Some] Some List.map_filter_simps
            del: process_assets.simps)
  qed
qed


lemma image_section_assets:
  assumes "map_of ad ''assets'' = Some (JList assets)" and "list_all is_dict assets"
    and "assets \<noteq> []"
  shows "image_section E a (JDict ad) (tr, p) =
     (if filter eligible assets = []
      then (None, (tr, add_paragraph unavailable (add_header ''System Design Visualization'' p)))
      else (case process_assets E a (filter eligible assets) False
                   (tr, add_header ''System Design Visualization'' p) of
              (Inl e, s2) \<Rightarrow> (Some e, s2)
            | (Inr images_added, s2) \<Rightarrow>
                if \<not> images_added then (None, (fst s2, add_paragraph unavailable (snd s2)))
                else (None, s2)))"
  using assms
  by (simp add: image_section_def filter_assets_dicts Let_def)

lemma image_section_summary:
  assumes ad: "map_of ad ''assets'' = Some (JList assets)" and pl: "list_all plain_asset assets"
    and ne: "assets \<noteq> []"
  shows "\<exists>rs p' bs.
      map fst rs = List.map_filter url_of (filter eligible assets)
    \<and> list_all (\<lambda>(u, n, ok). 1 \<le> n \<and> n \<le> 3 \<and> (ok \<or> n = 3)) rs
    \<and> image_section E a (JDict ad) (tr, p) = (None, (tr @ loop_trace a rs, p'))
    \<and> elements p' = elements p @ visualization_header # bs
    \<and> length (filter is_image bs) = length (filter (\<lambda>(u, n, ok). ok) rs)
    \<and> count_list bs unavailable_paragraph = (if list_ex (\<lambda>(u, n, ok). ok) rs then 0 else 1)"
proof -
  let ?h = "add_header ''System Design Visualization'' p"
  let ?sp = "Spacer 1 (float_mul (lit (1 / 4)) inch)"
  from pl have di: "list_all is_dict assets"
    by (induction assets) (auto dest: plain_asset_dict)
  note sec = image_section_assets [OF ad di ne, of E a tr p]
  have up: "unavailable_paragraph \<noteq> ?sp" "\<not> is_image unavailable_paragraph"
    by (simp_all add: unavailable_paragraph_def)
  show ?thesis
  proof (cases "filter eligible assets = []")
    case True
    have "elements (add_paragraph unavailable ?h) =
        elements p @ visualization_header
          # [?sp, unavailable_paragraph, Spacer 1 (float_mul (lit (12 / 100)) inch)]"
      by (simp add: add_paragraph_def add_header_def visualization_header_def
          unavailable_paragraph_def)
    with True sec show ?thesis
      by (intro exI [of _ "[]"] exI [of _ "add_paragraph unavailable ?h"]
            exI [of _ "[?sp, unavailable_paragraph, Spacer 1 (float_mul (lit (12 / 100)) inch)]"])
         (simp add: List.map_filter_simps unavailable_paragraph_def)
  next
    case False
    from pl have "list_all plain_asset (filter eligible assets)"
      by (induction assets) auto
    from process_assets_summary [OF this, of E a False tr ?h]
    obtain rs p2 bs where
      m: "map fst rs = List.map_filter url_of (filter eligible assets)"
      and l: "list_all (\<lambda>(u, n, ok). 1 \<le> n \<and> n \<le> 3 \<and> (ok \<or> n = 3)) rs"
      and pr: "process_assets E a (filter eligible assets) False (tr, ?h) =
        (Inr (False \<or> list_ex (\<lambda>(u, n, ok). ok) rs), (tr @ loop_trace a rs, p2))"
      and e: "elements p2 = elements ?h @ bs"
      and i: "length (filter is_image bs) = length (filter (\<lambda>(u, n, ok). ok) rs)"
      and un: "unavailable_paragraph \<notin> set bs"
      by blast
    from un have c0: "count_list bs unavailable_paragraph = 0"
      by (simp add: count_list_0_iff)
    from e have e': "elements p2 = elements p @ visualization_header # ?sp # bs"
      by (simp add: add_header_def visualization_header_def)
    show ?thesis
    proof (cases "list_ex (\<lambda>(u, n, ok). ok) rs")
      case True
      with False sec pr m l e' i c0 up show ?thesis
        by (intro exI [of _ rs] exI [of _ p2] exI [of _ "?sp # bs"]) simp
    next
      case nok: False
      have "elements (add_paragraph unavailable p2) =
          elements p @ visualization_header
            # (?sp # bs @ [unavailable_paragraph, Spacer 1 (float_mul (lit (12 / 100)) inch)])"
        by (simp add: add_paragraph_def e' unavailable_paragraph_def)
      with nok False sec pr m l i c0 up show ?thesis
        by (intro exI [of _ rs] exI [of _ "add_paragraph unavailable p2"]
              exI [of _ "?sp # bs @ [unavailable_paragraph, Spacer 1 (float_mul (lit (12 / 100)) inch)]"])
           (simp add: unavailable_paragraph_def)
    qed
  qed
qed

lemma image_section_only:
  assumes "map_of ad ''assets'' = Some (JList assets)" and "list_all is_dict assets"
    and "filter eligible assets = [JDict d]"
    and "map_of d ''url'' = Some (JStr u)" and "u \<noteq> []"
  shows "image_section E a (JDict ad) (tr, p) =
     (case retry_loop E a (JStr u) 3 [0..<3] (tr, add_header ''System Design Visualization'' p) of
        (added, s2) \<Rightarrow>
          if added then (None, s2)
          else (None, (fst s2, add_paragraph unavailable (snd s2))))"
proof -
  from assms(3) have "assets \<noteq> []" by auto
  from image_section_assets [OF assms(1,2) this, of E a tr p] assms(3,4,5)
  show ?thesis
    by (simp split: prod.splits)
qed

text \<open>
  Claim C1. The image section keeps the assets whose type is \<^verbatim>\<open>layout_image\<close> or whose
  asset type is \<^verbatim>\<open>CAD Screenshot\<close> and goes through them in order, each from the state
  the one before has left: an asset without a URL is passed over, and for an asset with
  a URL the loop makes between one and three attempts, with a pause of two seconds
  between one attempt and the next and none after the last; it stops at the first
  attempt whose download and embedding succeed, which adds one image block, and after
  three failures the document is unchanged and the next asset is processed all the
  same. (A URL that is no text fails three times without a request.) So the section
  sends, for each kept asset with a URL in turn, one to three
  requests, fewer than three only where the image was embedded; it adds one image block
  for each asset embedded, and the paragraph that the images are unavailable exactly
  when none was. In particular, when only one asset of the answer is kept: if its
  download fails twice and succeeds on the third call, and the image can be embedded,
  the section adds exactly one image block and no such paragraph; if the download fails
  on all three calls, it adds no image block and exactly one such paragraph.
\<close>

theorem image_retry_policy:
  "(\<exists>ok n p'.
      retry_loop E a (JStr u) 3 [0..<3] (tr, p) = (ok, (tr @ attempts (image_request a u) n, p'))
      \<and> 1 \<le> n \<and> n \<le> 3
      \<and> (\<forall>k. k < n - 1 \<longrightarrow>
            \<not> fst (try_image E a (JStr u) (before_attempt (image_request a u) k tr, p)))
      \<and> (ok \<longleftrightarrow> fst (try_image E a (JStr u) (before_attempt (image_request a u) (n - 1) tr, p)))
      \<and> (if ok
          then \<exists>c dw dh. p' = append_els [Image (FromBytes c) dw dh,
                                          Spacer 1 (float_mul (lit (1 / 4)) inch)] p
          else n = 3 \<and> p' = p))
   \<and> (eligible (JDict d) \<longleftrightarrow>
        map_of d ''type'' = Some (JStr ''layout_image'')
        \<or> map_of d ''asset_type'' = Some (JStr ''CAD Screenshot''))
   \<and> (list_all is_dict assets \<longrightarrow> filter_assets assets = Inr (filter eligible assets))
   \<and> process_assets E a (xs @ ys) b s =
       (case process_assets E a xs b s of
          (Inr b1, s1) \<Rightarrow> process_assets E a ys b1 s1
        | (Inl e, s1) \<Rightarrow> (Inl e, s1))
   \<and> (py_get x ''url'' JNull = Inr v \<and> truthy v \<longrightarrow>
        process_assets E a [x] b s =
          (case retry_loop E a v 3 [0..<3] s of (ok, s1) \<Rightarrow> (Inr (b \<or> ok), s1)))
   \<and> (py_get x ''url'' JNull = Inr v \<and> \<not> truthy v \<longrightarrow> process_assets E a [x] b s = (Inr b, s))
   \<and> (\<not> is_str v \<longrightarrow>
        retry_loop E a v 3 [0..<3] (tr, p) = (False, (tr @ [Sleep 2, Sleep 2], p)))
   \<and> (map_of ad ''assets'' = Some (JList assets) \<and> assets \<noteq> [] \<and> list_all plain_asset assets
      \<longrightarrow> (\<exists>rs p' bs.
            map fst rs = List.map_filter url_of (filter eligible assets)
          \<and> list_all (\<lambda>(u, n, ok). 1 \<le> n \<and> n \<le> 3 \<and> (ok \<or> n = 3)) rs
          \<and> image_section E a (JDict ad) (tr, p) = (None, (tr @ loop_trace a rs, p'))
          \<and> elements p' = elements p @ visualization_header # bs
          \<and> length (filter is_image bs) = length (filter (\<lambda>(u, n, ok). ok) rs)
          \<and> count_list bs unavailable_paragraph
              = (if list_ex (\<lambda>(u, n, ok). ok) rs then 0 else 1)))
   \<and> (map_of ad ''assets'' = Some (JList assets) \<and> list_all is_dict assets
        \<and> filter eligible assets = [JDict d] \<and> map_of d ''url'' = Some (JStr u) \<and> u \<noteq> []
        \<and> fst (download_image E a (before_attempt (image_request a u) 0 tr) (JStr u)) = None
        \<and> fst (download_image E a (before_attempt (image_request a u) 1 tr) (JStr u)) = None
        \<and> fst (download_image E a (before_attempt (image_request a u) 2 tr) (JStr u)) = Some c
        \<and> fst (add_image E c (lit (8 / 10)) (add_header ''System Design Visualization'' p))
      \<longrightarrow> (\<exists>p' bs. image_section E a (JDict ad) (tr, p)
                      = (None, (tr @ attempts (image_request a u) 3, p'))
            \<and> elements p' = elements p @ bs
            \<and> length (filter is_image bs) = 1
            \<and> unavailable_paragraph \<notin> set bs))
   \<and> (map_of ad ''assets'' = Some (JList assets) \<and> list_all is_dict assets
        \<and> filter eligible assets = [JDict d] \<and> map_of d ''url'' = Some (JStr u) \<and> u \<noteq> []
        \<and> fst (download_image E a (before_attempt (image_request a u) 0 tr) (JStr u)) = None
        \<and> fst (download_image E a (before_attempt (image_request a u) 1 tr) (JStr u)) = None
        \<and> fst (download_image E a (before_attempt (image_request a u) 2 tr) (JStr u)) = None
      \<longrightarrow> (\<exists>p' bs. image_section E a (JDict ad) (tr, p)
                      = (None, (tr @ attempts (image_request a u) 3, p'))
            \<and> elements p' = elements p @ bs
            \<and> length (filter is_image bs) = 0
            \<and> count_list bs unavailable_paragraph = 1))"
proof (intro conjI impI)
  show "\<exists>ok n p'.
      retry_loop E a (JStr u) 3 [0..<3] (tr, p) = (ok, (tr @ attempts (image_request a u) n, p'))
      \<and> 1 \<le> n \<and> n \<le> 3
      \<and> (\<forall>k. k < n - 1 \<longrightarrow>
            \<not> fst (try_image E a (JStr u) (before_attempt (image_request a u) k tr, p)))
      \<and> (ok \<longleftrightarrow> fst (try_image E a (JStr u) (before_attempt (image_request a u) (n - 1) tr, p)))
      \<and> (if ok
          then \<exists>c dw dh. p' = append_els [Image (FromBytes c) dw dh,
                                          Spacer 1 (float_mul (lit (1 / 4)) inch)] p
          else n = 3 \<and> p' = p)"
    by (rule retry_loop_policy)
next
  show "eligible (JDict d) \<longleftrightarrow>
        map_of d ''type'' = Some (JStr ''layout_image'')
        \<or> map_of d ''asset_type'' = Some (JStr ''CAD Screenshot'')"
    by (simp add: eligible_def is_layout_image_dict)
next
  assume "list_all is_dict assets"
  then show "filter_assets assets = Inr (filter eligible assets)"
    by (rule filter_assets_dicts)
next
  show "process_assets E a (xs @ ys) b s =
       (case process_assets E a xs b s of
          (Inr b1, s1) \<Rightarrow> process_assets E a ys b1 s1
        | (Inl e, s1) \<Rightarrow> (Inl e, s1))"
    by (rule process_assets_append)
next
  assume "py_get x ''url'' JNull = Inr v \<and> truthy v"
  then show "process_assets E a [x] b s =
          (case retry_loop E a v 3 [0..<3] s of (ok, s1) \<Rightarrow> (Inr (b \<or> ok), s1))"
    by (simp add: process_assets_one del: process_assets.simps(2))
next
  assume "py_get x ''url'' JNull = Inr v \<and> \<not> truthy v"
  then show "process_assets E a [x] b s = (Inr b, s)"
    by (simp add: process_assets_one del: process_assets.simps(2))
next
  assume "\<not> is_str v"
  then show "retry_loop E a v 3 [0..<3] (tr, p) = (False, (tr @ [Sleep 2, Sleep 2], p))"
    by (rule retry_loop_no_text)
next
  assume "map_of ad ''assets'' = Some (JList assets) \<and> assets \<noteq> [] \<and> list_all plain_asset assets"
  then show "\<exists>rs p' bs.
            map fst rs = List.map_filter url_of (filter eligible assets)
          \<and> list_all (\<lambda>(u, n, ok). 1 \<le> n \<and> n \<le> 3 \<and> (ok \<or> n = 3)) rs
          \<and> image_section E a (JDict ad) (tr, p) = (None, (tr @ loop_trace a rs, p'))
          \<and> elements p' = elements p @ visualization_header # bs
          \<and> length (filter is_image bs) = length (filter (\<lambda>(u, n, ok). ok) rs)
          \<and> count_list bs unavailable_paragraph
              = (if list_ex (\<lambda>(u, n, ok). ok) rs then 0 else 1)"
    by (intro image_section_summary) simp_all
next
  let ?h = "add_header ''System Design Visualization'' p"
  assume h: "map_of ad ''assets'' = Some (JList assets) \<and> list_all is_dict assets
        \<and> filter eligible assets = [JDict d] \<and> map_of d ''url'' = Some (JStr u) \<and> u \<noteq> []
        \<and> fst (download_image E a (before_attempt (image_request a u) 0 tr) (JStr u)) = None
        \<and> fst (download_image E a (before_attempt (image_request a u) 1 tr) (JStr u)) = None
        \<and> fst (download_image E a (before_attempt (image_request a u) 2 tr) (JStr u)) = Some c
        \<and> fst (add_image E c (lit (8 / 10)) ?h)"
  then have r: "retry_loop E a (JStr u) 3 [0..<3] (tr, ?h) =
      (True, (tr @ attempts (image_request a u) 3, snd (add_image E c (lit (8 / 10)) ?h)))"
    by (intro retry_third_succeeds) simp_all
  from h add_image_result [of E c "lit (8 / 10)" ?h]
  obtain dw dh where e: "snd (add_image E c (lit (8 / 10)) ?h) =
      append_els [Image (FromBytes c) dw dh, Spacer 1 (float_mul (lit (1 / 4)) inch)] ?h"
    by auto
  from h have h1: "map_of ad ''assets'' = Some (JList assets)" and h2: "list_all is_dict assets"
    and h3: "filter eligible assets = [JDict d]" and h4: "map_of d ''url'' = Some (JStr u)"
    and h5: "u \<noteq> []"
    by simp_all
  note s = image_section_only [OF h1 h2 h3 h4 h5, of E a tr p]
  have i: "image_section E a (JDict ad) (tr, p) =
      (None, (tr @ attempts (image_request a u) 3, snd (add_image E c (lit (8 / 10)) ?h)))"
    unfolding s r by simp
  have el: "elements (snd (add_image E c (lit (8 / 10)) ?h)) =
      elements p @ [visualization_header, Spacer 1 (float_mul (lit (1 / 4)) inch),
                    Image (FromBytes c) dw dh, Spacer 1 (float_mul (lit (1 / 4)) inch)]"
    unfolding e by (simp add: add_header_def visualization_header_def)
  let ?bs = "[visualization_header, Spacer 1 (float_mul (lit (1 / 4)) inch),
              Image (FromBytes c) dw dh, Spacer 1 (float_mul (lit (1 / 4)) inch)]"
  have "length (filter is_image ?bs) = 1 \<and> unavailable_paragraph \<notin> set ?bs"
    by (simp add: visualization_header_def unavailable_paragraph_def)
  with i el show "\<exists>p' bs. image_section E a (JDict ad) (tr, p)
                      = (None, (tr @ attempts (image_request a u) 3, p'))
            \<and> elements p' = elements p @ bs
            \<and> length (filter is_image bs) = 1
            \<and> unavailable_paragraph \<notin> set bs"
    by blast
next
  let ?h = "add_header ''System Design Visualization'' p"
  assume h: "map_of ad ''assets'' = Some (JList assets) \<and> list_all is_dict assets
        \<and> filter eligible assets = [JDict d] \<and> map_of d ''url'' = Some (JStr u) \<and> u \<noteq> []
        \<and> fst (download_image E a (before_attempt (image_request a u) 0 tr) (JStr u)) = None
        \<and> fst (download_image E a (before_attempt (image_request a u) 1 tr) (JStr u)) = None
        \<and> fst (download_image E a (before_attempt (image_request a u) 2 tr) (JStr u)) = None"
  then have r: "retry_loop E a (JStr u) 3 [0..<3] (tr, ?h) =
      (False, (tr @ attempts (image_request a u) 3, ?h))"
    by (intro retry_all_fail) simp_all
  from h have h1: "map_of ad ''assets'' = Some (JList assets)" and h2: "list_all is_dict assets"
    and h3: "filter eligible assets = [JDict d]" and h4: "map_of d ''url'' = Some (JStr u)"
    and h5: "u \<noteq> []"
    by simp_all
  note s = image_section_only [OF h1 h2 h3 h4 h5, of E a tr p]
  have i: "image_section E a (JDict ad) (tr, p) =
      (None, (tr @ attempts (image_request a u) 3, add_paragraph unavailable ?h))"
    unfolding s r by simp
  have el: "elements (add_paragraph unavailable ?h) =
      elements p @ [visualization_header, Spacer 1 (float_mul (lit (1 / 4)) inch),
                    unavailable_paragraph, Spacer 1 (float_mul (lit (12 / 100)) inch)]"
    by (simp add: add_header_def add_paragraph_def visualization_header_def unavailable_paragraph_def)
  let ?bs = "[visualization_header, Spacer 1 (float_mul (lit (1 / 4)) inch),
              unavailable_paragraph, Spacer 1 (float_mul (lit (12 / 100)) inch)]"
  have "length (filter is_image ?bs) = 0 \<and> count_list ?bs unavailable_paragraph = 1"
    by (simp add: visualization_header_def unavailable_paragraph_def unavailable_def)
  with i el show "\<exists>p' bs. image_section E a (JDict ad) (tr, p)
                      = (None, (tr @ attempts (image_request a u) 3, p'))
            \<and> elements p' = elements p @ bs
            \<and> length (filter is_image bs) = 0
            \<and> count_list bs unavailable_paragraph = 1"
    by blast
qed

lemma lit_80: "lit (4 / 5) = Fin False (3602879701896397 / 4503599627370496)"
  by (simp add: float_eval)

lemma doc_width_468: "doc_width = Fin False 468"
  by (simp add: doc_width_def) (simp add: float_eval)

lemma max_width_80: "float_mul (Fin False 468) (Fin False (3602879701896397 / 4503599627370496))
    = Fin False (6586514455029351 / 17592186044416)"
  by (simp add: float_eval)

lemma aspect_800_600: "aspect_of (800, 600) = Inr (Fin False (3 / 4))"
  by (simp add: aspect_of_def int_to_float_def float_eval)

lemma max_height_432: "float_mul (Fin False 6) inch = Fin False 432"
  by (simp add: inch_def) (simp add: float_eval)

lemma draw_height_sample:
  "float_mul (Fin False (6586514455029351 / 17592186044416)) (Fin False (3 / 4))
     = Fin False (4939885841272013 / 17592186044416)"
  by (simp add: float_eval)

lemma sample_add_image:
  "add_image (sample_env server) ''PNG'' (lit (4 / 5)) p =
     (True, append_els
        [Image (FromBytes ''PNG'') (Fin False (6586514455029351 / 17592186044416))
           (Fin False (4939885841272013 / 17592186044416)),
         Spacer 1 (float_mul (lit (1 / 4)) inch)] p)"
  apply (simp add: add_image_def sample_env_def aspect_800_600 doc_width_468 lit_80 max_height_432
      del: float_mul.simps)
  apply (simp add: max_width_80 draw_height_sample Let_def del: float_mul.simps)
  apply (simp add: float_eval)
  done


lemma sample_single_asset: "single_asset sample_assets ''https://img.example/1.png''"
  by (simp add: sample_assets_def is_layout_image_def)

lemma sample_image_request:
  "image_request (api sample_self) ''https://img.example/1.png'' =
     Request ''GET'' ''https://img.example/1.png''
       [(''Authorization'', ''Bearer K''), (''Content-Type'', ''application/json'')]"
  by (simp add: image_request_def sample_self_def headers_def)

lemma sample_download:
  "fst (download_image (sample_env (sample_server s p a j (image_after n))) (api sample_self) tr
          (JStr ''https://img.example/1.png'')) =
     (if length (filter is_sleep tr) < n then None else Some ''PNG'')"
  by (simp add: download_image_def send_def sample_env_def sample_server_def image_after_def
      sample_self_def headers_def raise_for_status_def Let_def)

lemma sample_sleeps:
  "length (filter is_sleep (before_attempt (Request m u h) k sample_requests)) = k"
  by (induction k) (simp_all add: before_attempt_def sample_requests_def replicate_app_Cons_same)

lemma sample_build_images:
  "build_report E a
     \<lparr>design_summary = sample_summary,
      design_pricing = JDict [(''system_price'', JNum (PInt 1000))],
      design_assets = v, project_data = JNull\<rparr> (tr, p) =
   image_section E a v (tr, sample_design_pdf p)"
  by (simp add: build_report_def overview_section_def
      sample_design_details sample_financial_section sample_design_pdf_def)


lemma run_succeeds:
  assumes "validate_credentials E (api self) [] = (True, tr0)"
    and "fetch_data E (api self) design_id project_id tr0 = (Inr (Some d), tr1)"
    and "build_report E (api self) d (tr1, start_pdf E self design_id) = (None, (tr2, p2))"
    and "fst (generate E p2) \<noteq> None"
  shows "generate_design_report E self design_id project_id =
           \<lparr>success = True, trace = tr2, pdf = Some p2, document = fst (generate E p2)\<rparr>"
  using assms by (auto simp: generate_design_report_def)

lemma sample_image_section_third:
  "image_section (sample_env (sample_server s q a j (image_after 2))) (api sample_self)
      sample_assets (sample_requests, p) =
     (None, (sample_requests @ attempts (image_request (api sample_self) ''https://img.example/1.png'') 3,
        append_els
          [Image (FromBytes ''PNG'') (Fin False (6586514455029351 / 17592186044416))
             (Fin False (4939885841272013 / 17592186044416)),
           Spacer 1 (float_mul (lit (1 / 4)) inch)]
          (add_header ''System Design Visualization'' p)))"
  unfolding image_section_single [OF sample_single_asset]
  by (subst retry_third_succeeds [where c = "''PNG''"])
     (simp_all add: sample_download sample_image_request sample_sleeps sample_add_image)

lemma sample_image_section_never:
  "image_section (sample_env (sample_server s q a j (image_after 3))) (api sample_self)
      sample_assets (sample_requests, p) =
     (None, (sample_requests @ attempts (image_request (api sample_self) ''https://img.example/1.png'') 3,
        add_paragraph unavailable (add_header ''System Design Visualization'' p)))"
  unfolding image_section_single [OF sample_single_asset]
  by (subst retry_all_fail)
     (simp_all add: sample_download sample_image_request sample_sleeps)

lemma sample_run_third:
  "generate_design_report
     (sample_env (sample_server sample_summary sample_pricing sample_assets JNull (image_after 2)))
     sample_self ''D1'' (Some ''P1'') =
   \<lparr>success = True,
    trace = sample_requests @ attempts (image_request (api sample_self) ''https://img.example/1.png'') 3,
    pdf = Some (append_els
          [Image (FromBytes ''PNG'') (Fin False (6586514455029351 / 17592186044416))
             (Fin False (4939885841272013 / 17592186044416)),
           Spacer 1 (float_mul (lit (1 / 4)) inch)]
          (add_header ''System Design Visualization'' (sample_design_pdf sample_title_pdf))),
    document = fst (generate
      (sample_env (sample_server sample_summary sample_pricing sample_assets JNull (image_after 2)))
      (append_els
          [Image (FromBytes ''PNG'') (Fin False (6586514455029351 / 17592186044416))
             (Fin False (4939885841272013 / 17592186044416)),
           Spacer 1 (float_mul (lit (1 / 4)) inch)]
          (add_header ''System Design Visualization'' (sample_design_pdf sample_title_pdf))))\<rparr>"
  by (rule run_succeeds [OF sample_validate sample_fetch])
     (simp_all add: sample_start_pdf sample_build_images sample_image_section_third sample_generate)

lemma sample_run_never:
  "generate_design_report
     (sample_env (sample_server sample_summary sample_pricing sample_assets JNull (image_after 3)))
     sample_self ''D1'' (Some ''P1'') =
   \<lparr>success = True,
    trace = sample_requests @ attempts (image_request (api sample_self) ''https://img.example/1.png'') 3,
    pdf = Some (add_paragraph unavailable
          (add_header ''System Design Visualization'' (sample_design_pdf sample_title_pdf))),
    document = fst (generate
      (sample_env (sample_server sample_summary sample_pricing sample_assets JNull (image_after 3)))
      (add_paragraph unavailable
          (add_header ''System Design Visualization'' (sample_design_pdf sample_title_pdf))))\<rparr>"
  by (rule run_succeeds [OF sample_validate sample_fetch])
     (simp_all add: sample_start_pdf sample_build_images sample_image_section_never sample_generate)

lemma sleeps_before_attempt:
  "length (filter is_sleep (before_attempt (Request m u h) k tr)) = length (filter is_sleep tr) + k"
  by (induction k) (simp_all add: before_attempt_def replicate_app_Cons_same)

lemma sleeps_attempts_3: "length (filter is_sleep (attempts (Request m u h) 3)) = 2"
  by (simp add: attempts_simps)

lemma sleeps_sample_requests: "length (filter is_sleep sample_requests) = 0"
  by (simp add: sample_requests_def)

lemma cad_image_request:
  "image_request (api sample_self) ''https://img.example/2.png'' =
     Request ''GET'' ''https://img.example/2.png''
       [(''Authorization'', ''Bearer K''), (''Content-Type'', ''application/json'')]"
  by (simp add: image_request_def sample_self_def headers_def)

lemma cad_download:
  "fst (download_image (sample_env (sample_server s p a j (image_after n))) (api sample_self) tr
          (JStr ''https://img.example/2.png'')) =
     (if length (filter is_sleep tr) < n then None else Some ''PNG'')"
  by (simp add: download_image_def send_def sample_env_def sample_server_def image_after_def
      sample_self_def headers_def raise_for_status_def Let_def)

lemma mixed_assets_eligible:
  "list_all is_dict mixed_assets
   \<and> filter eligible mixed_assets =
       [JDict [(''type'', JStr ''layout_image''), (''url'', JStr ''https://img.example/1.png'')]]"
  by (simp add: mixed_assets_def eligible_def is_layout_image_dict)

lemma three_assets_eligible:
  "list_all plain_asset three_assets
   \<and> filter eligible three_assets =
       [JDict [(''type'', JStr ''layout_image''), (''url'', JStr ''https://img.example/1.png'')],
        JDict [(''asset_type'', JStr ''CAD Screenshot''),
               (''url'', JStr ''https://img.example/2.png'')]]
   \<and> List.map_filter url_of (filter eligible three_assets) =
       [''https://img.example/1.png'', ''https://img.example/2.png'']"
  by (simp add: three_assets_def eligible_def is_layout_image_dict List.map_filter_simps)

lemma three_assets_section:
  "image_section (sample_env (sample_server s q v j (image_after 4))) (api sample_self)
      (JDict [(''assets'', JList three_assets)]) (sample_requests, p) =
     (None, (sample_requests
               @ attempts (image_request (api sample_self) ''https://img.example/1.png'') 3
               @ attempts (image_request (api sample_self) ''https://img.example/2.png'') 3,
        append_els
          [Image (FromBytes ''PNG'') (Fin False (6586514455029351 / 17592186044416))
             (Fin False (4939885841272013 / 17592186044416)),
           Spacer 1 (float_mul (lit (1 / 4)) inch)]
          (add_header ''System Design Visualization'' p)))"
proof -
  let ?E = "sample_env (sample_server s q v j (image_after 4))"
  let ?h = "add_header ''System Design Visualization'' p"
  let ?r1 = "image_request (api sample_self) ''https://img.example/1.png''"
  let ?r2 = "image_request (api sample_self) ''https://img.example/2.png''"
  have d: "list_all is_dict three_assets" and ne: "three_assets \<noteq> []"
    by (simp_all add: three_assets_def)
  have l1: "retry_loop ?E (api sample_self) (JStr ''https://img.example/1.png'') 3 [0..<3]
      (sample_requests, ?h) = (False, (sample_requests @ attempts ?r1 3, ?h))"
    by (rule retry_all_fail)
       (simp_all add: sample_download sample_image_request sleeps_before_attempt
          sleeps_sample_requests)
  have l2: "retry_loop ?E (api sample_self) (JStr ''https://img.example/2.png'') 3 [0..<3]
      (sample_requests @ attempts ?r1 3, ?h) =
      (True, ((sample_requests @ attempts ?r1 3) @ attempts ?r2 3,
         snd (add_image ?E ''PNG'' (lit (8 / 10)) ?h)))"
    by (rule retry_third_succeeds)
       (simp_all add: cad_download cad_image_request sample_image_request sleeps_before_attempt
          sleeps_attempts_3 sleeps_sample_requests sample_add_image)
  show ?thesis
    unfolding image_section_assets [OF _ d ne, of "[(''assets'', JList three_assets)]", simplified]
    by (simp add: three_assets_eligible process_assets_url l1 l2 sample_add_image
        del: process_assets.simps(2))
qed

theorem image_retry_policy_witness:
  "(\<exists>p' bs.
      image_section
        (sample_env (sample_server sample_summary sample_pricing sample_assets JNull (image_after 2)))
        (api sample_self) (JDict [(''assets'', JList mixed_assets)])
        (sample_requests, sample_design_pdf sample_title_pdf)
      = (None, (sample_requests
                 @ attempts (image_request (api sample_self) ''https://img.example/1.png'') 3, p'))
      \<and> elements p' = elements (sample_design_pdf sample_title_pdf) @ bs
      \<and> length (filter is_image bs) = 1
      \<and> unavailable_paragraph \<notin> set bs)
   \<and> (\<exists>p' bs.
      image_section
        (sample_env (sample_server sample_summary sample_pricing sample_assets JNull (image_after 3)))
        (api sample_self) (JDict [(''assets'', JList mixed_assets)])
        (sample_requests, sample_design_pdf sample_title_pdf)
      = (None, (sample_requests
                 @ attempts (image_request (api sample_self) ''https://img.example/1.png'') 3, p'))
      \<and> elements p' = elements (sample_design_pdf sample_title_pdf) @ bs
      \<and> length (filter is_image bs) = 0
      \<and> count_list bs unavailable_paragraph = 1)
   \<and> filter_assets three_assets =
       Inr [JDict [(''type'', JStr ''layout_image''), (''url'', JStr ''https://img.example/1.png'')],
            JDict [(''asset_type'', JStr ''CAD Screenshot''),
                   (''url'', JStr ''https://img.example/2.png'')]]
   \<and> (\<exists>rs p' bs.
        map fst rs = [''https://img.example/1.png'', ''https://img.example/2.png'']
      \<and> list_all (\<lambda>(u, n, ok). 1 \<le> n \<and> n \<le> 3 \<and> (ok \<or> n = 3)) rs
      \<and> image_section
          (sample_env (sample_server sample_summary sample_pricing sample_assets JNull (image_after 4)))
          (api sample_self) (JDict [(''assets'', JList three_assets)])
          (sample_requests, sample_design_pdf sample_title_pdf)
        = (None, (sample_requests @ loop_trace (api sample_self) rs, p'))
      \<and> elements p' = elements (sample_design_pdf sample_title_pdf) @ visualization_header # bs
      \<and> length (filter is_image bs) = length (filter (\<lambda>(u, n, ok). ok) rs)
      \<and> count_list bs unavailable_paragraph = (if list_ex (\<lambda>(u, n, ok). ok) rs then 0 else 1))
   \<and> image_section
        (sample_env (sample_server sample_summary sample_pricing sample_assets JNull (image_after 4)))
        (api sample_self) (JDict [(''assets'', JList three_assets)])
        (sample_requests, sample_design_pdf sample_title_pdf)
      = (None, (sample_requests
                 @ attempts (image_request (api sample_self) ''https://img.example/1.png'') 3
                 @ attempts (image_request (api sample_self) ''https://img.example/2.png'') 3,
          append_els
            [Image (FromBytes ''PNG'') (Fin False (6586514455029351 / 17592186044416))
               (Fin False (4939885841272013 / 17592186044416)),
             Spacer 1 (float_mul (lit (1 / 4)) inch)]
            (add_header ''System Design Visualization'' (sample_design_pdf sample_title_pdf))))
   \<and> success (generate_design_report
        (sample_env (sample_server sample_summary sample_pricing sample_assets JNull (image_after 2)))
        sample_self ''D1'' (Some ''P1''))
   \<and> trace (generate_design_report
        (sample_env (sample_server sample_summary sample_pricing sample_assets JNull (image_after 2)))
        sample_self ''D1'' (Some ''P1''))
      = sample_requests
        @ [Request ''GET'' ''https://img.example/1.png''
             [(''Authorization'', ''Bearer K''), (''Content-Type'', ''application/json'')],
           Sleep 2,
           Request ''GET'' ''https://img.example/1.png''
             [(''Authorization'', ''Bearer K''), (''Content-Type'', ''application/json'')],
           Sleep 2,
           Request ''GET'' ''https://img.example/1.png''
             [(''Authorization'', ''Bearer K''), (''Content-Type'', ''application/json'')]]"
proof -
  let ?u = "''https://img.example/1.png''"
  let ?d = "[(''type'', JStr ''layout_image''), (''url'', JStr ?u)]"
  let ?A = "sample_env (sample_server sample_summary sample_pricing sample_assets JNull (image_after 2))"
  let ?B = "sample_env (sample_server sample_summary sample_pricing sample_assets JNull (image_after 3))"
  let ?C = "sample_env (sample_server sample_summary sample_pricing sample_assets JNull (image_after 4))"
  let ?p = "sample_design_pdf sample_title_pdf"
  let ?m = "[(''assets'', JList mixed_assets)]"
  let ?t = "[(''assets'', JList three_assets)]"
  have a: "map_of ?m ''assets'' = Some (JList mixed_assets) \<and> list_all is_dict mixed_assets
        \<and> filter eligible mixed_assets = [JDict ?d] \<and> map_of ?d ''url'' = Some (JStr ?u) \<and> ?u \<noteq> []
        \<and> fst (download_image ?A (api sample_self)
              (before_attempt (image_request (api sample_self) ?u) 0 sample_requests) (JStr ?u)) = None
        \<and> fst (download_image ?A (api sample_self)
              (before_attempt (image_request (api sample_self) ?u) 1 sample_requests) (JStr ?u)) = None
        \<and> fst (download_image ?A (api sample_self)
              (before_attempt (image_request (api sample_self) ?u) 2 sample_requests) (JStr ?u)) = Some ''PNG''
        \<and> fst (add_image ?A ''PNG'' (lit (8 / 10)) (add_header ''System Design Visualization'' ?p))"
    by (simp add: mixed_assets_eligible sample_download sample_image_request sample_sleeps
        sample_add_image)
  have b: "map_of ?m ''assets'' = Some (JList mixed_assets) \<and> list_all is_dict mixed_assets
        \<and> filter eligible mixed_assets = [JDict ?d] \<and> map_of ?d ''url'' = Some (JStr ?u) \<and> ?u \<noteq> []
        \<and> fst (download_image ?B (api sample_self)
              (before_attempt (image_request (api sample_self) ?u) 0 sample_requests) (JStr ?u)) = None
        \<and> fst (download_image ?B (api sample_self)
              (before_attempt (image_request (api sample_self) ?u) 1 sample_requests) (JStr ?u)) = None
        \<and> fst (download_image ?B (api sample_self)
              (before_attempt (image_request (api sample_self) ?u) 2 sample_requests) (JStr ?u)) = None"
    by (simp add: mixed_assets_eligible sample_download sample_image_request sample_sleeps)
  have c: "map_of ?t ''assets'' = Some (JList three_assets) \<and> three_assets \<noteq> []
        \<and> list_all plain_asset three_assets"
    by (simp add: three_assets_eligible) (simp add: three_assets_def)
  have f: "list_all is_dict three_assets"
    by (simp add: three_assets_def)
  note A = image_retry_policy [where E = ?A and a = "api sample_self" and u = ?u
      and tr = sample_requests and p = ?p and ad = ?m and assets = mixed_assets and d = ?d
      and c = "''PNG''"]
  note B = image_retry_policy [where E = ?B and a = "api sample_self" and u = ?u
      and tr = sample_requests and p = ?p and ad = ?m and assets = mixed_assets and d = ?d]
  note C = image_retry_policy [where E = ?C and a = "api sample_self"
      and tr = sample_requests and p = ?p and ad = ?t and assets = three_assets]
  from A a have 1: "\<exists>p' bs.
      image_section ?A (api sample_self) (JDict ?m) (sample_requests, ?p)
      = (None, (sample_requests @ attempts (image_request (api sample_self) ?u) 3, p'))
      \<and> elements p' = elements ?p @ bs
      \<and> length (filter is_image bs) = 1
      \<and> unavailable_paragraph \<notin> set bs"
    by blast
  from B b have 2: "\<exists>p' bs.
      image_section ?B (api sample_self) (JDict ?m) (sample_requests, ?p)
      = (None, (sample_requests @ attempts (image_request (api sample_self) ?u) 3, p'))
      \<and> elements p' = elements ?p @ bs
      \<and> length (filter is_image bs) = 0
      \<and> count_list bs unavailable_paragraph = 1"
    by blast
  from C f have 3: "filter_assets three_assets = Inr (filter eligible three_assets)"
    by blast
  from C c have 4: "\<exists>rs p' bs.
        map fst rs = List.map_filter url_of (filter eligible three_assets)
      \<and> list_all (\<lambda>(u, n, ok). 1 \<le> n \<and> n \<le> 3 \<and> (ok \<or> n = 3)) rs
      \<and> image_section ?C (api sample_self) (JDict ?t) (sample_requests, ?p)
        = (None, (sample_requests @ loop_trace (api sample_self) rs, p'))
      \<and> elements p' = elements ?p @ visualization_header # bs
      \<and> length (filter is_image bs) = length (filter (\<lambda>(u, n, ok). ok) rs)
      \<and> count_list bs unavailable_paragraph = (if list_ex (\<lambda>(u, n, ok). ok) rs then 0 else 1)"
    by blast
  show ?thesis
    using 1 2 3 4
    by (simp add: three_assets_eligible three_assets_section sample_run_third attempts_simps
        sample_image_request)
qed

section \<open>Rendering twice\<close>


lemma layout_footer_time [simp]: "layout (E\<lparr>footer_time := t\<rparr>) = layout E"
  by simp




end
